theory Spec2Isabelle
  imports Complex_Main "HOL-Library.Sublist" "HOL-Library.Log_Nat"
begin

section \<open>Values of the service module\<close>

text \<open>
  The model follows \<^verbatim>\<open>src/services/geminiService.ts\<close>, function by function.

  A JavaScript \<^verbatim>\<open>number\<close> is an IEEE 754 double. It is modelled as a real, and the rounding
  of an arithmetic result to the nearest double as the function \<open>fl\<close> defined below.
  \<^verbatim>\<open>cropToOriginalAspectRatio\<close> truncates the numbers it computes to whole pixels, where the
  last bit of a quotient can decide the pixel count, and the percent to pixel round trip
  compares the numbers it computes: there every operation is rounded. \<^verbatim>\<open>resizeImage\<close> and
  \<^verbatim>\<open>markImage\<close> take their canvas sides from whole numbers and hand the numbers they
  compute to the drawing calls; their arithmetic is left exact, each number standing for the
  double next to it (at a relative distance of at most \<open>2^-53\<close> per operation).

  Division agrees with JavaScript's for a non-zero divisor only (JavaScript gives
  \<^verbatim>\<open>Infinity\<close> or \<^verbatim>\<open>NaN\<close>, HOL gives 0), so every theorem about a quotient assumes the
  divisor positive.

  A string is a list of characters; a character stands for a UTF-16 code unit below 256.
\<close>

type_synonym number = real

subsection \<open>Rounding to a double\<close>

text \<open>
  For \<open>x > 0\<close>, \<open>binade x\<close> is the exponent \<open>e\<close> with \<open>2^e \<le> x < 2^(e+1)\<close> (read off the
  bit length of \<open>\<lfloor>x\<rfloor>\<close> when \<open>x \<ge> 1\<close>, of \<open>\<lceil>1/x\<rceil> - 1\<close> otherwise). \<open>round_even\<close> is
  rounding to the nearest integer, a tie going to the even one. \<open>fl x\<close> is \<open>x\<close> rounded to
  53 significant bits, the default rounding of every JavaScript operation. The exponent is
  not bounded: overflow (beyond \<open>1.8e308\<close>) and gradual underflow (below \<open>2.2e-308\<close>) are
  outside the model.
\<close>

definition binade :: "real \<Rightarrow> int" where
  "binade x = (if 1 \<le> x then bitlen \<lfloor>x\<rfloor> - 1 else - bitlen (\<lceil>1 / x\<rceil> - 1))"

definition round_even :: "real \<Rightarrow> int" where
  "round_even y =
     (let n = \<lfloor>y\<rfloor>; d = y - of_int n
      in if d < 1 / 2 then n
         else if 1 / 2 < d then n + 1
         else if even n then n else n + 1)"

definition fl :: "real \<Rightarrow> number" where
  "fl x =
     (if x = 0 then 0
      else let ulp = 2 powi (binade \<bar>x\<bar> - 52)
           in sgn x * (of_int (round_even (\<bar>x\<bar> / ulp)) * ulp))"

text \<open>
  One constructor per \<^verbatim>\<open>throw\<close> and \<^verbatim>\<open>reject\<close> of the module (the messages are
  Spanish sentences; the line of each is given), and one for whatever the AI client library
  throws.
\<close>

datatype error =
    InvalidDataURL            \<comment> \<open>lines 13 and 168\<close>
  | MimeTypeError             \<comment> \<open>lines 15 and 170\<close>
  | InvalidCharacterError     \<comment> \<open>thrown by \<^verbatim>\<open>atob\<close>, line 18\<close>
  | FileReadEmpty             \<comment> \<open>lines 34 and 103\<close>
  | ImageLoadError            \<comment> \<open>lines 41 and 152\<close>
  | FileReaderError           \<comment> \<open>lines 43 and 154\<close>
  | CropContextError          \<comment> \<open>line 80\<close>
  | CropImageLoadError        \<comment> \<open>line 89\<close>
  | ContextError              \<comment> \<open>line 114\<close>
  | BlobError                 \<comment> \<open>line 148\<close>
  | ReaderRejected            \<comment> \<open>lines 164 and 183: the reader's own error\<close>
  | MarkFileReadEmpty         \<comment> \<open>line 198\<close>
  | MarkContextError          \<comment> \<open>line 210\<close>
  | MarkBlobError             \<comment> \<open>line 260\<close>
  | MarkImageLoadError        \<comment> \<open>line 264\<close>
  | MarkFileReaderError       \<comment> \<open>line 266\<close>
  | ApiKeyMissing             \<comment> \<open>line 282\<close>
  | NoImageReturned           \<comment> \<open>line 469\<close>
  | NoRotatedImageReturned    \<comment> \<open>line 527\<close>
  | ServiceError string       \<comment> \<open>an exception of \<^verbatim>\<open>ai.models.generateContent\<close>\<close>

subsection \<open>Strings\<close>

text \<open>
  \<^verbatim>\<open>s.split(',')\<close>: the pieces between the commas, in order; never empty
  (\<^verbatim>\<open>"".split(',')\<close> is \<^verbatim>\<open>[""]\<close>).
\<close>

fun split_comma :: "string \<Rightarrow> string list" where
  "split_comma [] = [[]]"
| "split_comma (c # cs) =
     (if c = CHR '','' then [] # split_comma cs
      else (case split_comma cs of
              [] \<Rightarrow> [[c]]
            | x # xs \<Rightarrow> (c # x) # xs))"

text \<open>
  The regular expression \<^verbatim>\<open>/:(.*?);/\<close> of lines 14 and 169. The dot matches every code
  unit but a line terminator; the lazy group takes the shortest run that is followed by a
  semicolon. \<open>lazy_group\<close> is the match of \<^verbatim>\<open>(.*?);\<close> at the head of a string, and
  \<open>match_mime\<close> tries every colon from the left and returns group 1 of the first match.
\<close>

definition is_line_terminator :: "char \<Rightarrow> bool" where
  "is_line_terminator c = (c = CHR 0x0A \<or> c = CHR 0x0D)"

fun lazy_group :: "string \<Rightarrow> string option" where
  "lazy_group [] = None"
| "lazy_group (c # cs) =
     (if c = CHR '';'' then Some []
      else if is_line_terminator c then None
      else map_option ((#) c) (lazy_group cs))"

fun match_mime :: "string \<Rightarrow> string option" where
  "match_mime [] = None"
| "match_mime (c # cs) =
     (if c = CHR '':'' then
        (case lazy_group cs of
           Some g \<Rightarrow> Some g
         | None \<Rightarrow> match_mime cs)
      else match_mime cs)"

text \<open>
  White space as \<^verbatim>\<open>\s\<close> and \<^verbatim>\<open>trim\<close> read it, among the code units below 256:
  tab, line feed, vertical tab, form feed, carriage return, space, no-break space.
\<close>

definition is_space :: "char \<Rightarrow> bool" where
  "is_space c = (c \<in> {CHR 0x09, CHR 0x0A, CHR 0x0B, CHR 0x0C, CHR 0x0D, CHR 0x20, CHR 0xA0})"

definition trim :: "string \<Rightarrow> string" where
  "trim s = rev (dropWhile is_space (rev (dropWhile is_space s)))"

text \<open>\<^verbatim>\<open>s.replace(/\s+/g, '-')\<close>, line 521: every maximal run of white space becomes one hyphen.\<close>

function replace_spaces :: "string \<Rightarrow> string" where
  "replace_spaces [] = []"
| "replace_spaces (c # cs) =
     (if is_space c then CHR ''-'' # replace_spaces (dropWhile is_space cs)
      else c # replace_spaces cs)"
  by pat_completeness auto
termination
  by (relation "measure length") (auto simp: less_Suc_eq_le length_dropWhile_le)

subsection \<open>Shadow descriptor (lines 270 to 276)\<close>

definition getShadowDescription :: "number \<Rightarrow> string" where
  "getShadowDescription intensity =
     (if intensity \<le> 10 then ''very faint and almost invisible''
      else if intensity \<le> 35 then ''subtle and soft''
      else if intensity \<le> 65 then ''normal and realistic''
      else if intensity \<le> 85 then ''strong and defined''
      else ''very dark and dramatic with high contrast'')"

subsection \<open>Images, canvases, files and the browser\<close>

text \<open>
  A decoded \<^verbatim>\<open>Image\<close>: its source and its intrinsic size (what \<^verbatim>\<open>img.width\<close>,
  \<^verbatim>\<open>img.naturalWidth\<close> and the two heights read for an image that is not in a document).
\<close>

datatype image = Image (src: string) (naturalWidth: nat) (naturalHeight: nat)

text \<open>
  A canvas is its size and the drawing calls made on it, in order.
  \<open>FillRect style x y w h\<close> is \<^verbatim>\<open>fillStyle = style; fillRect(x, y, w, h)\<close>.
  \<open>DrawImage3\<close>, \<open>DrawImage5\<close> and \<open>DrawImage9\<close> are \<^verbatim>\<open>drawImage\<close> with a position, with a
  destination rectangle, and with a source and a destination rectangle.
  \<open>FillCircle style x y r\<close> is \<^verbatim>\<open>beginPath(); arc(x, y, r, 0, 2 * Math.PI, false)\<close> filled
  with \<open>style\<close>, and \<open>StrokeCircle style lineWidth x y r\<close> is the stroke of the same path.
\<close>

datatype draw =
    FillRect string number number number number
  | DrawImage3 image number number
  | DrawImage5 image number number number number
  | DrawImage9 image number number number number number number number number
  | FillCircle string number number number
  | StrokeCircle string number number number number

record canvas =
  width :: nat
  height :: nat
  drawn :: "draw list"

text \<open>
  A canvas side is a whole number of pixels. The number assigned to \<^verbatim>\<open>canvas.width\<close> or
  \<^verbatim>\<open>canvas.height\<close> is converted as the DOM converts it to an \<^verbatim>\<open>unsigned long\<close>: the
  fraction is dropped, the result is taken modulo \<open>2^32\<close>, and a value above \<open>2^31 - 1\<close>
  sets the side to its default (300 for the width, 150 for the height).
\<close>

definition canvas_side :: "nat \<Rightarrow> number \<Rightarrow> nat" where
  "canvas_side dflt v =
     (let n = (if v < 0 then \<lceil>v\<rceil> else \<lfloor>v\<rfloor>) mod 4294967296
      in if n \<le> 2147483647 then nat n else dflt)"

text \<open>
  The contents of a file: the encoding of a canvas (\<^verbatim>\<open>canvas.toBlob\<close> with its type and
  quality), or bytes. A \<open>File\<close> is the arguments of its constructor, but the time stamp
  \<^verbatim>\<open>lastModified: Date.now()\<close>.
\<close>

datatype blob = CanvasBlob canvas string number | ByteArray "nat list"

record File =
  name :: string
  type :: string
  bits :: blob

text \<open>
  What the browser decides, as parameters of the model:
  \<^item> \<open>readAsDataURL\<close>: the result of the \<^verbatim>\<open>FileReader\<close>, or \<open>None\<close> when \<^verbatim>\<open>onerror\<close> fires
    (an empty string stands for an empty result);
  \<^item> \<open>loadImage\<close>: the intrinsic width and height of the image at a source, or \<open>None\<close> when
    its \<^verbatim>\<open>onerror\<close> fires;
  \<^item> \<open>getContext\<close>: whether \<^verbatim>\<open>canvas.getContext('2d')\<close> gives a context;
  \<^item> \<open>toBlob\<close>: whether \<^verbatim>\<open>canvas.toBlob\<close> gives a blob;
  \<^item> \<open>toDataURL\<close>: the string of \<^verbatim>\<open>canvas.toDataURL('image/jpeg', 0.95)\<close>;
  \<^item> \<open>atob\<close>: the decoded base64 string, or \<open>None\<close> when \<^verbatim>\<open>atob\<close> throws.
\<close>

record dom =
  readAsDataURL :: "File \<Rightarrow> string option"
  loadImage :: "string \<Rightarrow> (nat \<times> nat) option"
  getContext :: "canvas \<Rightarrow> bool"
  toBlob :: "canvas \<Rightarrow> bool"
  toDataURL :: "canvas \<Rightarrow> string"
  atob :: "string \<Rightarrow> string option"

subsection \<open>\<^verbatim>\<open>dataURLtoFile\<close> (lines 11 to 25)\<close>

text \<open>
  The loop \<^verbatim>\<open>while(n--){ u8arr[n] = bstr.charCodeAt(n); }\<close>: \<open>n\<close> is decremented before
  the body runs.
\<close>

fun fill_u8arr :: "nat \<Rightarrow> string \<Rightarrow> nat list \<Rightarrow> nat list" where
  "fill_u8arr 0 bstr u8arr = u8arr"
| "fill_u8arr (Suc n) bstr u8arr = fill_u8arr n bstr (u8arr[n := of_char (bstr ! n)])"

definition dataURLtoFile :: "dom \<Rightarrow> string \<Rightarrow> string \<Rightarrow> error + File" where
  "dataURLtoFile env dataurl filename =
     (let arr = split_comma dataurl in
      if length arr < 2 then Inl InvalidDataURL
      else (case match_mime (arr ! 0) of
              None \<Rightarrow> Inl MimeTypeError
            | Some mime \<Rightarrow>
                if mime = [] then Inl MimeTypeError
                else (case atob env (arr ! 1) of
                        None \<Rightarrow> Inl InvalidCharacterError
                      | Some bstr \<Rightarrow>
                          let n = length bstr;
                              u8arr = fill_u8arr n bstr (replicate n 0)
                          in Inr \<lparr>name = filename, type = mime, bits = ByteArray u8arr\<rparr>)))"

subsection \<open>\<^verbatim>\<open>getImageDimensions\<close> (lines 28 to 45)\<close>

definition getImageDimensions :: "dom \<Rightarrow> File \<Rightarrow> error + (nat \<times> nat)" where
  "getImageDimensions env file =
     (case readAsDataURL env file of
        None \<Rightarrow> Inl FileReaderError
      | Some result \<Rightarrow>
          if result = [] then Inl FileReadEmpty
          else (case loadImage env result of
                  None \<Rightarrow> Inl ImageLoadError
                | Some (w, h) \<Rightarrow> Inr (w, h)))"

subsection \<open>\<^verbatim>\<open>cropToOriginalAspectRatio\<close> (lines 48 to 91)\<close>

text \<open>
  Every quotient, product and difference of lines 59 to 71 is rounded to a double before
  \<^verbatim>\<open>canvas.width\<close> and \<^verbatim>\<open>canvas.height\<close> drop its fraction.
\<close>

definition cropToOriginalAspectRatio ::
  "dom \<Rightarrow> string \<Rightarrow> number \<Rightarrow> number \<Rightarrow> number \<Rightarrow> error + string" where
  "cropToOriginalAspectRatio env imageDataUrl originalWidth originalHeight targetDimension =
     (case loadImage env imageDataUrl of
        None \<Rightarrow> Inl CropImageLoadError
      | Some (w, h) \<Rightarrow>
          let img = Image imageDataUrl w h;
              aspectRatio = fl (originalWidth / originalHeight);
              contentWidth = (if aspectRatio > 1 then targetDimension
                              else fl (targetDimension * aspectRatio));
              contentHeight = (if aspectRatio > 1 then fl (targetDimension / aspectRatio)
                               else targetDimension);
              x = fl (fl (targetDimension - contentWidth) / 2);
              y = fl (fl (targetDimension - contentHeight) / 2);
              canvas = \<lparr>width = canvas_side 300 contentWidth,
                        height = canvas_side 150 contentHeight, drawn = []\<rparr>
          in if \<not> getContext env canvas then Inl CropContextError
             else
               let canvas = canvas\<lparr>drawn := drawn canvas @
                     [DrawImage9 img x y contentWidth contentHeight 0 0 contentWidth contentHeight]\<rparr>
               in Inr (toDataURL env canvas))"

subsection \<open>\<^verbatim>\<open>resizeImage\<close> (lines 97 to 156)\<close>

definition resizeImage :: "dom \<Rightarrow> File \<Rightarrow> number \<Rightarrow> error + File" where
  "resizeImage env file targetDimension =
     (case readAsDataURL env file of
        None \<Rightarrow> Inl FileReaderError
      | Some result \<Rightarrow>
          if result = [] then Inl FileReadEmpty
          else (case loadImage env result of
                  None \<Rightarrow> Inl ImageLoadError
                | Some (w, h) \<Rightarrow>
                    let img = Image result w h;
                        canvas = \<lparr>width = canvas_side 300 targetDimension,
                                  height = canvas_side 150 targetDimension, drawn = []\<rparr>
                    in if \<not> getContext env canvas then Inl ContextError
                       else
                         let canvas = canvas\<lparr>drawn := drawn canvas @
                               [FillRect ''black'' 0 0 targetDimension targetDimension]\<rparr>;
                             aspectRatio = real w / real h;
                             newWidth = (if aspectRatio > 1 then targetDimension
                                         else targetDimension * aspectRatio);
                             newHeight = (if aspectRatio > 1 then targetDimension / aspectRatio
                                          else targetDimension);
                             x = (targetDimension - newWidth) / 2;
                             y = (targetDimension - newHeight) / 2;
                             canvas = canvas\<lparr>drawn := drawn canvas @
                               [DrawImage5 img x y newWidth newHeight]\<rparr>
                         in if toBlob env canvas
                            then Inr \<lparr>name = name file, type = ''image/jpeg'',
                                      bits = CanvasBlob canvas ''image/jpeg'' (95 / 100)\<rparr>
                            else Inl BlobError))"

subsection \<open>\<^verbatim>\<open>fileToPart\<close> and \<^verbatim>\<open>fileToDataUrl\<close> (lines 159 to 185)\<close>

text \<open>
  A part of a request or of a response: a text, inline data (MIME type and base64), or a
  part with neither (\<^verbatim>\<open>part.inlineData\<close> is then undefined, as for a text).
\<close>

record inlineData =
  mimeType :: string
  data :: string

datatype part = TextPart string | InlineDataPart inlineData | OtherPart

definition fileToPart :: "dom \<Rightarrow> File \<Rightarrow> error + part" where
  "fileToPart env file =
     (case readAsDataURL env file of
        None \<Rightarrow> Inl ReaderRejected
      | Some dataUrl \<Rightarrow>
          let arr = split_comma dataUrl in
          if length arr < 2 then Inl InvalidDataURL
          else (case match_mime (arr ! 0) of
                  None \<Rightarrow> Inl MimeTypeError
                | Some m \<Rightarrow>
                    if m = [] then Inl MimeTypeError
                    else Inr (InlineDataPart \<lparr>mimeType = m, data = arr ! 1\<rparr>)))"

definition fileToDataUrl :: "dom \<Rightarrow> File \<Rightarrow> error + string" where
  "fileToDataUrl env file =
     (case readAsDataURL env file of
        None \<Rightarrow> Inl ReaderRejected
      | Some result \<Rightarrow> Inr result)"

subsection \<open>\<^verbatim>\<open>markImage\<close> (lines 188 to 268)\<close>

record position =
  xPercent :: number
  yPercent :: number

definition markImage :: "dom \<Rightarrow> File \<Rightarrow> position \<Rightarrow> number \<times> number \<Rightarrow> error + File" where
  "markImage env paddedSquareFile pos originalDimensions =
     (case readAsDataURL env paddedSquareFile of
        None \<Rightarrow> Inl MarkFileReaderError
      | Some result \<Rightarrow>
          if result = [] then Inl MarkFileReadEmpty
          else (case loadImage env result of
                  None \<Rightarrow> Inl MarkImageLoadError
                | Some (w, h) \<Rightarrow>
                    let img = Image result w h;
                        canvas = \<lparr>width = canvas_side 300 (real w),
                                  height = canvas_side 150 (real h), drawn = []\<rparr>;
                        targetDimension = real (width canvas)
                    in if \<not> getContext env canvas then Inl MarkContextError
                       else
                         let canvas = canvas\<lparr>drawn := drawn canvas @ [DrawImage3 img 0 0]\<rparr>;
                             (originalWidth, originalHeight) = originalDimensions;
                             aspectRatio = originalWidth / originalHeight;
                             contentWidth = (if aspectRatio > 1 then targetDimension
                                             else targetDimension * aspectRatio);
                             contentHeight = (if aspectRatio > 1 then targetDimension / aspectRatio
                                              else targetDimension);
                             offsetX = (targetDimension - contentWidth) / 2;
                             offsetY = (targetDimension - contentHeight) / 2;
                             markerXInContent = (xPercent pos / 100) * contentWidth;
                             markerYInContent = (yPercent pos / 100) * contentHeight;
                             finalMarkerX = offsetX + markerXInContent;
                             finalMarkerY = offsetY + markerYInContent;
                             markerRadius =
                               max 5 (min (real (width canvas)) (real (height canvas)) * (15 / 1000));
                             canvas = canvas\<lparr>drawn := drawn canvas @
                               [FillCircle ''red'' finalMarkerX finalMarkerY markerRadius,
                                StrokeCircle ''white'' (markerRadius * (2 / 10))
                                  finalMarkerX finalMarkerY markerRadius]\<rparr>
                         in if toBlob env canvas
                            then Inr \<lparr>name = ''marked-'' @ name paddedSquareFile,
                                      type = ''image/jpeg'',
                                      bits = CanvasBlob canvas ''image/jpeg'' (95 / 100)\<rparr>
                            else Inl MarkBlobError))"

subsection \<open>\<^verbatim>\<open>getApiKey\<close> (lines 279 to 285)\<close>

text \<open>\<open>API_KEY\<close> is the value of \<^verbatim>\<open>process.env.API_KEY\<close>, \<open>None\<close> when it is not set.\<close>

definition getApiKey :: "string option \<Rightarrow> error + string" where
  "getApiKey API_KEY =
     (let apiKey = trim (case API_KEY of None \<Rightarrow> [] | Some k \<Rightarrow> k) in
      if apiKey = [] \<or> apiKey = ''undefined'' then Inl ApiKeyMissing else Inr apiKey)"

subsection \<open>The content rectangle in the words of the specification\<close>

text \<open>
  Section 4.1 of the specification: with \<open>aspectRatio = width / height\<close>, if
  \<open>aspectRatio > 1\<close> then \<open>contentWidth = D\<close> and \<open>contentHeight = D / aspectRatio\<close>, else
  \<open>contentHeight = D\<close> and \<open>contentWidth = D * aspectRatio\<close>; the offsets are
  \<open>(D - contentWidth) / 2\<close> and \<open>(D - contentHeight) / 2\<close>. \<^verbatim>\<open>resizeImage\<close>,
  \<^verbatim>\<open>markImage\<close> and \<^verbatim>\<open>cropToOriginalAspectRatio\<close> compute it each on its own (the last
  one rounded); the theorems compare them with this definition, which is exact.
\<close>

record rect =
  offsetX :: number
  offsetY :: number
  contentWidth :: number
  contentHeight :: number

definition spec_contentRect :: "number \<Rightarrow> number \<Rightarrow> number \<Rightarrow> rect" where
  "spec_contentRect w h D =
     (let aspectRatio = w / h;
          cw = (if aspectRatio > 1 then D else D * aspectRatio);
          ch = (if aspectRatio > 1 then D / aspectRatio else D)
      in \<lparr>offsetX = (D - cw) / 2, offsetY = (D - ch) / 2, contentWidth = cw, contentHeight = ch\<rparr>)"

subsection \<open>The percent to pixel mapping and its inverse\<close>

text \<open>
  Lines 234 to 239 of \<^verbatim>\<open>markImage\<close> map a placement point to a pixel of the padded square:
  \<^verbatim>\<open>finalMarkerX = offsetX + (position.xPercent / 100) * contentWidth\<close>, and the same
  vertically. Lines 341 to 346 of \<^verbatim>\<open>handleTouchEnd\<close> (\<^verbatim>\<open>src/unnamed/part_000\<close>) map a
  pixel back: \<^verbatim>\<open>imageX = dropX - offsetX\<close>, the drop is ignored when \<open>imageX\<close> or \<open>imageY\<close>
  is outside the rectangle, and otherwise \<^verbatim>\<open>xPercent = (imageX / renderedWidth) * 100\<close>.
  Both are taken here over one content rectangle (\<open>renderedWidth\<close> and \<open>renderedHeight\<close>
  are its width and height), every operation rounded to a double.
\<close>

definition finalMarker :: "rect \<Rightarrow> position \<Rightarrow> number \<times> number" where
  "finalMarker R pos =
     (let markerXInContent = fl (fl (xPercent pos / 100) * contentWidth R);
          markerYInContent = fl (fl (yPercent pos / 100) * contentHeight R);
          finalMarkerX = fl (offsetX R + markerXInContent);
          finalMarkerY = fl (offsetY R + markerYInContent)
      in (finalMarkerX, finalMarkerY))"

definition dropPercent :: "rect \<Rightarrow> number \<times> number \<Rightarrow> position option" where
  "dropPercent R dropPoint =
     (let (dropX, dropY) = dropPoint;
          imageX = fl (dropX - offsetX R);
          imageY = fl (dropY - offsetY R)
      in if \<not> (imageX < 0 \<or> imageX > contentWidth R \<or> imageY < 0 \<or> imageY > contentHeight R)
         then Some \<lparr>xPercent = fl (fl (imageX / contentWidth R) * 100),
                    yPercent = fl (fl (imageY / contentHeight R) * 100)\<rparr>
         else None)"

section \<open>The AI service and the two pipelines\<close>

subsection \<open>Requests, responses and promises\<close>

text \<open>
  A request is the model identifier and the ordered parts of \<^verbatim>\<open>contents: { parts: [...] }\<close>.
  A response has optional candidates, each with an optional content with optional parts,
  and the text that \<^verbatim>\<open>response.text\<close> reads. The client
  \<^verbatim>\<open>new GoogleGenAI({ apiKey })\<close> is a parameter of the model: for a key, the function from
  a request to what \<^verbatim>\<open>ai.models.generateContent\<close> returns or throws.
\<close>

record request =
  model :: string
  contents :: "part list"

datatype content = Content (parts: "part list option")

datatype candidate = Candidate (content: "content option")

record response =
  candidates :: "candidate list option"
  text' :: string

type_synonym client = "string \<Rightarrow> request \<Rightarrow> error + response"

text \<open>
  An asynchronous computation takes the requests sent to the AI service so far and gives
  its outcome (\<open>Inl\<close> a rejection) with the requests sent when it settles. \<open>await\<close> is
  \<^verbatim>\<open>await\<close> followed by the rest of the function, \<open>try_catch\<close> is a
  \<^verbatim>\<open>try { ... } catch (error) { ... }\<close> block, \<open>settled\<close> is a step that sends nothing.
\<close>

type_synonym 'a promise = "request list \<Rightarrow> (error + 'a) \<times> request list"

definition resolve :: "'a \<Rightarrow> 'a promise" where
  "resolve x = (\<lambda>sent. (Inr x, sent))"

definition reject :: "error \<Rightarrow> 'a promise" where
  "reject e = (\<lambda>sent. (Inl e, sent))"

definition settled :: "error + 'a \<Rightarrow> 'a promise" where
  "settled r = (\<lambda>sent. (r, sent))"

definition await :: "'a promise \<Rightarrow> ('a \<Rightarrow> 'b promise) \<Rightarrow> 'b promise" where
  "await m f =
     (\<lambda>sent. case m sent of
                (Inl e, sent') \<Rightarrow> (Inl e, sent')
              | (Inr x, sent') \<Rightarrow> f x sent')"

definition try_catch :: "'a promise \<Rightarrow> (error \<Rightarrow> 'a promise) \<Rightarrow> 'a promise" where
  "try_catch m handler =
     (\<lambda>sent. case m sent of
                (Inl e, sent') \<Rightarrow> handler e sent'
              | (Inr x, sent') \<Rightarrow> (Inr x, sent'))"

definition generateContent :: "(request \<Rightarrow> error + response) \<Rightarrow> request \<Rightarrow> response promise" where
  "generateContent ai req = (\<lambda>sent. (ai req, sent @ [req]))"

text \<open>
  \<^verbatim>\<open>response.candidates?.[0]?.content?.parts?.find(part => part.inlineData)\<close> and the test
  \<^verbatim>\<open>imagePartFromResponse?.inlineData\<close> of lines 442 to 444 and 515 to 517: the inline data
  of the first part of the first candidate that carries some.
\<close>

fun has_inlineData :: "part \<Rightarrow> bool" where
  "has_inlineData (InlineDataPart d) = True"
| "has_inlineData p = False"

definition imagePartFromResponse :: "response \<Rightarrow> inlineData option" where
  "imagePartFromResponse response =
     (case candidates response of
        None \<Rightarrow> None
      | Some [] \<Rightarrow> None
      | Some (c # cs) \<Rightarrow>
          (case content c of
             None \<Rightarrow> None
           | Some ct \<Rightarrow>
               (case parts ct of
                  None \<Rightarrow> None
                | Some ps \<Rightarrow>
                    (case find has_inlineData ps of
                       Some (InlineDataPart d) \<Rightarrow> Some d
                     | _ \<Rightarrow> None))))"

subsection \<open>The prompts, verbatim\<close>

definition lightingPrompt :: string where
  \<open>lightingPrompt =
     ''You are an expert in lighting analysis for photography '' @
     ''and CGI. Analyze the provided scene image and describe '' @
     ''the primary light sources in a single, concise sentence. '' @
     ''Focus on the direction, intensity, and color of the '' @
     ''light. Examples: "The scene is lit by a soft, warm '' @
     ''light coming from a large window on the right." or '' @
     ''"The primary light source is a bright, cool overhead '' @
     ''light, causing sharp shadows directly underneath objects." '' @
     ''or "The scene has multiple light sources, including '' @
     ''a warm lamp on the left and cool ambient light from '' @
     ''a window on the right."''\<close>

definition descriptionPrompt :: string where
  \<open>descriptionPrompt =
     ''\<newline>'' @
     ''You are an expert scene analyst. I will provide you '' @
     ''with an image that has a red marker on it.\<newline>'' @
     ''Your task is to provide a very dense, semantic description '' @
     ''of what is at the exact location of the red marker.\<newline>'' @
     ''Be specific about surfaces, objects, and spatial relationships. '' @
     ''This description will be used to guide another AI '' @
     ''in placing a new object.\<newline>'' @
     ''\<newline>'' @
     ''Example semantic descriptions:\<newline>'' @
     ''- "The product location is on the dark grey fabric '' @
     ''of the sofa cushion, in the middle section, slightly '' @
     ''to the left of the white throw pillow."\<newline>'' @
     ''- "The product location is on the light-colored wooden '' @
     ''floor, in the patch of sunlight coming from the window, '' @
     ''about a foot away from the leg of the brown leather '' @
     ''armchair."\<newline>'' @
     ''- "The product location is on the white marble countertop, '' @
     ''just to the right of the stainless steel sink and '' @
     ''behind the green potted plant."\<newline>'' @
     ''\<newline>'' @
     ''On top of the semantic description above, give a rough '' @
     ''relative-to-image description.\<newline>'' @
     ''\<newline>'' @
     ''Example relative-to-image descriptions:\<newline>'' @
     ''- "The product location is about 10% away from the '' @
     ''bottom-left of the image."\<newline>'' @
     ''- "The product location is about 20% away from the '' @
     ''right of the image."\<newline>'' @
     ''\<newline>'' @
     ''Provide only the two descriptions concatenated in '' @
     ''a few sentences.\<newline>''\<close>

definition customInstructions_before :: string where
  \<open>customInstructions_before =
     ''\<newline>'' @
     ''-   **User's Custom Instructions (Override):**\<newline>'' @
     ''    -   If provided, these instructions take precedence. '' @
     ''"''\<close>

definition customInstructions_after :: string where
  \<open>customInstructions_after =
     ''"''\<close>

definition prompt_before_location :: string where
  \<open>prompt_before_location =
     ''\<newline>'' @
     ''**Role:**\<newline>'' @
     ''You are a visual composition expert. Your task is '' @
     ''to take a 'product' image and seamlessly integrate '' @
     ''it into a 'scene' image, adjusting for perspective, '' @
     ''lighting, and scale.\<newline>'' @
     ''\<newline>'' @
     ''**Specifications:**\<newline>'' @
     ''-   **Product to add:**\<newline>'' @
     ''    The first image provided. It may be surrounded '' @
     ''by black padding or background, which you should ignore '' @
     ''and treat as transparent and only keep the product.\<newline>'' @
     ''-   **Scene to use:**\<newline>'' @
     ''    The second image provided. It may also be surrounded '' @
     ''by black padding, which you should ignore.\<newline>'' @
     ''-   **Placement Instruction (Crucial):**\<newline>'' @
     ''    -   You must place the product at the location '' @
     ''described below exactly. You should only place the '' @
     ''product once. Use this dense, semantic description '' @
     ''to find the exact spot in the scene.\<newline>'' @
     ''    -   **Product location Description:** "''\<close>

definition prompt_before_lighting :: string where
  \<open>prompt_before_lighting =
     ''"\<newline>'' @
     ''-   **Lighting & Shadow Instructions (Crucial):**\<newline>'' @
     ''    -   **Scene Lighting Analysis:** "''\<close>

definition prompt_before_shadow :: string where
  \<open>prompt_before_shadow =
     ''"\<newline>'' @
     ''    -   Based on this analysis, you MUST render shadows '' @
     ''for the product that match the scene's lighting. The '' @
     ''shadows should be subtle, context-aware, and accurately '' @
     ''reflect the direction, softness, and color of the '' @
     ''light sources. The shadow must ground the product '' @
     ''in the scene naturally.\<newline>'' @
     ''    -   **Shadow Intensity (Crucial User Override):** '' @
     ''The user has specified the desired shadow intensity. '' @
     ''You must render the shadows as: **"''\<close>

definition prompt_before_custom :: string where
  \<open>prompt_before_custom =
     ''"**. This is a strict requirement.''\<close>

definition prompt_after_custom :: string where
  \<open>prompt_after_custom =
     ''\<newline>'' @
     ''-   **Final Image Requirements:**\<newline>'' @
     ''    -   The output image's style, lighting, shadows, '' @
     ''reflections, and camera perspective must exactly match '' @
     ''the original scene.\<newline>'' @
     ''    -   Do not just copy and paste the product. You '' @
     ''must intelligently re-render it to fit the context. '' @
     ''Adjust the product's perspective and orientation to '' @
     ''its most natural position, scale it appropriately.\<newline>'' @
     ''    -   The product must have proportional realism. '' @
     ''For example, a lamp product can't be bigger than a '' @
     ''sofa in scene.\<newline>'' @
     ''    -   You must not return the original scene image '' @
     ''without product placement. The product must be always '' @
     ''present in the composite image.\<newline>'' @
     ''\<newline>'' @
     ''The output should ONLY be the final, composed image. '' @
     ''Do not add any text or explanation.\<newline>''\<close>

definition rotation_before_description :: string where
  \<open>rotation_before_description =
     ''\<newline>'' @
     ''**Role:**\<newline>'' @
     ''You are an expert 3D product visualizer. Your task '' @
     ''is to re-render the provided product image from a '' @
     ''different angle.\<newline>'' @
     ''\<newline>'' @
     ''**Specifications:**\<newline>'' @
     ''-   **Product:** The provided image contains a single '' @
     ''product, possibly with a simple or padded background.\<newline>'' @
     ''-   **Task:** Re-render the product to show the **"''\<close>

definition rotation_after_description :: string where
  \<open>rotation_after_description =
     ''"**.\<newline>'' @
     ''-   **Requirements:**\<newline>'' @
     ''    -   Maintain the product's identity, design, colors, '' @
     ''and textures perfectly.\<newline>'' @
     ''    -   The background of the output image MUST be '' @
     ''a solid, neutral light gray (#f0f0f0). This is crucial '' @
     ''for easy use later. Do not include any shadows on '' @
     ''the background.\<newline>'' @
     ''    -   The product should be centered in the frame.\<newline>'' @
     ''    -   The lighting on the product should be neutral '' @
     ''and professional, as if in a studio.\<newline>'' @
     ''\<newline>'' @
     ''The output should ONLY be the image of the rotated '' @
     ''product. Do not add any text or explanation.\<newline>''\<close>

subsection \<open>\<^verbatim>\<open>generateCompositeImage\<close> (lines 300 to 470)\<close>

record DebugInfo =
  markedSceneUrl :: string
  resizedProductUrl :: string
  resizedSceneUrl :: string
  finalPrompt :: string

record CompositeResult =
  finalImageUrl :: string
  debugInfo :: DebugInfo

definition customInstructionsPart :: "string \<Rightarrow> string" where
  "customInstructionsPart customInstructions =
     (if trim customInstructions \<noteq> []
      then customInstructions_before @ trim customInstructions @ customInstructions_after
      else [])"

definition prompt :: "string \<Rightarrow> string \<Rightarrow> string \<Rightarrow> string \<Rightarrow> string" where
  "prompt semanticLocationDescription lightingDescription shadowIntensityDescription
       customInstructionsPart' =
     prompt_before_location @ semanticLocationDescription @
     prompt_before_lighting @ lightingDescription @
     prompt_before_shadow @ shadowIntensityDescription @
     prompt_before_custom @ customInstructionsPart' @
     prompt_after_custom"

definition fallback_lighting :: string where
  "fallback_lighting =
     ''The lighting in the scene should be analyzed to create realistic shadows.''"

definition fallback_location :: string where
  "fallback_location = ''at the specified location.''"

text \<open>
  The parameters \<open>objectDescription\<close> and \<open>environmentDescription\<close> are not read by the
  function. \<open>GoogleGenAI\<close> and \<open>API_KEY\<close> stand for the client library and the environment
  variable, \<open>env\<close> for the browser.
\<close>

definition generateCompositeImage ::
  "dom \<Rightarrow> client \<Rightarrow> string option \<Rightarrow> File \<Rightarrow> string \<Rightarrow> File \<Rightarrow> string \<Rightarrow> position \<Rightarrow> string \<Rightarrow>
   number \<Rightarrow> CompositeResult promise" where
  "generateCompositeImage env GoogleGenAI API_KEY objectImage objectDescription environmentImage
       environmentDescription dropPosition customInstructions shadowIntensity =
     await (settled (getApiKey API_KEY)) (\<lambda>apiKey.
     let ai = GoogleGenAI apiKey in
     await (settled (getImageDimensions env environmentImage)) (\<lambda>(originalWidth, originalHeight).
     let MAX_DIMENSION = 1024 in
     await (settled (resizeImage env objectImage MAX_DIMENSION)) (\<lambda>resizedObjectImage.
     await (settled (resizeImage env environmentImage MAX_DIMENSION)) (\<lambda>resizedEnvironmentImage.
     await (try_catch
              (await (settled (fileToPart env resizedEnvironmentImage))
                 (\<lambda>cleanResizedEnvironmentImagePart.
               await (generateContent ai
                       \<lparr>model = ''gemini-2.5-flash-lite'',
                        contents = [TextPart lightingPrompt, cleanResizedEnvironmentImagePart]\<rparr>)
                 (\<lambda>lightingResponse.
               resolve (text' lightingResponse))))
              (\<lambda>error. resolve fallback_lighting)) (\<lambda>lightingDescription.
     await (settled (markImage env resizedEnvironmentImage dropPosition
                      (real originalWidth, real originalHeight))) (\<lambda>markedResizedEnvironmentImage.
     await (settled (fileToDataUrl env markedResizedEnvironmentImage)) (\<lambda>markedSceneUrl'.
     await (settled (fileToDataUrl env resizedObjectImage)) (\<lambda>resizedProductUrl'.
     await (settled (fileToDataUrl env resizedEnvironmentImage)) (\<lambda>resizedSceneUrl'.
     await (settled (fileToPart env markedResizedEnvironmentImage)) (\<lambda>markedEnvironmentImagePart.
     await (try_catch
              (await (generateContent ai
                       \<lparr>model = ''gemini-2.5-flash-lite'',
                        contents = [TextPart descriptionPrompt, markedEnvironmentImagePart]\<rparr>)
                 (\<lambda>descriptionResponse.
               resolve (text' descriptionResponse)))
              (\<lambda>error. resolve fallback_location)) (\<lambda>semanticLocationDescription.
     await (settled (fileToPart env resizedObjectImage)) (\<lambda>objectImagePart.
     await (settled (fileToPart env resizedEnvironmentImage)) (\<lambda>cleanEnvironmentImagePart.
     let shadowIntensityDescription = getShadowDescription shadowIntensity;
         prompt' = prompt semanticLocationDescription lightingDescription
                     shadowIntensityDescription (customInstructionsPart customInstructions);
         textPart = TextPart prompt'
     in
     await (generateContent ai
             \<lparr>model = ''gemini-2.5-flash-image'',
              contents = [objectImagePart, cleanEnvironmentImagePart, textPart]\<rparr>) (\<lambda>response.
     case imagePartFromResponse response of
       Some inlineData' \<Rightarrow>
         let generatedSquareImageUrl =
               ''data:'' @ mimeType inlineData' @ '';base64,'' @ data inlineData'
         in
         await (settled (cropToOriginalAspectRatio env generatedSquareImageUrl
                          (real originalWidth) (real originalHeight) MAX_DIMENSION))
           (\<lambda>finalImageUrl'.
         resolve \<lparr>finalImageUrl = finalImageUrl',
                  debugInfo = \<lparr>markedSceneUrl = markedSceneUrl',
                               resizedProductUrl = resizedProductUrl',
                               resizedSceneUrl = resizedSceneUrl',
                               finalPrompt = prompt'\<rparr>\<rparr>)
     | None \<Rightarrow> reject NoImageReturned))))))))))))))"

subsection \<open>\<^verbatim>\<open>rotateProductImage\<close> (lines 478 to 528)\<close>

definition rotateProductImage ::
  "dom \<Rightarrow> client \<Rightarrow> string option \<Rightarrow> File \<Rightarrow> string \<Rightarrow> File promise" where
  "rotateProductImage env GoogleGenAI API_KEY productImage rotationDescription =
     await (settled (getApiKey API_KEY)) (\<lambda>apiKey.
     let ai = GoogleGenAI apiKey;
         MAX_DIMENSION = 1024
     in
     await (settled (resizeImage env productImage MAX_DIMENSION)) (\<lambda>resizedProductImage.
     await (settled (fileToPart env resizedProductImage)) (\<lambda>productImagePart.
     let prompt' = rotation_before_description @ rotationDescription @ rotation_after_description;
         textPart = TextPart prompt'
     in
     await (generateContent ai
             \<lparr>model = ''gemini-2.5-flash-image'',
              contents = [productImagePart, textPart]\<rparr>) (\<lambda>response.
     case imagePartFromResponse response of
       Some inlineData' \<Rightarrow>
         let generatedImageUrl =
               ''data:'' @ mimeType inlineData' @ '';base64,'' @ data inlineData';
             newFileName =
               ''rotated-'' @ replace_spaces rotationDescription @ ''-'' @ name productImage
         in settled (dataURLtoFile env generatedImageUrl newFileName)
     | None \<Rightarrow> reject NoRotatedImageReturned))))"

subsection \<open>Two conditions in the words of the specification\<close>

text \<open>
  The synthesis call returns no image: the call fails, the response has no candidates, or
  its first candidate contains no part with inline image data.
\<close>

definition no_image_returned :: "error + response \<Rightarrow> bool" where
  "no_image_returned r =
     (case r of
        Inl e \<Rightarrow> True
      | Inr response \<Rightarrow>
          (case candidates response of
             None \<Rightarrow> True
           | Some [] \<Rightarrow> True
           | Some (c # cs) \<Rightarrow>
               (case content c of
                  Some (Content (Some ps)) \<Rightarrow> \<not> list_ex has_inlineData ps
                | _ \<Rightarrow> True)))"

text \<open>
  A header has a MIME type terminated by a colon and semicolon pair when it is
  \<open>a @ '':'' @ m @ '';'' @ b\<close> with \<open>m\<close> not empty. \<open>has_mime\<close> computes this condition
  (the lemma \<open>has_mime_iff\<close> below): after the first colon come at least one character and
  then a semicolon.
\<close>

definition has_mime :: "string \<Rightarrow> bool" where
  "has_mime header =
     (case dropWhile (\<lambda>c. c \<noteq> CHR '':'') header of
        [] \<Rightarrow> False
      | colon # rest \<Rightarrow>
          (case rest of
             [] \<Rightarrow> False
           | m # rest' \<Rightarrow> CHR '';'' \<in> set rest'))"

section \<open>A sample session\<close>

text \<open>
  Concrete inputs on which the functions are run below: an 800 by 600 scene and a 400 by 400
  product, a browser whose reader gives \<^verbatim>\<open>data:<type>;base64,<name>\<close>, whose decoder knows
  the two uploads and takes every other image as 1024 by 1024, and whose canvases always
  give a context and a blob; a client whose image model answers with one inline image and
  whose other model fails, and a client that answers every request with a text only.
\<close>

definition sample_scene :: File where
  "sample_scene = \<lparr>name = ''room'', type = ''image/png'', bits = ByteArray [137, 80, 78, 71]\<rparr>"

definition sample_product :: File where
  "sample_product = \<lparr>name = ''lamp'', type = ''image/png'', bits = ByteArray [137, 80, 78, 71]\<rparr>"

definition sample_padded :: File where
  "sample_padded =
     \<lparr>name = ''room'', type = ''image/jpeg'',
      bits = CanvasBlob
        \<lparr>width = 1024, height = 1024,
         drawn = [FillRect ''black'' 0 0 1024 1024,
                  DrawImage5 (Image ''data:image/png;base64,room'' 800 600) 0 128 1024 768]\<rparr>
        ''image/jpeg'' (95 / 100)\<rparr>"

definition sample_dom :: dom where
  "sample_dom =
     \<lparr>readAsDataURL = (\<lambda>f. Some (''data:'' @ type f @ '';base64,'' @ name f)),
      loadImage = (\<lambda>url. Some (if url = ''data:image/png;base64,room'' then (800, 600)
                               else if url = ''data:image/png;base64,lamp'' then (400, 400)
                               else (1024, 1024))),
      getContext = (\<lambda>c. True),
      toBlob = (\<lambda>c. True),
      toDataURL = (\<lambda>c. if width c = 1024 \<and> height c = 768
                         then ''data:image/jpeg;base64,crop1024x768''
                         else ''data:image/jpeg;base64,crop''),
      atob = (\<lambda>s. Some s)\<rparr>"

definition sample_response :: response where
  "sample_response =
     \<lparr>candidates = Some [Candidate (Some (Content (Some
        [TextPart ''Here is the image.'',
         InlineDataPart \<lparr>mimeType = ''image/png'', data = ''generated''\<rparr>])))],
      text' = ''Here is the image.''\<rparr>"

definition sample_client :: client where
  "sample_client apiKey req =
     (if model req = ''gemini-2.5-flash-image'' then Inr sample_response
      else Inl (ServiceError ''network error''))"

definition silent_client :: client where
  "silent_client apiKey req =
     Inr \<lparr>candidates = Some [Candidate (Some (Content (Some [TextPart ''No image.''])))],
          text' = ''No image.''\<rparr>"

definition sample_padded_product :: File where
  "sample_padded_product =
     \<lparr>name = ''lamp'', type = ''image/jpeg'',
      bits = CanvasBlob
        \<lparr>width = 1024, height = 1024,
         drawn = [FillRect ''black'' 0 0 1024 1024,
                  DrawImage5 (Image ''data:image/png;base64,lamp'' 400 400) 0 0 1024 1024]\<rparr>
        ''image/jpeg'' (95 / 100)\<rparr>"

definition sample_marked :: File where
  "sample_marked =
     \<lparr>name = ''marked-room'', type = ''image/jpeg'',
      bits = CanvasBlob
        \<lparr>width = 1024, height = 1024,
         drawn = [DrawImage3 (Image ''data:image/jpeg;base64,room'' 1024 1024) 0 0,
                  FillCircle ''red'' 512 512 (384 / 25),
                  StrokeCircle ''white'' (384 / 125) 512 512 (384 / 25)]\<rparr>
        ''image/jpeg'' (95 / 100)\<rparr>"

text \<open>
  A portrait upload of 600 by 800 pixels, read by a browser that decodes every image to that
  size; a client whose every call fails; and, for the rotation, a client that answers with
  the base64 payload \<^verbatim>\<open>AAAA\<close> and a browser whose \<^verbatim>\<open>atob\<close> decodes that payload to three
  zero bytes and throws on every other string.
\<close>

definition sample_portrait :: File where
  "sample_portrait = \<lparr>name = ''door'', type = ''image/png'', bits = ByteArray [137, 80, 78, 71]\<rparr>"

definition portrait_dom :: dom where
  "portrait_dom = sample_dom\<lparr>loadImage := (\<lambda>url. Some (600, 800))\<rparr>"

definition failing_client :: client where
  "failing_client apiKey req = Inl (ServiceError ''network error'')"

definition rotation_response :: response where
  "rotation_response =
     \<lparr>candidates = Some [Candidate (Some (Content (Some
        [InlineDataPart \<lparr>mimeType = ''image/png'', data = ''AAAA''\<rparr>])))],
      text' = []\<rparr>"

definition rotation_client :: client where
  "rotation_client apiKey req = Inr rotation_response"

definition rotation_dom :: dom where
  "rotation_dom =
     sample_dom\<lparr>atob := (\<lambda>s. if s = ''AAAA'' then Some [CHR 0x00, CHR 0x00, CHR 0x00] else None)\<rparr>"

section \<open>Shadow descriptor\<close>

text \<open>
  C6. The shadow descriptor is defined on every intensity of [0, 100], takes exactly
  five values there, with the boundaries at 10, 35, 65 and 85: up to 10 the first
  descriptor, above 10 and up to 35 the second, above 35 and up to 65 the third, above 65
  and up to 85 the fourth, above 85 the fifth; 0, 35, 65, 85 and 100 give the first to the
  fifth descriptor in this order.
\<close>

theorem getShadowDescription_buckets:
  "(i \<le> 10 \<longrightarrow> getShadowDescription i = ''very faint and almost invisible'') \<and>
   (10 < i \<and> i \<le> 35 \<longrightarrow> getShadowDescription i = ''subtle and soft'') \<and>
   (35 < i \<and> i \<le> 65 \<longrightarrow> getShadowDescription i = ''normal and realistic'') \<and>
   (65 < i \<and> i \<le> 85 \<longrightarrow> getShadowDescription i = ''strong and defined'') \<and>
   (85 < i \<longrightarrow> getShadowDescription i = ''very dark and dramatic with high contrast'') \<and>
   getShadowDescription ` {0..100} =
     {''very faint and almost invisible'', ''subtle and soft'', ''normal and realistic'',
      ''strong and defined'', ''very dark and dramatic with high contrast''} \<and>
   card (getShadowDescription ` {0..100}) = 5 \<and>
   getShadowDescription 0 = ''very faint and almost invisible'' \<and>
   getShadowDescription 35 = ''subtle and soft'' \<and>
   getShadowDescription 65 = ''normal and realistic'' \<and>
   getShadowDescription 85 = ''strong and defined'' \<and>
   getShadowDescription 100 = ''very dark and dramatic with high contrast''"
proof -
  let ?D = "{''very faint and almost invisible'', ''subtle and soft'', ''normal and realistic'',
      ''strong and defined'', ''very dark and dramatic with high contrast''}"
  have sub: "getShadowDescription ` {0..100} \<subseteq> ?D"
    by (auto simp: getShadowDescription_def)
  have v: "getShadowDescription 0 = ''very faint and almost invisible''"
    "getShadowDescription 35 = ''subtle and soft''"
    "getShadowDescription 65 = ''normal and realistic''"
    "getShadowDescription 85 = ''strong and defined''"
    "getShadowDescription 100 = ''very dark and dramatic with high contrast''"
    by (simp_all add: getShadowDescription_def)
  have "getShadowDescription 0 \<in> getShadowDescription ` {0..100}"
    "getShadowDescription 35 \<in> getShadowDescription ` {0..100}"
    "getShadowDescription 65 \<in> getShadowDescription ` {0..100}"
    "getShadowDescription 85 \<in> getShadowDescription ` {0..100}"
    "getShadowDescription 100 \<in> getShadowDescription ` {0..100}"
    by (rule imageI, simp)+
  then have sup: "?D \<subseteq> getShadowDescription ` {0..100}"
    by (simp only: v) simp
  have img: "getShadowDescription ` {0..100} = ?D"
    using sub sup by (rule subset_antisym)
  have c: "card ?D = 5"
    by simp
  show ?thesis
    unfolding img c using v by (simp add: getShadowDescription_def)
qed

theorem getShadowDescription_buckets_witness:
  "getShadowDescription 10 = ''very faint and almost invisible'' \<and>
   getShadowDescription 11 = ''subtle and soft'' \<and>
   getShadowDescription 36 = ''normal and realistic'' \<and>
   getShadowDescription 66 = ''strong and defined'' \<and>
   getShadowDescription 86 = ''very dark and dramatic with high contrast''"
  using getShadowDescription_buckets [of 10] getShadowDescription_buckets [of 11]
    getShadowDescription_buckets [of 36] getShadowDescription_buckets [of 66]
    getShadowDescription_buckets [of 86]
  by simp

section \<open>Data URLs\<close>

lemma has_mime_iff:
  "has_mime header \<longleftrightarrow> (\<exists>a m b. header = a @ [CHR '':''] @ m @ [CHR '';''] @ b \<and> m \<noteq> [])"
proof
  assume h: "has_mime header"
  then obtain c m rest' where d: "dropWhile (\<lambda>c. c \<noteq> CHR '':'') header = c # m # rest'"
    and s: "CHR '';'' \<in> set rest'"
    by (auto simp: has_mime_def split: list.splits)
  have c: "c = CHR '':''"
    using hd_dropWhile [of "\<lambda>c. c \<noteq> CHR '':''" header] d by simp
  obtain r1 r2 where r: "rest' = r1 @ CHR '';'' # r2"
    using s by (auto dest: split_list)
  have "header = takeWhile (\<lambda>c. c \<noteq> CHR '':'') header @ [CHR '':''] @ (m # r1) @ [CHR '';''] @ r2"
    using takeWhile_dropWhile_id [of "\<lambda>c. c \<noteq> CHR '':''" header] d c r by simp
  then show "\<exists>a m b. header = a @ [CHR '':''] @ m @ [CHR '';''] @ b \<and> m \<noteq> []"
    by blast
next
  assume "\<exists>a m b. header = a @ [CHR '':''] @ m @ [CHR '';''] @ b \<and> m \<noteq> []"
  then obtain a m b where h: "header = a @ [CHR '':''] @ m @ [CHR '';''] @ b" and m: "m \<noteq> []"
    by blast
  obtain x m' where m': "m = x # m'"
    using m by (cases m) auto
  show "has_mime header"
  proof (cases "CHR '':'' \<in> set a")
    case False
    then have "\<And>c. c \<in> set a \<Longrightarrow> c \<noteq> CHR '':''"
      by auto
    then have "dropWhile (\<lambda>c. c \<noteq> CHR '':'') header = CHR '':'' # x # m' @ CHR '';'' # b"
      unfolding h m' by simp
    then show ?thesis
      by (simp add: has_mime_def)
  next
    case True
    then obtain a1 a2 where a: "a = a1 @ CHR '':'' # a2" and n: "CHR '':'' \<notin> set a1"
      by (auto dest: split_list_first)
    have "\<And>c. c \<in> set a1 \<Longrightarrow> c \<noteq> CHR '':''"
      using n by auto
    then have "dropWhile (\<lambda>c. c \<noteq> CHR '':'') header =
        CHR '':'' # a2 @ CHR '':'' # x # m' @ CHR '';'' # b"
      unfolding h m' a by simp
    then show ?thesis
      by (cases a2) (simp_all add: has_mime_def)
  qed
qed

lemma lazy_group_Some:
  "lazy_group cs = Some g \<Longrightarrow> \<exists>b. cs = g @ CHR '';'' # b"
  by (induction cs arbitrary: g) (auto split: if_splits)

lemma match_mime_Some:
  "match_mime s = Some g \<Longrightarrow> \<exists>a b. s = a @ [CHR '':''] @ g @ [CHR '';''] @ b"
proof (induction s)
  case Nil
  then show ?case by simp
next
  case (Cons c s)
  show ?case
  proof (cases "c = CHR '':'' \<and> lazy_group s = Some g")
    case True
    then obtain b where "s = g @ CHR '';'' # b"
      by (auto dest: lazy_group_Some)
    then have "c # s = [] @ [CHR '':''] @ g @ [CHR '';''] @ b"
      using True by simp
    then show ?thesis by blast
  next
    case False
    then have "match_mime s = Some g"
      using Cons.prems by (auto split: if_splits option.splits)
    then obtain a b where "s = a @ [CHR '':''] @ g @ [CHR '';''] @ b"
      using Cons.IH by blast
    then have "c # s = (c # a) @ [CHR '':''] @ g @ [CHR '';''] @ b"
      by simp
    then show ?thesis by blast
  qed
qed

lemma match_mime_has_mime:
  "match_mime s = Some g \<Longrightarrow> g \<noteq> [] \<Longrightarrow> has_mime s"
  unfolding has_mime_iff by (blast dest: match_mime_Some)

lemma split_comma_not_Nil: "split_comma s \<noteq> []"
  by (cases s) (auto split: list.splits)

lemma split_comma_hd:
  "split_comma s ! 0 = takeWhile (\<lambda>c. c \<noteq> CHR '','') s"
  by (induction s) (auto simp: split_comma_not_Nil split: list.splits)

lemma split_comma_length:
  "CHR '','' \<in> set s \<Longrightarrow> 2 \<le> length (split_comma s)"
  by (induction s) (auto simp: split_comma_not_Nil Suc_le_eq split: list.splits)

text \<open>
  C10. \<^verbatim>\<open>dataURLtoFile\<close> and \<^verbatim>\<open>fileToPart\<close> reject more than the strings without a
  comma: for every string that has a comma and whose header (the part before the first
  comma) has no MIME type terminated by a colon and semicolon pair, both raise the
  MIME-type error, and the payload is not decoded.
\<close>

theorem dataURL_without_mime_rejected:
  assumes "CHR '','' \<in> set dataurl"
    and "\<not> (\<exists>a m b. takeWhile (\<lambda>c. c \<noteq> CHR '','') dataurl =
                     a @ [CHR '':''] @ m @ [CHR '';''] @ b \<and> m \<noteq> [])"
  shows "dataURLtoFile env dataurl filename = Inl MimeTypeError \<and>
         (readAsDataURL env file = Some dataurl \<longrightarrow> fileToPart env file = Inl MimeTypeError)"
proof -
  have len: "\<not> length (split_comma dataurl) < 2"
    using split_comma_length [OF assms(1)] by simp
  have m: "match_mime (split_comma dataurl ! 0) = None \<or>
           match_mime (split_comma dataurl ! 0) = Some []"
  proof (cases "match_mime (split_comma dataurl ! 0)")
    case None
    then show ?thesis by simp
  next
    case (Some g)
    then have "g = []"
      using assms(2) match_mime_has_mime [of "split_comma dataurl ! 0" g]
      unfolding has_mime_iff split_comma_hd by blast
    then show ?thesis using Some by simp
  qed
  show ?thesis
    using len m by (auto simp: dataURLtoFile_def fileToPart_def Let_def)
qed

theorem dataURL_without_mime_rejected_witness:
  "dataURLtoFile sample_dom ''data:image/jpeg,AAAA'' ''scene.jpeg'' = Inl MimeTypeError \<and>
   fileToPart (sample_dom\<lparr>readAsDataURL := \<lambda>f. Some ''data:image/jpeg,AAAA''\<rparr>) sample_scene =
     Inl MimeTypeError"
proof -
  have c: "CHR '','' \<in> set ''data:image/jpeg,AAAA''"
    by simp
  have "\<not> has_mime (takeWhile (\<lambda>c. c \<noteq> CHR '','') ''data:image/jpeg,AAAA'')"
    by (simp add: has_mime_def)
  then have h: "\<not> (\<exists>a m b. takeWhile (\<lambda>c. c \<noteq> CHR '','') ''data:image/jpeg,AAAA'' =
                     a @ [CHR '':''] @ m @ [CHR '';''] @ b \<and> m \<noteq> [])"
    unfolding has_mime_iff .
  show ?thesis
    using dataURL_without_mime_rejected [OF c h, of sample_dom "''scene.jpeg''"]
      dataURL_without_mime_rejected [OF c h,
        of "sample_dom\<lparr>readAsDataURL := \<lambda>f. Some ''data:image/jpeg,AAAA''\<rparr>" _ sample_scene]
    by simp
qed

section \<open>Rounding to a double\<close>

text \<open>
  The rounding error of \<open>fl\<close> is at most half a unit in the last place, \<open>fl\<close> is monotone
  and leaves every whole number below \<open>2^53\<close> as it is. \<open>fl_eval\<close> and \<open>fl_eval_tie\<close>
  compute \<open>fl\<close> at a given number from its exponent and its significand.
\<close>

lemma round_even_err: "\<bar>of_int (round_even y) - y\<bar> \<le> 1 / 2"
  unfolding round_even_def Let_def by (auto; linarith)

lemma binade_ge1:
  assumes "1 \<le> x"
  shows "2 powi binade x \<le> x \<and> x < 2 powi (binade x + 1)"
proof -
  have p: "0 < \<lfloor>x\<rfloor>" using assms by simp
  have b: "1 \<le> bitlen \<lfloor>x\<rfloor>" using p by (auto simp: bitlen_alt_def)
  from bitlen_bounds [OF p]
  have lo: "2 ^ nat (bitlen \<lfloor>x\<rfloor> - 1) \<le> \<lfloor>x\<rfloor>" and hi: "\<lfloor>x\<rfloor> < 2 ^ nat (bitlen \<lfloor>x\<rfloor>)" by simp_all
  from lo have "real_of_int (2 ^ nat (bitlen \<lfloor>x\<rfloor> - 1)) \<le> x" using le_floor_iff by blast
  then have 1: "(2::real) ^ nat (bitlen \<lfloor>x\<rfloor> - 1) \<le> x" by simp
  from hi have "\<lfloor>x\<rfloor> + 1 \<le> 2 ^ nat (bitlen \<lfloor>x\<rfloor>)" by simp
  then have "real_of_int (\<lfloor>x\<rfloor> + 1) \<le> real_of_int (2 ^ nat (bitlen \<lfloor>x\<rfloor>))" by (rule of_int_le_iff [THEN iffD2])
  then have q: "real_of_int \<lfloor>x\<rfloor> + 1 \<le> 2 ^ nat (bitlen \<lfloor>x\<rfloor>)" by simp
  have "x < real_of_int \<lfloor>x\<rfloor> + 1" by linarith
  then have 2: "x < (2::real) ^ nat (bitlen \<lfloor>x\<rfloor>)" using q by (rule less_le_trans)
  show ?thesis using assms b 1 2 by (simp add: binade_def power_int_def)
qed

lemma binade_lt1:
  assumes "0 < x" "x < 1"
  shows "2 powi binade x \<le> x \<and> x < 2 powi (binade x + 1)"
proof -
  define m where "m = \<lceil>1 / x\<rceil> - 1"
  have y: "1 < 1 / x" using assms by simp
  then have "2 \<le> \<lceil>1 / x\<rceil>" by linarith
  then have p: "0 < m" by (simp add: m_def)
  have my: "real_of_int m < 1 / x" "1 / x \<le> real_of_int m + 1" unfolding m_def by linarith+
  have b: "1 \<le> bitlen m" using p by (auto simp: bitlen_alt_def)
  from bitlen_bounds [OF p]
  have lo: "2 ^ nat (bitlen m - 1) \<le> m" and hi: "m < 2 ^ nat (bitlen m)" by simp_all
  from lo have "real_of_int (2 ^ nat (bitlen m - 1)) \<le> real_of_int m" by (rule of_int_le_iff [THEN iffD2])
  then have "real_of_int (2 ^ nat (bitlen m - 1)) < 1 / x" using my(1) by (rule le_less_trans)
  then have 1: "(2::real) ^ nat (bitlen m - 1) < 1 / x" by simp
  from hi have "m + 1 \<le> 2 ^ nat (bitlen m)" by simp
  then have "real_of_int (m + 1) \<le> real_of_int (2 ^ nat (bitlen m))" by (rule of_int_le_iff [THEN iffD2])
  moreover have "1 / x \<le> real_of_int (m + 1)" using my(2) by simp
  ultimately have 2: "1 / x \<le> (2::real) ^ nat (bitlen m)" by simp
  have bd: "binade x = - bitlen m" using assms by (simp add: binade_def m_def)
  have a: "2 powi (- bitlen m) \<le> x"
  proof -
    have "2 powi (- bitlen m) = 1 / (2::real) ^ nat (bitlen m)"
      using b by (simp add: power_int_minus power_int_def field_simps)
    also have "\<dots> \<le> x" using 2 assms by (simp add: field_simps)
    finally show ?thesis .
  qed
  have c: "x < 2 powi (- bitlen m + 1)"
  proof -
    have e: "- bitlen m + 1 = - (bitlen m - 1)" by simp
    have "x < 1 / (2::real) ^ nat (bitlen m - 1)" using 1 assms by (simp add: field_simps)
    also have "\<dots> = 2 powi (- (bitlen m - 1))"
      using b by (simp add: power_int_minus power_int_def field_simps)
    finally show ?thesis unfolding e .
  qed
  show ?thesis using a c bd by simp
qed

lemma binade_bracket:
  assumes "0 < x"
  shows "2 powi binade x \<le> x" "x < 2 powi (binade x + 1)"
  using binade_ge1 [of x] binade_lt1 [of x] assms by (cases "1 \<le> x"; simp)+

lemma binade_unique:
  assumes "2 powi e \<le> x" "x < 2 powi (e + 1)"
  shows "binade x = e"
proof -
  have "0 < (2::real) powi e" by simp
  then have x0: "0 < x" using assms(1) by linarith
  note b = binade_bracket [OF x0]
  have "(2::real) powi e < 2 powi (binade x + 1)" using assms(1) b(2) by linarith
  then have 1: "e < binade x + 1"
    using power_int_increasing [of "binade x + 1" e "2::real"] by (cases "e < binade x + 1") auto
  have "(2::real) powi binade x < 2 powi (e + 1)" using assms(2) b(1) by linarith
  then have 2: "binade x < e + 1"
    using power_int_increasing [of "e + 1" "binade x" "2::real"] by (cases "binade x < e + 1") auto
  show ?thesis using 1 2 by simp
qed

lemma round_even_of_int: "round_even (of_int n) = n"
  by (simp add: round_even_def)

lemma round_even_near:
  assumes "\<bar>y - of_int n\<bar> < 1 / 2"
  shows "round_even y = n"
proof -
  have "\<lfloor>y\<rfloor> = n \<or> \<lfloor>y\<rfloor> = n - 1" using assms by linarith
  then show ?thesis
  proof
    assume f: "\<lfloor>y\<rfloor> = n"
    then have "y - of_int n < 1 / 2" using assms by linarith
    then show ?thesis using f by (simp add: round_even_def)
  next
    assume f: "\<lfloor>y\<rfloor> = n - 1"
    then have "1 / 2 < y - of_int (n - 1)" using assms by (simp; linarith)
    then show ?thesis using f by (simp add: round_even_def Let_def)
  qed
qed

lemma round_even_cases: "round_even y = \<lfloor>y\<rfloor> \<or> round_even y = \<lfloor>y\<rfloor> + 1"
  by (simp add: round_even_def Let_def)

lemma round_even_le: "y \<le> of_int N \<Longrightarrow> round_even y \<le> N"
proof -
  assume a: "y \<le> of_int N"
  show ?thesis
  proof (cases "y = of_int N")
    case True then show ?thesis by (simp add: round_even_of_int)
  next
    case False
    then have "y < of_int N" using a by simp
    then have "\<lfloor>y\<rfloor> < N" by (simp add: floor_less_iff)
    then show ?thesis using round_even_cases [of y] by linarith
  qed
qed

lemma round_even_ge: "of_int N \<le> y \<Longrightarrow> N \<le> round_even y"
proof -
  assume "of_int N \<le> y"
  then have "N \<le> \<lfloor>y\<rfloor>" by (simp add: le_floor_iff)
  then show ?thesis using round_even_cases [of y] by linarith
qed

lemma round_even_mono: "y1 \<le> y2 \<Longrightarrow> round_even y1 \<le> round_even y2"
proof -
  assume a: "y1 \<le> y2"
  then have f: "\<lfloor>y1\<rfloor> \<le> \<lfloor>y2\<rfloor>" by (rule floor_mono)
  show ?thesis
  proof (cases "\<lfloor>y1\<rfloor> = \<lfloor>y2\<rfloor>")
    case True
    then show ?thesis using a by (auto simp: round_even_def Let_def)
  next
    case False
    then have "\<lfloor>y1\<rfloor> + 1 \<le> \<lfloor>y2\<rfloor>" using f by simp
    then show ?thesis using round_even_cases [of y1] round_even_cases [of y2] by linarith
  qed
qed

lemma powi_52: "2 ^ 52 * 2 powi (b - 52) = (2::real) powi b"
proof -
  have "(2::real) powi b = 2 powi (52 + (b - 52))"
    by (rule arg_cong [where f = "\<lambda>k. 2 powi k"]) simp
  also have "\<dots> = 2 powi 52 * 2 powi (b - 52)" by (rule power_int_add) simp
  finally show ?thesis by simp
qed

lemma powi_53: "2 ^ 53 * 2 powi (b - 52) = (2::real) powi (b + 1)"
proof -
  have "(2::real) powi (b + 1) = 2 powi (53 + (b - 52))"
    by (rule arg_cong [where f = "\<lambda>k. 2 powi k"]) simp
  also have "\<dots> = 2 powi 53 * 2 powi (b - 52)" by (rule power_int_add) simp
  finally show ?thesis by simp
qed

lemma fl_0: "fl 0 = 0"
  by (simp add: fl_def)

lemma fl_minus: "fl (- x) = - fl x"
  by (simp add: fl_def Let_def sgn_minus)

lemma fl_pos:
  "0 < x \<Longrightarrow> fl x = of_int (round_even (x / 2 powi (binade x - 52))) * 2 powi (binade x - 52)"
  by (simp add: fl_def Let_def)

lemma fl_eval:
  assumes "2 powi e \<le> x" "x < 2 powi (e + 1)" "\<bar>x / 2 powi (e - 52) - of_int n\<bar> < 1 / 2"
  shows "fl x = of_int n * 2 powi (e - 52)"
proof -
  have "0 < (2::real) powi e" by simp
  then have x0: "0 < x" using assms(1) by linarith
  have b: "binade x = e" using assms(1,2) by (rule binade_unique)
  show ?thesis unfolding fl_pos [OF x0] b round_even_near [OF assms(3)] ..
qed

lemma round_even_tie: "round_even (of_int k + 1 / 2) = (if even k then k else k + 1)"
proof -
  have "\<lfloor>of_int k + 1 / 2 :: real\<rfloor> = k" by linarith
  then show ?thesis by (simp add: round_even_def)
qed

lemma fl_eval_tie:
  assumes "2 powi e \<le> x" "x < 2 powi (e + 1)" "x / 2 powi (e - 52) = of_int k + 1 / 2"
  shows "fl x = of_int (if even k then k else k + 1) * 2 powi (e - 52)"
proof -
  have "0 < (2::real) powi e" by simp
  then have x0: "0 < x" using assms(1) by linarith
  have b: "binade x = e" using assms(1,2) by (rule binade_unique)
  show ?thesis unfolding fl_pos [OF x0] b assms(3) round_even_tie ..
qed

lemma fl_bracket:
  assumes "0 < x"
  shows "2 powi binade x \<le> fl x" "fl x \<le> 2 powi (binade x + 1)"
proof -
  let ?u = "(2::real) powi (binade x - 52)"
  have u0: "0 < ?u" by simp
  note b = binade_bracket [OF assms]
  have "2 ^ 52 * ?u \<le> x" unfolding powi_52 by (rule b(1))
  then have "of_int (2 ^ 52) \<le> x / ?u" using u0 by (simp add: pos_le_divide_eq)
  then have "2 ^ 52 \<le> round_even (x / ?u)" by (rule round_even_ge)
  then have "real_of_int (2 ^ 52) \<le> of_int (round_even (x / ?u))"
    by (rule of_int_le_iff [THEN iffD2])
  then have "(2::real) ^ 52 \<le> of_int (round_even (x / ?u))" by simp
  then have "2 ^ 52 * ?u \<le> of_int (round_even (x / ?u)) * ?u" using u0 by simp
  then show "2 powi binade x \<le> fl x" unfolding fl_pos [OF assms] powi_52 .
  have "x \<le> 2 ^ 53 * ?u" unfolding powi_53 using b(2) by simp
  then have "x / ?u \<le> of_int (2 ^ 53)" using u0 by (simp add: pos_divide_le_eq)
  then have "round_even (x / ?u) \<le> 2 ^ 53" by (rule round_even_le)
  then have "real_of_int (round_even (x / ?u)) \<le> of_int (2 ^ 53)"
    by (rule of_int_le_iff [THEN iffD2])
  then have "of_int (round_even (x / ?u)) \<le> (2::real) ^ 53" by simp
  then have "of_int (round_even (x / ?u)) * ?u \<le> 2 ^ 53 * ?u" using u0 by simp
  then show "fl x \<le> 2 powi (binade x + 1)" unfolding fl_pos [OF assms] powi_53 .
qed

lemma fl_pos_pos: "0 < x \<Longrightarrow> 0 < fl x"
proof -
  assume "0 < x"
  then have "2 powi binade x \<le> fl x" by (rule fl_bracket(1))
  moreover have "0 < (2::real) powi binade x" by simp
  ultimately show ?thesis by linarith
qed

lemma fl_nonneg: "0 \<le> x \<Longrightarrow> 0 \<le> fl x"
  using fl_pos_pos [of x] by (cases "x = 0") (simp_all add: fl_0 less_eq_real_def)

lemma fl_mono_pos:
  assumes "0 < x" "x \<le> y"
  shows "fl x \<le> fl y"
proof -
  have y0: "0 < y" using assms by simp
  note bx = binade_bracket [OF assms(1)] and bry = binade_bracket [OF y0]
  have "(2::real) powi binade x < 2 powi (binade y + 1)" using bx(1) bry(2) assms(2) by linarith
  then have le: "binade x \<le> binade y"
    using power_int_increasing [of "binade y + 1" "binade x" "2::real"]
    by (cases "binade x \<le> binade y") auto
  show ?thesis
  proof (cases "binade x = binade y")
    case True
    let ?u = "(2::real) powi (binade y - 52)"
    have u0: "0 < ?u" by simp
    have "x / ?u \<le> y / ?u" using assms(2) u0 by (simp add: divide_right_mono)
    then have "round_even (x / ?u) \<le> round_even (y / ?u)" by (rule round_even_mono)
    then have "real_of_int (round_even (x / ?u)) \<le> real_of_int (round_even (y / ?u))" by linarith
    then have "of_int (round_even (x / ?u)) * ?u \<le> of_int (round_even (y / ?u)) * ?u"
      using u0 by simp
    then show ?thesis unfolding fl_pos [OF assms(1)] fl_pos [OF y0] True .
  next
    case False
    then have "binade x + 1 \<le> binade y" using le by simp
    then have "(2::real) powi (binade x + 1) \<le> 2 powi binade y"
      by (rule power_int_increasing) simp
    then show ?thesis using fl_bracket(2) [OF assms(1)] fl_bracket(1) [OF y0] by linarith
  qed
qed

lemma fl_mono: "x \<le> y \<Longrightarrow> fl x \<le> fl y"
proof -
  assume a: "x \<le> y"
  consider "0 < x" | "x \<le> 0" "0 \<le> y" | "y < 0" by linarith
  then show ?thesis
  proof cases
    case 1 then show ?thesis using a by (rule fl_mono_pos)
  next
    case 2
    have "fl x \<le> 0" using fl_nonneg [of "- x"] 2(1) by (simp add: fl_minus)
    then show ?thesis using fl_nonneg [OF 2(2)] by linarith
  next
    case 3
    then have "fl (- y) \<le> fl (- x)" using a by (intro fl_mono_pos) simp_all
    then show ?thesis by (simp add: fl_minus)
  qed
qed

lemma fl_err_pos:
  assumes "0 < x"
  shows "\<bar>fl x - x\<bar> \<le> x / 2 ^ 53"
proof -
  let ?u = "(2::real) powi (binade x - 52)"
  have u0: "0 < ?u" by simp
  have "\<bar>of_int (round_even (x / ?u)) - x / ?u\<bar> * ?u \<le> 1 / 2 * ?u"
    using round_even_err [of "x / ?u"] u0 by (intro mult_right_mono) simp_all
  moreover have "\<bar>of_int (round_even (x / ?u)) - x / ?u\<bar> * ?u =
      \<bar>of_int (round_even (x / ?u)) * ?u - x\<bar>"
  proof -
    have "\<bar>of_int (round_even (x / ?u)) - x / ?u\<bar> * ?u =
        \<bar>(of_int (round_even (x / ?u)) - x / ?u) * ?u\<bar>"
      using u0 by (simp add: abs_mult)
    also have "(of_int (round_even (x / ?u)) - x / ?u) * ?u = of_int (round_even (x / ?u)) * ?u - x"
      using u0 by (simp add: algebra_simps)
    finally show ?thesis .
  qed
  ultimately have 1: "\<bar>fl x - x\<bar> \<le> ?u / 2" unfolding fl_pos [OF assms] by simp
  have "2 ^ 52 * ?u \<le> x" unfolding powi_52 by (rule binade_bracket(1) [OF assms])
  then have "?u / 2 \<le> x / 2 ^ 53" by simp
  then show ?thesis using 1 by linarith
qed

lemma fl_err: "\<bar>fl x - x\<bar> \<le> \<bar>x\<bar> / 2 ^ 53"
proof -
  consider "0 < x" | "x = 0" | "x < 0" by linarith
  then show ?thesis
  proof cases
    case 1 then show ?thesis using fl_err_pos [of x] by simp
  next
    case 2 then show ?thesis by (simp add: fl_0)
  next
    case 3
    then have "\<bar>fl (- x) - (- x)\<bar> \<le> (- x) / 2 ^ 53" by (intro fl_err_pos) simp
    then show ?thesis using 3 by (simp add: fl_minus abs_minus_commute)
  qed
qed

lemma fl_of_nat:
  assumes "n < 2 ^ 53"
  shows "fl (real n) = real n"
proof (cases "n = 0")
  case True then show ?thesis by (simp add: fl_0)
next
  case False
  then have x0: "0 < real n" by simp
  let ?b = "binade (real n)"
  note b = binade_bracket [OF x0]
  have "(2::real) powi 0 \<le> real n" using False by simp
  then have "(2::real) powi 0 < 2 powi (?b + 1)" using b(2) by linarith
  then have b0: "0 \<le> ?b"
    using power_int_increasing [of "?b + 1" 0 "2::real"] by (cases "0 \<le> ?b") auto
  have "real n < 2 ^ 53" using assms by (metis of_nat_less_iff of_nat_numeral of_nat_power)
  then have "(2::real) powi ?b < 2 powi 53" using b(1) by simp
  then have b52: "?b \<le> 52"
    using power_int_increasing [of 53 ?b "2::real"] by (cases "?b \<le> 52") auto
  have u: "(2::real) powi (?b - 52) = 1 / 2 ^ nat (52 - ?b)"
  proof -
    have "(2::real) powi (?b - 52) = 2 powi (- (52 - ?b))" by simp
    also have "\<dots> = 1 / 2 powi (52 - ?b)" by (simp only: power_int_minus_divide)
    also have "\<dots> = 1 / 2 ^ nat (52 - ?b)" using b52 by (simp add: power_int_def)
    finally show ?thesis .
  qed
  have "real n / 2 powi (?b - 52) = of_int (int (n * 2 ^ nat (52 - ?b)))"
    unfolding u by simp
  then have "round_even (real n / 2 powi (?b - 52)) = int (n * 2 ^ nat (52 - ?b))"
    by (simp only: round_even_of_int)
  then show ?thesis unfolding fl_pos [OF x0] unfolding u by simp
qed

lemma fl_1: "fl 1 = 1"
  using fl_of_nat [of 1] by simp

lemma fl_le_1: "x \<le> 1 \<Longrightarrow> fl x \<le> 1"
  using fl_mono [of x 1] by (simp add: fl_1)

section \<open>Letterbox, crop-back and marker\<close>

lemma canvas_side_nat: "n \<le> 2147483647 \<Longrightarrow> canvas_side d (real n) = n"
  by (simp add: canvas_side_def)

lemma canvas_side_floor:
  "0 \<le> v \<Longrightarrow> v \<le> 2147483647 \<Longrightarrow> canvas_side d v = nat \<lfloor>v\<rfloor>"
proof -
  assume a: "0 \<le> v" "v \<le> 2147483647"
  have 1: "0 \<le> \<lfloor>v\<rfloor>" using a by simp
  have 2: "\<lfloor>v\<rfloor> \<le> 2147483647" using a by (simp add: floor_le_iff)
  have 3: "\<lfloor>v\<rfloor> mod 4294967296 = \<lfloor>v\<rfloor>" using 1 2 by simp
  show ?thesis using a 1 2 3 by (simp add: canvas_side_def)
qed

lemma spec_contentRect_landscape:
  "0 < w \<Longrightarrow> 0 < h \<Longrightarrow> w / h > 1 \<Longrightarrow>
   spec_contentRect w h D = \<lparr>offsetX = 0, offsetY = (D - D * h / w) / 2, contentWidth = D, contentHeight = D * h / w\<rparr>"
  by (simp add: spec_contentRect_def Let_def)

lemma spec_contentRect_portrait:
  "0 < w \<Longrightarrow> 0 < h \<Longrightarrow> \<not> w / h > 1 \<Longrightarrow>
   spec_contentRect w h D = \<lparr>offsetX = (D - D * w / h) / 2, offsetY = 0, contentWidth = D * w / h, contentHeight = D\<rparr>"
  by (simp add: spec_contentRect_def Let_def)

lemma spec_contentRect_bounds:
  assumes "0 < w" "0 < h" "0 \<le> D"
  shows "0 \<le> contentWidth (spec_contentRect w h D)"
    and "0 \<le> contentHeight (spec_contentRect w h D)"
    and "contentWidth (spec_contentRect w h D) \<le> D"
    and "contentHeight (spec_contentRect w h D) \<le> D"
    and "contentWidth (spec_contentRect w h D) = D \<or> contentHeight (spec_contentRect w h D) = D"
    and "contentWidth (spec_contentRect w h D) * h = contentHeight (spec_contentRect w h D) * w"
proof -
  show "0 \<le> contentWidth (spec_contentRect w h D)" "0 \<le> contentHeight (spec_contentRect w h D)"
    using assms by (simp_all add: spec_contentRect_def Let_def)
  show "contentWidth (spec_contentRect w h D) \<le> D"
  proof (cases "w / h > 1")
    case True then show ?thesis using assms by (simp add: spec_contentRect_landscape)
  next
    case False
    then have "w \<le> h" using assms by simp
    then have "D * w \<le> D * h" using assms by (simp add: mult_left_mono)
    then show ?thesis using assms False by (simp add: spec_contentRect_portrait pos_divide_le_eq)
  qed
  show "contentHeight (spec_contentRect w h D) \<le> D"
  proof (cases "w / h > 1")
    case True
    then have "h \<le> w" using assms by simp
    then have "D * h \<le> D * w" using assms by (simp add: mult_left_mono)
    then show ?thesis using assms True by (simp add: spec_contentRect_landscape pos_divide_le_eq)
  next
    case False then show ?thesis using assms by (simp add: spec_contentRect_portrait)
  qed
  show "contentWidth (spec_contentRect w h D) = D \<or> contentHeight (spec_contentRect w h D) = D"
    by (simp add: spec_contentRect_def Let_def)
  show "contentWidth (spec_contentRect w h D) * h = contentHeight (spec_contentRect w h D) * w"
    using assms by (simp add: spec_contentRect_def Let_def)
qed

lemma resizeImage_char:
  assumes "readAsDataURL env file = Some url" "url \<noteq> []" "loadImage env url = Some (w, h)"
  shows "resizeImage env file D =
     (let R = spec_contentRect (real w) (real h) D;
          c0 = \<lparr>width = canvas_side 300 D, height = canvas_side 150 D, drawn = []\<rparr>;
          c = c0\<lparr>drawn := [FillRect ''black'' 0 0 D D,
                 DrawImage5 (Image url w h) (offsetX R) (offsetY R) (contentWidth R) (contentHeight R)]\<rparr>
      in if \<not> getContext env c0 then Inl ContextError
         else if toBlob env c
              then Inr \<lparr>name = name file, type = ''image/jpeg'', bits = CanvasBlob c ''image/jpeg'' (95 / 100)\<rparr>
              else Inl BlobError)"
  using assms by (simp add: resizeImage_def spec_contentRect_def Let_def)

lemma crop_char:
  assumes "loadImage env url = Some (w, h)"
  shows "cropToOriginalAspectRatio env url ow oh D =
     (let a = fl (ow / oh);
          cw = (if a > 1 then D else fl (D * a));
          ch = (if a > 1 then fl (D / a) else D);
          c0 = \<lparr>width = canvas_side 300 cw, height = canvas_side 150 ch, drawn = []\<rparr>;
          c = c0\<lparr>drawn := [DrawImage9 (Image url w h) (fl (fl (D - cw) / 2)) (fl (fl (D - ch) / 2))
                   cw ch 0 0 cw ch]\<rparr>
      in if \<not> getContext env c0 then Inl CropContextError else Inr (toDataURL env c))"
  using assms by (simp add: cropToOriginalAspectRatio_def Let_def)

lemma markImage_char:
  assumes "readAsDataURL env file = Some url" "url \<noteq> []" "loadImage env url = Some (w, h)"
  shows "markImage env file pos (ow, oh) =
     (let c0 = \<lparr>width = canvas_side 300 (real w), height = canvas_side 150 (real h), drawn = []\<rparr>;
          R = spec_contentRect ow oh (real (width c0));
          r = max 5 (min (real (width c0)) (real (height c0)) * (15 / 1000));
          mx = offsetX R + xPercent pos / 100 * contentWidth R;
          my = offsetY R + yPercent pos / 100 * contentHeight R;
          c = c0\<lparr>drawn := [DrawImage3 (Image url w h) 0 0, FillCircle ''red'' mx my r,
                 StrokeCircle ''white'' (r * (2 / 10)) mx my r]\<rparr>
      in if \<not> getContext env c0 then Inl MarkContextError
         else if toBlob env c
              then Inr \<lparr>name = ''marked-'' @ name file, type = ''image/jpeg'', bits = CanvasBlob c ''image/jpeg'' (95 / 100)\<rparr>
              else Inl MarkBlobError)"
  using assms by (simp add: markImage_def spec_contentRect_def Let_def)

text \<open>
  C1. For every image of positive width and height that the browser reads and decodes, and
  every target dimension \<open>D\<close> (a whole number of pixels, at most \<open>2^31 - 1\<close>, the largest
  side a canvas takes), \<^verbatim>\<open>resizeImage\<close> fails only when the canvas gives no 2D context or
  no blob; otherwise it returns a file that holds a canvas of exactly \<open>D\<close> by \<open>D\<close> pixels:
  first the whole canvas is filled with opaque black, then the image is drawn into the
  content rectangle of the specification. If \<open>width / height > 1\<close> the content is \<open>D\<close>
  wide and \<open>D / aspectRatio\<close> high, else it is \<open>D\<close> high and \<open>D * aspectRatio\<close> wide; so
  both sides are at most \<open>D\<close>, one of them is \<open>D\<close>, and the content is centred at the
  offsets \<open>(D - contentWidth) / 2\<close> and \<open>(D - contentHeight) / 2\<close>.
\<close>

theorem resizeImage_letterbox:
  assumes "0 < w" "0 < h" "D \<le> 2147483647"
    and "readAsDataURL env file = Some url" "url \<noteq> []" "loadImage env url = Some (w, h)"
  shows "\<exists>x y newWidth newHeight.
     resizeImage env file (real D) =
       (if \<not> getContext env \<lparr>width = D, height = D, drawn = []\<rparr> then Inl ContextError
        else if toBlob env
                  \<lparr>width = D, height = D,
                   drawn = [FillRect ''black'' 0 0 (real D) (real D),
                            DrawImage5 (Image url w h) x y newWidth newHeight]\<rparr>
             then Inr \<lparr>name = name file, type = ''image/jpeg'',
                       bits = CanvasBlob
                         \<lparr>width = D, height = D,
                          drawn = [FillRect ''black'' 0 0 (real D) (real D),
                                   DrawImage5 (Image url w h) x y newWidth newHeight]\<rparr>
                         ''image/jpeg'' (95 / 100)\<rparr>
             else Inl BlobError) \<and>
     \<lparr>offsetX = x, offsetY = y, contentWidth = newWidth, contentHeight = newHeight\<rparr> =
       spec_contentRect (real w) (real h) (real D) \<and>
     (if real w / real h > 1
      then newWidth = real D \<and> newHeight = real D / (real w / real h)
      else newHeight = real D \<and> newWidth = real D * (real w / real h)) \<and>
     newWidth \<le> real D \<and> newHeight \<le> real D \<and> (newWidth = real D \<or> newHeight = real D) \<and>
     x = (real D - newWidth) / 2 \<and> y = (real D - newHeight) / 2 \<and> 0 \<le> x \<and> 0 \<le> y"
proof -
  let ?R = "spec_contentRect (real w) (real h) (real D)"
  have pos: "0 < real w" "0 < real h" "0 \<le> real D"
    using assms(1,2) by simp_all
  have b: "contentWidth ?R \<le> real D" "contentHeight ?R \<le> real D"
    "contentWidth ?R = real D \<or> contentHeight ?R = real D"
    using spec_contentRect_bounds [OF pos] by simp_all
  have side: "canvas_side 300 (real D) = D" "canvas_side 150 (real D) = D"
    using assms(3) by (simp_all add: canvas_side_nat)
  have res: "resizeImage env file (real D) =
       (if \<not> getContext env \<lparr>width = D, height = D, drawn = []\<rparr> then Inl ContextError
        else if toBlob env
                  \<lparr>width = D, height = D,
                   drawn = [FillRect ''black'' 0 0 (real D) (real D),
                            DrawImage5 (Image url w h) (offsetX ?R) (offsetY ?R)
                              (contentWidth ?R) (contentHeight ?R)]\<rparr>
             then Inr \<lparr>name = name file, type = ''image/jpeg'',
                       bits = CanvasBlob
                         \<lparr>width = D, height = D,
                          drawn = [FillRect ''black'' 0 0 (real D) (real D),
                                   DrawImage5 (Image url w h) (offsetX ?R) (offsetY ?R)
                                     (contentWidth ?R) (contentHeight ?R)]\<rparr>
                         ''image/jpeg'' (95 / 100)\<rparr>
             else Inl BlobError)"
    unfolding resizeImage_char [OF assms(4,5,6)] side Let_def by simp
  have f: "if real w / real h > 1
      then contentWidth ?R = real D \<and> contentHeight ?R = real D / (real w / real h)
      else contentHeight ?R = real D \<and> contentWidth ?R = real D * (real w / real h)"
    by (simp add: spec_contentRect_def Let_def)
  have o: "offsetX ?R = (real D - contentWidth ?R) / 2" "offsetY ?R = (real D - contentHeight ?R) / 2"
    by (simp_all add: spec_contentRect_def Let_def)
  have o0: "0 \<le> offsetX ?R" "0 \<le> offsetY ?R"
    using b o by simp_all
  show ?thesis
    apply (rule exI [of _ "offsetX ?R"], rule exI [of _ "offsetY ?R"])
    apply (rule exI [of _ "contentWidth ?R"], rule exI [of _ "contentHeight ?R"])
    apply (intro conjI)
             apply (rule res)
    using b f o o0 by simp_all
qed

theorem resizeImage_letterbox_witness:
  "resizeImage sample_dom sample_scene 1024 =
     Inr \<lparr>name = ''room'', type = ''image/jpeg'',
          bits = CanvasBlob
            \<lparr>width = 1024, height = 1024,
             drawn = [FillRect ''black'' 0 0 1024 1024,
                      DrawImage5 (Image ''data:image/png;base64,room'' 800 600) 0 128 1024 768]\<rparr>
            ''image/jpeg'' (95 / 100)\<rparr> \<and>
   resizeImage portrait_dom sample_portrait 1024 =
     Inr \<lparr>name = ''door'', type = ''image/jpeg'',
          bits = CanvasBlob
            \<lparr>width = 1024, height = 1024,
             drawn = [FillRect ''black'' 0 0 1024 1024,
                      DrawImage5 (Image ''data:image/png;base64,door'' 600 800) 128 0 768 1024]\<rparr>
            ''image/jpeg'' (95 / 100)\<rparr> \<and>
   resizeImage sample_dom sample_product 1024 =
     Inr \<lparr>name = ''lamp'', type = ''image/jpeg'',
          bits = CanvasBlob
            \<lparr>width = 1024, height = 1024,
             drawn = [FillRect ''black'' 0 0 1024 1024,
                      DrawImage5 (Image ''data:image/png;base64,lamp'' 400 400) 0 0 1024 1024]\<rparr>
            ''image/jpeg'' (95 / 100)\<rparr>"
proof -
  have n: "real (1024::nat) = 1024" "real (800::nat) = 800" "real (600::nat) = 600"
    "real (400::nat) = 400"
    by simp_all
  have g: "\<And>c. getContext sample_dom c" "\<And>c. toBlob sample_dom c"
    "\<And>c. getContext portrait_dom c" "\<And>c. toBlob portrait_dom c"
    by (simp_all add: sample_dom_def portrait_dom_def)
  have r1: "readAsDataURL sample_dom sample_scene = Some ''data:image/png;base64,room''"
    by (simp add: sample_dom_def sample_scene_def)
  have l1: "loadImage sample_dom ''data:image/png;base64,room'' = Some (800, 600)"
    by (simp add: sample_dom_def)
  have R1: "spec_contentRect 800 600 1024 =
      \<lparr>offsetX = 0, offsetY = 128, contentWidth = 1024, contentHeight = 768\<rparr>"
    by (simp add: spec_contentRect_def Let_def)
  from resizeImage_letterbox [of 800 600 1024 sample_dom sample_scene, OF _ _ _ r1 _ l1]
  obtain x y nw nh where
    res: "resizeImage sample_dom sample_scene (real (1024::nat)) =
       (if \<not> getContext sample_dom \<lparr>width = 1024, height = 1024, drawn = []\<rparr> then Inl ContextError
        else if toBlob sample_dom
                  \<lparr>width = 1024, height = 1024,
                   drawn = [FillRect ''black'' 0 0 (real (1024::nat)) (real (1024::nat)),
                            DrawImage5 (Image ''data:image/png;base64,room'' 800 600) x y nw nh]\<rparr>
             then Inr \<lparr>name = name sample_scene, type = ''image/jpeg'',
                       bits = CanvasBlob
                         \<lparr>width = 1024, height = 1024,
                          drawn = [FillRect ''black'' 0 0 (real (1024::nat)) (real (1024::nat)),
                                   DrawImage5 (Image ''data:image/png;base64,room'' 800 600)
                                     x y nw nh]\<rparr>
                         ''image/jpeg'' (95 / 100)\<rparr>
             else Inl BlobError)"
    and rect: "\<lparr>offsetX = x, offsetY = y, contentWidth = nw, contentHeight = nh\<rparr> =
       spec_contentRect (real (800::nat)) (real (600::nat)) (real (1024::nat))"
    by auto
  from rect have xy: "x = 0" "y = 128" "nw = 1024" "nh = 768"
    unfolding n R1 by simp_all
  have landscape: "resizeImage sample_dom sample_scene 1024 =
     Inr \<lparr>name = ''room'', type = ''image/jpeg'',
          bits = CanvasBlob
            \<lparr>width = 1024, height = 1024,
             drawn = [FillRect ''black'' 0 0 1024 1024,
                      DrawImage5 (Image ''data:image/png;base64,room'' 800 600) 0 128 1024 768]\<rparr>
            ''image/jpeg'' (95 / 100)\<rparr>"
    using res unfolding n xy by (simp add: g sample_scene_def)
  have r2: "readAsDataURL portrait_dom sample_portrait = Some ''data:image/png;base64,door''"
    by (simp add: portrait_dom_def sample_dom_def sample_portrait_def)
  have l2: "loadImage portrait_dom ''data:image/png;base64,door'' = Some (600, 800)"
    by (simp add: portrait_dom_def)
  have R2: "spec_contentRect 600 800 1024 =
      \<lparr>offsetX = 128, offsetY = 0, contentWidth = 768, contentHeight = 1024\<rparr>"
    by (simp add: spec_contentRect_def Let_def)
  from resizeImage_letterbox [of 600 800 1024 portrait_dom sample_portrait, OF _ _ _ r2 _ l2]
  obtain x y nw nh where
    res: "resizeImage portrait_dom sample_portrait (real (1024::nat)) =
       (if \<not> getContext portrait_dom \<lparr>width = 1024, height = 1024, drawn = []\<rparr> then Inl ContextError
        else if toBlob portrait_dom
                  \<lparr>width = 1024, height = 1024,
                   drawn = [FillRect ''black'' 0 0 (real (1024::nat)) (real (1024::nat)),
                            DrawImage5 (Image ''data:image/png;base64,door'' 600 800) x y nw nh]\<rparr>
             then Inr \<lparr>name = name sample_portrait, type = ''image/jpeg'',
                       bits = CanvasBlob
                         \<lparr>width = 1024, height = 1024,
                          drawn = [FillRect ''black'' 0 0 (real (1024::nat)) (real (1024::nat)),
                                   DrawImage5 (Image ''data:image/png;base64,door'' 600 800)
                                     x y nw nh]\<rparr>
                         ''image/jpeg'' (95 / 100)\<rparr>
             else Inl BlobError)"
    and rect: "\<lparr>offsetX = x, offsetY = y, contentWidth = nw, contentHeight = nh\<rparr> =
       spec_contentRect (real (600::nat)) (real (800::nat)) (real (1024::nat))"
    by auto
  from rect have xy: "x = 128" "y = 0" "nw = 768" "nh = 1024"
    unfolding n R2 by simp_all
  have portrait: "resizeImage portrait_dom sample_portrait 1024 =
     Inr \<lparr>name = ''door'', type = ''image/jpeg'',
          bits = CanvasBlob
            \<lparr>width = 1024, height = 1024,
             drawn = [FillRect ''black'' 0 0 1024 1024,
                      DrawImage5 (Image ''data:image/png;base64,door'' 600 800) 128 0 768 1024]\<rparr>
            ''image/jpeg'' (95 / 100)\<rparr>"
    using res unfolding n xy by (simp add: g sample_portrait_def)
  have r3: "readAsDataURL sample_dom sample_product = Some ''data:image/png;base64,lamp''"
    by (simp add: sample_dom_def sample_product_def)
  have l3: "loadImage sample_dom ''data:image/png;base64,lamp'' = Some (400, 400)"
    by (simp add: sample_dom_def)
  have R3: "spec_contentRect 400 400 1024 =
      \<lparr>offsetX = 0, offsetY = 0, contentWidth = 1024, contentHeight = 1024\<rparr>"
    by (simp add: spec_contentRect_def Let_def)
  from resizeImage_letterbox [of 400 400 1024 sample_dom sample_product, OF _ _ _ r3 _ l3]
  obtain x y nw nh where
    res: "resizeImage sample_dom sample_product (real (1024::nat)) =
       (if \<not> getContext sample_dom \<lparr>width = 1024, height = 1024, drawn = []\<rparr> then Inl ContextError
        else if toBlob sample_dom
                  \<lparr>width = 1024, height = 1024,
                   drawn = [FillRect ''black'' 0 0 (real (1024::nat)) (real (1024::nat)),
                            DrawImage5 (Image ''data:image/png;base64,lamp'' 400 400) x y nw nh]\<rparr>
             then Inr \<lparr>name = name sample_product, type = ''image/jpeg'',
                       bits = CanvasBlob
                         \<lparr>width = 1024, height = 1024,
                          drawn = [FillRect ''black'' 0 0 (real (1024::nat)) (real (1024::nat)),
                                   DrawImage5 (Image ''data:image/png;base64,lamp'' 400 400)
                                     x y nw nh]\<rparr>
                         ''image/jpeg'' (95 / 100)\<rparr>
             else Inl BlobError)"
    and rect: "\<lparr>offsetX = x, offsetY = y, contentWidth = nw, contentHeight = nh\<rparr> =
       spec_contentRect (real (400::nat)) (real (400::nat)) (real (1024::nat))"
    by auto
  from rect have xy: "x = 0" "y = 0" "nw = 1024" "nh = 1024"
    unfolding n R3 by simp_all
  have square: "resizeImage sample_dom sample_product 1024 =
     Inr \<lparr>name = ''lamp'', type = ''image/jpeg'',
          bits = CanvasBlob
            \<lparr>width = 1024, height = 1024,
             drawn = [FillRect ''black'' 0 0 1024 1024,
                      DrawImage5 (Image ''data:image/png;base64,lamp'' 400 400) 0 0 1024 1024]\<rparr>
            ''image/jpeg'' (95 / 100)\<rparr>"
    using res unfolding n xy by (simp add: g sample_product_def)
  show ?thesis
    using landscape portrait square by simp
qed

lemma floor_near_ratio:
  fixes v :: real and N w :: nat
  assumes "0 < w" "\<bar>v - real N / real w\<bar> < 1 / real w"
  shows "real N / real w - 1 \<le> of_int \<lfloor>v\<rfloor>" "of_int \<lfloor>v\<rfloor> \<le> real N / real w"
proof -
  have w0: "0 < real w" using assms(1) by simp
  have e1: "(real N + 1) / real w = real N / real w + 1 / real w"
    by (simp add: add_divide_distrib)
  have e2: "(real N - 1) / real w = real N / real w - 1 / real w"
    by (simp add: diff_divide_distrib)
  have up: "v < (real N + 1) / real w"
    using assms(2) unfolding e1 abs_less_iff by linarith
  have lo: "(real N - 1) / real w < v"
    using assms(2) unfolding e2 abs_less_iff by linarith
  have "of_int \<lfloor>v\<rfloor> < (real N + 1) / real w" using up by linarith
  then have "real_of_int \<lfloor>v\<rfloor> * real w < real N + 1" using w0 by (simp add: pos_less_divide_eq)
  then have "real_of_int (\<lfloor>v\<rfloor> * int w) < real_of_int (int N + 1)" by simp
  then have "\<lfloor>v\<rfloor> * int w < int N + 1" by (simp only: of_int_less_iff)
  then have "\<lfloor>v\<rfloor> * int w \<le> int N" by simp
  then have "real_of_int (\<lfloor>v\<rfloor> * int w) \<le> real_of_int (int N)" by (simp only: of_int_le_iff)
  then have "real_of_int \<lfloor>v\<rfloor> * real w \<le> real N" by simp
  then show "of_int \<lfloor>v\<rfloor> \<le> real N / real w" using w0 by (simp add: pos_le_divide_eq)
  have "(real N - 1) / real w < of_int \<lfloor>v\<rfloor> + 1" using lo by linarith
  then have "real N - 1 < (real_of_int \<lfloor>v\<rfloor> + 1) * real w" using w0 by (simp add: pos_divide_less_eq)
  then have "real_of_int (int N - 1) < real_of_int ((\<lfloor>v\<rfloor> + 1) * int w)" by simp
  then have "int N - 1 < (\<lfloor>v\<rfloor> + 1) * int w" by (simp only: of_int_less_iff)
  then have "int N \<le> (\<lfloor>v\<rfloor> + 1) * int w" by simp
  then have "real_of_int (int N) \<le> real_of_int ((\<lfloor>v\<rfloor> + 1) * int w)" by (simp only: of_int_le_iff)
  then have "real N \<le> (real_of_int \<lfloor>v\<rfloor> + 1) * real w" by simp
  then have "real N / real w \<le> real_of_int \<lfloor>v\<rfloor> + 1" using w0 by (simp add: pos_divide_le_eq)
  then show "real N / real w - 1 \<le> of_int \<lfloor>v\<rfloor>" by simp
qed

lemma real_div_le_self: "0 \<le> X \<Longrightarrow> 1 \<le> a \<Longrightarrow> X / a \<le> (X::real)"
proof -
  assume a: "0 \<le> X" "1 \<le> a"
  then have "X * 1 \<le> X * a" by (intro mult_left_mono) simp_all
  then show ?thesis using a(2) by (simp add: pos_divide_le_eq)
qed

lemma side_bound:
  fixes D w :: nat
  assumes "0 < w" "w \<le> 1048576" "D \<le> 2147483647"
  shows "real D / 2 ^ 52 < 1 / real w"
proof -
  have "real D * real w \<le> 2147483647 * 1048576"
    using assms by (intro mult_mono) simp_all
  then have "real D * real w < 2 ^ 52" by simp
  then show ?thesis using assms(1) by (simp add: field_simps)
qed

lemma crop_landscape:
  fixes D w h :: nat
  assumes "0 < h" "h < w" "w \<le> 1048576" "D \<le> 2147483647"
  shows "1 < fl (real w / real h)"
    and "\<bar>fl (real D / fl (real w / real h)) - real D * real h / real w\<bar> \<le> real D / 2 ^ 52"
    and "0 \<le> fl (real D / fl (real w / real h))"
    and "fl (real D / fl (real w / real h)) \<le> real D"
proof -
  let ?r = "real w / real h" and ?a = "fl (real w / real h)"
  let ?q = "real D / ?a" and ?E = "real D * real h / real w"
  have h0: "0 < real h" and w0: "0 < real w" using assms by simp_all
  have "real h + 1 \<le> real w" using assms(2) by linarith
  then have "(real h + 1) / real h \<le> ?r" using h0 by (intro divide_right_mono) simp_all
  moreover have "(real h + 1) / real h = 1 + 1 / real h"
    using h0 by (simp add: add_divide_distrib)
  ultimately have r1: "1 + 1 / real h \<le> ?r" by simp
  have "real h \<le> 1048576" using assms(2,3) by linarith
  then have "1 / 1048576 \<le> 1 / real h" using h0 by (simp add: field_simps)
  then have r2: "1 + 1 / 1048576 \<le> ?r" using r1 by linarith
  have ea: "\<bar>?a - ?r\<bar> \<le> ?r / 2 ^ 53" using fl_err [of ?r] h0 w0 by simp
  then show a1: "1 < ?a" using r2 by (simp add: abs_le_iff)
  have D0: "0 \<le> real D" by simp
  have qD: "?q \<le> real D" using a1 D0 by (intro real_div_le_self) simp_all
  have q0: "0 \<le> ?q" using a1 by simp
  have E: "?E = real D / ?r" using h0 w0 by simp
  have "?q - real D / ?r = real D * ((?r - ?a) / (?a * ?r))"
    using a1 h0 w0 by (simp add: field_simps)
  then have "\<bar>?q - ?E\<bar> = real D * (\<bar>?r - ?a\<bar> / (?a * ?r))"
    unfolding E using a1 h0 w0 by (simp add: abs_mult)
  also have "\<dots> \<le> real D * ((?r / 2 ^ 53) / (?a * ?r))"
    using ea a1 h0 w0 by (intro mult_left_mono divide_right_mono) (simp_all add: abs_minus_commute)
  also have "\<dots> = real D / 2 ^ 53 / ?a" using h0 w0 by simp
  also have "\<dots> \<le> real D / 2 ^ 53" using a1 by (intro real_div_le_self) simp_all
  finally have e1: "\<bar>?q - ?E\<bar> \<le> real D / 2 ^ 53" .
  have "\<bar>fl ?q - ?q\<bar> \<le> ?q / 2 ^ 53" using fl_err [of ?q] q0 by simp
  then have e2: "\<bar>fl ?q - ?q\<bar> \<le> real D / 2 ^ 53" using qD by (simp add: field_simps)
  have p: "real D / 2 ^ 53 + real D / 2 ^ 53 = real D / 2 ^ 52" by simp
  have "\<bar>fl ?q - ?E\<bar> \<le> \<bar>fl ?q - ?q\<bar> + \<bar>?q - ?E\<bar>" by linarith
  then show "\<bar>fl ?q - ?E\<bar> \<le> real D / 2 ^ 52" using e1 e2 p by linarith
  show "0 \<le> fl ?q" using q0 by (rule fl_nonneg)
  have "D < 2 ^ 53" using assms(4) by simp
  then have "fl (real D) = real D" by (rule fl_of_nat)
  then show "fl ?q \<le> real D" using fl_mono [OF qD] by simp
qed

lemma crop_portrait:
  fixes D w h :: nat
  assumes "0 < w" "w \<le> h" "h \<le> 1048576" "D \<le> 2147483647"
  shows "fl (real w / real h) \<le> 1"
    and "\<bar>fl (real D * fl (real w / real h)) - real D * real w / real h\<bar> \<le> real D / 2 ^ 52"
    and "0 \<le> fl (real D * fl (real w / real h))"
    and "fl (real D * fl (real w / real h)) \<le> real D"
proof -
  let ?r = "real w / real h" and ?a = "fl (real w / real h)"
  let ?q = "real D * ?a" and ?E = "real D * real w / real h"
  have w0: "0 < real w" and h0: "0 < real h" using assms by simp_all
  have r0: "0 < ?r" using w0 h0 by simp
  have r1: "?r \<le> 1" using assms(2) h0 by simp
  show a1: "?a \<le> 1" using r1 by (rule fl_le_1)
  have a0: "0 \<le> ?a" using r0 by (intro fl_nonneg) simp
  have "\<bar>?a - ?r\<bar> \<le> ?r / 2 ^ 53" using fl_err [of ?r] r0 by simp
  also have "\<dots> \<le> 1 / 2 ^ 53" using r1 by (intro divide_right_mono) simp_all
  finally have ea: "\<bar>?a - ?r\<bar> \<le> 1 / 2 ^ 53" .
  have D0: "0 \<le> real D" by simp
  have "?q - ?E = real D * (?a - ?r)" by (simp add: algebra_simps)
  then have "\<bar>?q - ?E\<bar> = real D * \<bar>?a - ?r\<bar>" by (simp add: abs_mult)
  also have "\<dots> \<le> real D * (1 / 2 ^ 53)" using ea by (intro mult_left_mono) simp_all
  finally have e1: "\<bar>?q - ?E\<bar> \<le> real D / 2 ^ 53" by simp
  have q0: "0 \<le> ?q" using a0 by simp
  have "real D * ?a \<le> real D * 1" using a1 by (intro mult_left_mono) simp_all
  then have qD: "?q \<le> real D" by simp
  have "\<bar>fl ?q - ?q\<bar> \<le> ?q / 2 ^ 53" using fl_err [of ?q] q0 by simp
  also have "\<dots> \<le> real D / 2 ^ 53" using qD by (intro divide_right_mono) simp_all
  finally have e2: "\<bar>fl ?q - ?q\<bar> \<le> real D / 2 ^ 53" .
  have p: "real D / 2 ^ 53 + real D / 2 ^ 53 = real D / 2 ^ 52" by simp
  have "\<bar>fl ?q - ?E\<bar> \<le> \<bar>fl ?q - ?q\<bar> + \<bar>?q - ?E\<bar>" by linarith
  then show "\<bar>fl ?q - ?E\<bar> \<le> real D / 2 ^ 52" using e1 e2 p by linarith
  show "0 \<le> fl ?q" using q0 by (rule fl_nonneg)
  have "D < 2 ^ 53" using assms(4) by simp
  then have "fl (real D) = real D" by (rule fl_of_nat)
  then show "fl ?q \<le> real D" using fl_mono [OF qD] by simp
qed

lemma crop_offset:
  fixes D s E :: real
  assumes "0 \<le> s" "s \<le> D" "\<bar>s - E\<bar> \<le> D / 2 ^ 52"
  shows "\<bar>fl (fl (D - s) / 2) - (D - E) / 2\<bar> \<le> D / 2 ^ 51"
proof -
  let ?u = "fl (D - s)"
  define e where "e = D / 2 ^ 53"
  have D0: "0 \<le> D" using assms by simp
  have e0: "0 \<le> e" "e \<le> D" using D0 by (simp_all add: e_def field_simps)
  have p: "D / 2 ^ 52 = 2 * e" "D / 2 ^ 51 = 4 * e" by (simp_all add: e_def)
  have "\<bar>?u - (D - s)\<bar> \<le> (D - s) / 2 ^ 53" using fl_err [of "D - s"] assms(2) by simp
  also have "\<dots> \<le> D / 2 ^ 53" using assms(1) by (intro divide_right_mono) simp_all
  finally have e1: "\<bar>?u - (D - s)\<bar> \<le> e" by (simp add: e_def)
  have u: "\<bar>?u / 2\<bar> \<le> D" using e1 e0 assms(1,2) by linarith
  have "\<bar>fl (?u / 2) - ?u / 2\<bar> \<le> \<bar>?u / 2\<bar> / 2 ^ 53" by (rule fl_err)
  also have "\<dots> \<le> D / 2 ^ 53" using u by (intro divide_right_mono) simp_all
  finally have e2: "\<bar>fl (?u / 2) - ?u / 2\<bar> \<le> e" by (simp add: e_def)
  have u1: "?u \<le> D - s + e" "D - s - e \<le> ?u" using e1 by linarith+
  have t1: "fl (?u / 2) \<le> ?u / 2 + e" "?u / 2 - e \<le> fl (?u / 2)" using e2 by linarith+
  have s1: "s \<le> E + 2 * e" "E - 2 * e \<le> s" using assms(3) unfolding p by linarith+
  have h: "(D - E) / 2 = D / 2 - E / 2" by (simp add: diff_divide_distrib)
  have "fl (?u / 2) - (D - E) / 2 \<le> 4 * e" "- (fl (?u / 2) - (D - E) / 2) \<le> 4 * e"
    unfolding h using u1 t1 s1 e0 by linarith+
  then show ?thesis unfolding p abs_le_iff by simp
qed
lemma crop_rect:
  fixes D w h :: nat
  assumes "0 < w" "w \<le> 1048576" "0 < h" "h \<le> 1048576" "D \<le> 2147483647"
  defines "a \<equiv> fl (real w / real h)"
  defines "cw \<equiv> (if a > 1 then real D else fl (real D * a))"
    and "ch \<equiv> (if a > 1 then fl (real D / a) else real D)"
  defines "x \<equiv> fl (fl (real D - cw) / 2)" and "y \<equiv> fl (fl (real D - ch) / 2)"
    and "R \<equiv> spec_contentRect (real w) (real h) (real D)"
  shows "a > 1 \<longleftrightarrow> h < w"
    and "0 \<le> cw" "cw \<le> real D" "0 \<le> ch" "ch \<le> real D"
    and "\<bar>x - offsetX R\<bar> \<le> real D / 2 ^ 51" "\<bar>y - offsetY R\<bar> \<le> real D / 2 ^ 51"
    and "\<bar>cw - contentWidth R\<bar> \<le> real D / 2 ^ 51" "\<bar>ch - contentHeight R\<bar> \<le> real D / 2 ^ 51"
    and "if h < w
         then nat \<lfloor>cw\<rfloor> = D \<and> real D * real h / real w - 1 \<le> real (nat \<lfloor>ch\<rfloor>) \<and>
              real (nat \<lfloor>ch\<rfloor>) \<le> real D * real h / real w
         else nat \<lfloor>ch\<rfloor> = D \<and> real D * real w / real h - 1 \<le> real (nat \<lfloor>cw\<rfloor>) \<and>
              real (nat \<lfloor>cw\<rfloor>) \<le> real D * real w / real h"
proof -
  have w0: "0 < real w" and h0: "0 < real h" using assms(1,3) by simp_all
  have le: "real D / 2 ^ 52 \<le> real D / 2 ^ 51" by simp
  have z: "\<bar>0::real\<bar> \<le> real D / 2 ^ 51" by simp
  have goal: "(a > 1 \<longleftrightarrow> h < w) \<and> 0 \<le> cw \<and> cw \<le> real D \<and> 0 \<le> ch \<and> ch \<le> real D \<and>
    \<bar>x - offsetX R\<bar> \<le> real D / 2 ^ 51 \<and> \<bar>y - offsetY R\<bar> \<le> real D / 2 ^ 51 \<and>
    \<bar>cw - contentWidth R\<bar> \<le> real D / 2 ^ 51 \<and> \<bar>ch - contentHeight R\<bar> \<le> real D / 2 ^ 51 \<and>
    (if h < w
         then nat \<lfloor>cw\<rfloor> = D \<and> real D * real h / real w - 1 \<le> real (nat \<lfloor>ch\<rfloor>) \<and>
              real (nat \<lfloor>ch\<rfloor>) \<le> real D * real h / real w
         else nat \<lfloor>ch\<rfloor> = D \<and> real D * real w / real h - 1 \<le> real (nat \<lfloor>cw\<rfloor>) \<and>
              real (nat \<lfloor>cw\<rfloor>) \<le> real D * real w / real h)"
  proof (cases "h < w")
    case True
    note L = crop_landscape [OF assms(3) True assms(2,5)]
    let ?E = "real D * real h / real w"
    have a1: "a > 1" using L(1) by (simp add: a_def)
    have cw: "cw = real D" and ch: "ch = fl (real D / a)" using a1 by (simp_all add: cw_def ch_def)
    have x: "x = 0" by (simp add: x_def cw fl_0)
    have r1: "real w / real h > 1" using True h0 by simp
    have R: "R = \<lparr>offsetX = 0, offsetY = (real D - ?E) / 2, contentWidth = real D, contentHeight = ?E\<rparr>"
      unfolding R_def by (rule spec_contentRect_landscape [OF w0 h0 r1])
    have s: "0 \<le> ch" "ch \<le> real D" "\<bar>ch - ?E\<bar> \<le> real D / 2 ^ 52"
      using L(2,3,4) by (simp_all add: ch a_def)
    have y: "\<bar>y - (real D - ?E) / 2\<bar> \<le> real D / 2 ^ 51"
      unfolding y_def by (rule crop_offset [OF s])
    have "\<bar>ch - real (D * h) / real w\<bar> < 1 / real w"
      using s(3) side_bound [OF assms(1,2,5)] by simp
    note f = floor_near_ratio [OF assms(1) this]
    have n: "real (nat \<lfloor>ch\<rfloor>) = of_int \<lfloor>ch\<rfloor>" using s(1) by simp
    have px: "?E - 1 \<le> real (nat \<lfloor>ch\<rfloor>)" "real (nat \<lfloor>ch\<rfloor>) \<le> ?E"
      unfolding n using f by simp_all
    show ?thesis
      using True a1 s(1,2) y s(3) le px by (simp add: R x cw)
  next
    case False
    then have wh: "w \<le> h" by simp
    note P = crop_portrait [OF assms(1) wh assms(4,5)]
    let ?E = "real D * real w / real h"
    have a1: "\<not> a > 1" using P(1) by (simp add: a_def)
    have ch: "ch = real D" and cw: "cw = fl (real D * a)" using a1 by (simp_all add: cw_def ch_def)
    have y: "y = 0" by (simp add: y_def ch fl_0)
    have r1: "\<not> real w / real h > 1" using wh h0 by simp
    have R: "R = \<lparr>offsetX = (real D - ?E) / 2, offsetY = 0, contentWidth = ?E, contentHeight = real D\<rparr>"
      unfolding R_def by (rule spec_contentRect_portrait [OF w0 h0 r1])
    have s: "0 \<le> cw" "cw \<le> real D" "\<bar>cw - ?E\<bar> \<le> real D / 2 ^ 52"
      using P(2,3,4) by (simp_all add: cw a_def)
    have x: "\<bar>x - (real D - ?E) / 2\<bar> \<le> real D / 2 ^ 51"
      unfolding x_def by (rule crop_offset [OF s])
    have "\<bar>cw - real (D * w) / real h\<bar> < 1 / real h"
      using s(3) side_bound [OF assms(3,4,5)] by simp
    note f = floor_near_ratio [OF assms(3) this]
    have n: "real (nat \<lfloor>cw\<rfloor>) = of_int \<lfloor>cw\<rfloor>" using s(1) by simp
    have px: "?E - 1 \<le> real (nat \<lfloor>cw\<rfloor>)" "real (nat \<lfloor>cw\<rfloor>) \<le> ?E"
      unfolding n using f by simp_all
    show ?thesis
      using False a1 s(1,2) x s(3) le px by (simp add: R y ch)
  qed
  show "a > 1 \<longleftrightarrow> h < w"
    and "0 \<le> cw" "cw \<le> real D" "0 \<le> ch" "ch \<le> real D"
    and "\<bar>x - offsetX R\<bar> \<le> real D / 2 ^ 51" "\<bar>y - offsetY R\<bar> \<le> real D / 2 ^ 51"
    and "\<bar>cw - contentWidth R\<bar> \<le> real D / 2 ^ 51" "\<bar>ch - contentHeight R\<bar> \<le> real D / 2 ^ 51"
    and "if h < w
         then nat \<lfloor>cw\<rfloor> = D \<and> real D * real h / real w - 1 \<le> real (nat \<lfloor>ch\<rfloor>) \<and>
              real (nat \<lfloor>ch\<rfloor>) \<le> real D * real h / real w
         else nat \<lfloor>ch\<rfloor> = D \<and> real D * real w / real h - 1 \<le> real (nat \<lfloor>cw\<rfloor>) \<and>
              real (nat \<lfloor>cw\<rfloor>) \<le> real D * real w / real h"
    using goal by blast+
qed

text \<open>
  C2. For every original width and height from 1 to \<open>2^20\<close> pixels and every target
  dimension \<open>D\<close> (as in C1), when the generated image decodes,
  \<^verbatim>\<open>cropToOriginalAspectRatio\<close> computes the content rectangle by the formula of the
  letterbox resize, each operation rounded to a double, and extracts exactly that rectangle:
  it is the source rectangle of the one drawing call, and the canvas that is encoded has
  the rectangle's width and height with the fractions dropped; the function fails only when
  that canvas gives no 2D context. The branch taken is that of the exact ratio. The long
  side of the result is \<open>D\<close>, and the short side lies between \<open>s - 1\<close> and \<open>s\<close>, where
  \<open>s\<close> (\<open>D * h / w\<close> or \<open>D * w / h\<close>) is the side of exactly the original ratio: the
  aspect ratio is restored within one pixel. Each of the four numbers of the rectangle is
  within \<open>D / 2^51\<close> of the content rectangle of the specification, which is the
  rectangle into which the letterbox resize of an image of the same width and height drew
  at the same \<open>D\<close>. (The short side can be one pixel less than \<open>\<lfloor>s\<rfloor>\<close>: for
  640 by 465 at 1024 the quotient is 743.9999999999999 and the canvas 743 pixels high, where
  \<open>s = 744\<close>.)
\<close>

theorem crop_restores_aspect:
  fixes w h D gw gh :: nat
  assumes "0 < w" "w \<le> 1048576" "0 < h" "h \<le> 1048576" "D \<le> 2147483647"
    and "loadImage env gen = Some (gw, gh)"
  shows "\<exists>a x y cw ch.
     a = fl (real w / real h) \<and>
     (if a > 1 then cw = real D \<and> ch = fl (real D / a) else ch = real D \<and> cw = fl (real D * a)) \<and>
     x = fl (fl (real D - cw) / 2) \<and> y = fl (fl (real D - ch) / 2) \<and>
     cropToOriginalAspectRatio env gen (real w) (real h) (real D) =
       (if getContext env \<lparr>width = nat \<lfloor>cw\<rfloor>, height = nat \<lfloor>ch\<rfloor>, drawn = []\<rparr>
        then Inr (toDataURL env
               \<lparr>width = nat \<lfloor>cw\<rfloor>, height = nat \<lfloor>ch\<rfloor>,
                drawn = [DrawImage9 (Image gen gw gh) x y cw ch 0 0 cw ch]\<rparr>)
        else Inl CropContextError) \<and>
     (a > 1 \<longleftrightarrow> real w / real h > 1) \<and>
     (if h < w
      then nat \<lfloor>cw\<rfloor> = D \<and> real D * real h / real w - 1 \<le> real (nat \<lfloor>ch\<rfloor>) \<and>
           real (nat \<lfloor>ch\<rfloor>) \<le> real D * real h / real w
      else nat \<lfloor>ch\<rfloor> = D \<and> real D * real w / real h - 1 \<le> real (nat \<lfloor>cw\<rfloor>) \<and>
           real (nat \<lfloor>cw\<rfloor>) \<le> real D * real w / real h) \<and>
     \<bar>x - offsetX (spec_contentRect (real w) (real h) (real D))\<bar> \<le> real D / 2 ^ 51 \<and>
     \<bar>y - offsetY (spec_contentRect (real w) (real h) (real D))\<bar> \<le> real D / 2 ^ 51 \<and>
     \<bar>cw - contentWidth (spec_contentRect (real w) (real h) (real D))\<bar> \<le> real D / 2 ^ 51 \<and>
     \<bar>ch - contentHeight (spec_contentRect (real w) (real h) (real D))\<bar> \<le> real D / 2 ^ 51 \<and>
     (\<forall>file url padded.
        readAsDataURL env file = Some url \<and> url \<noteq> [] \<and> loadImage env url = Some (w, h) \<and>
        resizeImage env file (real D) = Inr padded \<longrightarrow>
        (\<exists>rx ry rw rh.
           bits padded = CanvasBlob
             \<lparr>width = D, height = D,
              drawn = [FillRect ''black'' 0 0 (real D) (real D),
                       DrawImage5 (Image url w h) rx ry rw rh]\<rparr>
             ''image/jpeg'' (95 / 100) \<and>
           \<bar>x - rx\<bar> \<le> real D / 2 ^ 51 \<and> \<bar>y - ry\<bar> \<le> real D / 2 ^ 51 \<and>
           \<bar>cw - rw\<bar> \<le> real D / 2 ^ 51 \<and> \<bar>ch - rh\<bar> \<le> real D / 2 ^ 51))"
proof -
  let ?a = "fl (real w / real h)"
  let ?cw = "if ?a > 1 then real D else fl (real D * ?a)"
  let ?ch = "if ?a > 1 then fl (real D / ?a) else real D"
  let ?x = "fl (fl (real D - ?cw) / 2)" and ?y = "fl (fl (real D - ?ch) / 2)"
  let ?R = "spec_contentRect (real w) (real h) (real D)"
  note r = crop_rect [OF assms(1-5)]
  have h0: "0 < real h" using assms(3) by simp
  have br: "?a > 1 \<longleftrightarrow> real w / real h > 1"
    using r(1) h0 by simp
  have D: "real D \<le> 2147483647" using assms(5) by simp
  have side: "canvas_side 300 ?cw = nat \<lfloor>?cw\<rfloor>" "canvas_side 150 ?ch = nat \<lfloor>?ch\<rfloor>"
    using r(2,3,4,5) D by (intro canvas_side_floor; linarith)+
  have res: "cropToOriginalAspectRatio env gen (real w) (real h) (real D) =
       (if getContext env \<lparr>width = nat \<lfloor>?cw\<rfloor>, height = nat \<lfloor>?ch\<rfloor>, drawn = []\<rparr>
        then Inr (toDataURL env
               \<lparr>width = nat \<lfloor>?cw\<rfloor>, height = nat \<lfloor>?ch\<rfloor>,
                drawn = [DrawImage9 (Image gen gw gh) ?x ?y ?cw ?ch 0 0 ?cw ?ch]\<rparr>)
        else Inl CropContextError)"
    unfolding crop_char [OF assms(6)] Let_def side by simp
  have f: "if ?a > 1 then ?cw = real D \<and> ?ch = fl (real D / ?a)
           else ?ch = real D \<and> ?cw = fl (real D * ?a)"
    by simp
  have comp: "\<exists>rx ry rw rh.
           bits padded = CanvasBlob
             \<lparr>width = D, height = D,
              drawn = [FillRect ''black'' 0 0 (real D) (real D),
                       DrawImage5 (Image url w h) rx ry rw rh]\<rparr>
             ''image/jpeg'' (95 / 100) \<and>
           \<bar>?x - rx\<bar> \<le> real D / 2 ^ 51 \<and> \<bar>?y - ry\<bar> \<le> real D / 2 ^ 51 \<and>
           \<bar>?cw - rw\<bar> \<le> real D / 2 ^ 51 \<and> \<bar>?ch - rh\<bar> \<le> real D / 2 ^ 51"
    if "readAsDataURL env f = Some url" "url \<noteq> []" "loadImage env url = Some (w, h)"
      "resizeImage env f (real D) = Inr padded"
    for f url padded
  proof -
    have "bits padded = CanvasBlob
             \<lparr>width = D, height = D,
              drawn = [FillRect ''black'' 0 0 (real D) (real D),
                       DrawImage5 (Image url w h) (offsetX ?R) (offsetY ?R) (contentWidth ?R)
                         (contentHeight ?R)]\<rparr>
             ''image/jpeg'' (95 / 100)"
      using that(4) assms(5) unfolding resizeImage_char [OF that(1,2,3)] Let_def
      by (auto simp: canvas_side_nat split: if_splits)
    then show ?thesis
      using r(6,7,8,9) by blast
  qed
  have all: "\<forall>f url padded.
        readAsDataURL env f = Some url \<and> url \<noteq> [] \<and> loadImage env url = Some (w, h) \<and>
        resizeImage env f (real D) = Inr padded \<longrightarrow>
        (\<exists>rx ry rw rh.
           bits padded = CanvasBlob
             \<lparr>width = D, height = D,
              drawn = [FillRect ''black'' 0 0 (real D) (real D),
                       DrawImage5 (Image url w h) rx ry rw rh]\<rparr>
             ''image/jpeg'' (95 / 100) \<and>
           \<bar>?x - rx\<bar> \<le> real D / 2 ^ 51 \<and> \<bar>?y - ry\<bar> \<le> real D / 2 ^ 51 \<and>
           \<bar>?cw - rw\<bar> \<le> real D / 2 ^ 51 \<and> \<bar>?ch - rh\<bar> \<le> real D / 2 ^ 51)"
    by (intro allI impI, elim conjE, rule comp)
  show ?thesis
    apply (rule exI [of _ ?a], rule exI [of _ ?x], rule exI [of _ ?y])
    apply (rule exI [of _ ?cw], rule exI [of _ ?ch])
    apply (intro conjI)
               apply (rule refl)
              apply (rule f)
             apply (rule refl)
            apply (rule refl)
           apply (rule res)
          apply (rule br)
         apply (rule r(10))
        apply (rule r(6))
       apply (rule r(7))
      apply (rule r(8))
     apply (rule r(9))
    apply (rule all)
    done
qed

theorem crop_restores_aspect_witness:
  "cropToOriginalAspectRatio sample_dom ''data:image/png;base64,generated'' 640 465 1024 =
     Inr (toDataURL sample_dom
       \<lparr>width = 1024, height = 743,
        drawn = [DrawImage9 (Image ''data:image/png;base64,generated'' 1024 1024)
                   0 (2462906046218241 / 17592186044416)
                   1024 (6544293208522751 / 8796093022208) 0 0
                   1024 (6544293208522751 / 8796093022208)]\<rparr>) \<and>
   cropToOriginalAspectRatio sample_dom ''data:image/png;base64,generated'' 465 640 1024 =
     Inr (toDataURL sample_dom
       \<lparr>width = 744, height = 1024,
        drawn = [DrawImage9 (Image ''data:image/png;base64,generated'' 1024 1024)
                   140 0 744 1024 0 0 744 1024]\<rparr>) \<and>
   cropToOriginalAspectRatio sample_dom ''data:image/png;base64,generated'' 400 400 1024 =
     Inr (toDataURL sample_dom
       \<lparr>width = 1024, height = 1024,
        drawn = [DrawImage9 (Image ''data:image/png;base64,generated'' 1024 1024)
                   0 0 1024 1024 0 0 1024 1024]\<rparr>)"
proof -
  let ?gen = "''data:image/png;base64,generated''"
  have g: "loadImage sample_dom ?gen = Some (1024, 1024)"
    by (simp add: sample_dom_def)
  have c: "\<And>c. getContext sample_dom c"
    by (simp add: sample_dom_def)
  have n: "real (640::nat) = 640" "real (465::nat) = 465" "real (1024::nat) = 1024"
    "real (400::nat) = 400"
    by simp_all
  have a1: "fl (640 / 465) = 3099251356470019 / 2251799813685248"
    using fl_eval [of 0 "640 / 465" 6198502712940038] by simp
  have h1: "fl (1024 / (3099251356470019 / 2251799813685248)) = 6544293208522751 / 8796093022208"
    using fl_eval [of 9 "1024 / (3099251356470019 / 2251799813685248)" 6544293208522751] by simp
  have u1: "fl (1024 - 6544293208522751 / 8796093022208) = 2462906046218241 / 8796093022208"
    using fl_eval [of 8 "1024 - 6544293208522751 / 8796093022208" 4925812092436482] by simp
  have y1: "fl (2462906046218241 / 8796093022208 / 2) = 2462906046218241 / 17592186044416"
    using fl_eval [of 7 "2462906046218241 / 8796093022208 / 2" 4925812092436482] by simp
  have a2: "fl (465 / 640) = 93 / 128"
    using fl_eval [of "- 1" "465 / 640" 6544293208522752] by simp
  have i: "fl 744 = 744" "fl 280 = 280" "fl 140 = 140" "fl 1 = 1" "fl 1024 = 1024"
    using fl_of_nat [of 744] fl_of_nat [of 280] fl_of_nat [of 140] fl_of_nat [of 1]
      fl_of_nat [of 1024]
    by simp_all
  from crop_restores_aspect [of 640 465 1024 sample_dom ?gen 1024 1024, OF _ _ _ _ _ g]
  obtain a x y cw ch where
    1: "a = fl (real (640::nat) / real (465::nat))"
    and 2: "if a > 1 then cw = real (1024::nat) \<and> ch = fl (real (1024::nat) / a)
           else ch = real (1024::nat) \<and> cw = fl (real (1024::nat) * a)"
    and 3: "x = fl (fl (real (1024::nat) - cw) / 2)" "y = fl (fl (real (1024::nat) - ch) / 2)"
    and 4: "cropToOriginalAspectRatio sample_dom ?gen (real (640::nat)) (real (465::nat))
        (real (1024::nat)) =
       (if getContext sample_dom \<lparr>width = nat \<lfloor>cw\<rfloor>, height = nat \<lfloor>ch\<rfloor>, drawn = []\<rparr>
        then Inr (toDataURL sample_dom
               \<lparr>width = nat \<lfloor>cw\<rfloor>, height = nat \<lfloor>ch\<rfloor>,
                drawn = [DrawImage9 (Image ?gen 1024 1024) x y cw ch 0 0 cw ch]\<rparr>)
        else Inl CropContextError)"
    by auto
  have a: "a = 3099251356470019 / 2251799813685248"
    using 1 a1 by simp
  have gt: "(3099251356470019 / 2251799813685248 :: real) > 1"
    by simp
  have cw: "cw = 1024" and ch: "ch = 6544293208522751 / 8796093022208"
    using 2 unfolding a n by (simp_all only: gt if_True h1)
  have x: "x = 0"
    using 3(1) unfolding cw n by (simp add: fl_0)
  have y: "y = 2462906046218241 / 17592186044416"
    using 3(2) unfolding ch n u1 y1 .
  have landscape: "cropToOriginalAspectRatio sample_dom ?gen 640 465 1024 =
     Inr (toDataURL sample_dom
       \<lparr>width = 1024, height = 743,
        drawn = [DrawImage9 (Image ?gen 1024 1024)
                   0 (2462906046218241 / 17592186044416)
                   1024 (6544293208522751 / 8796093022208) 0 0
                   1024 (6544293208522751 / 8796093022208)]\<rparr>)"
    using 4 unfolding n cw ch x y by (simp add: c)
  from crop_restores_aspect [of 465 640 1024 sample_dom ?gen 1024 1024, OF _ _ _ _ _ g]
  obtain a x y cw ch where
    1: "a = fl (real (465::nat) / real (640::nat))"
    and 2: "if a > 1 then cw = real (1024::nat) \<and> ch = fl (real (1024::nat) / a)
           else ch = real (1024::nat) \<and> cw = fl (real (1024::nat) * a)"
    and 3: "x = fl (fl (real (1024::nat) - cw) / 2)" "y = fl (fl (real (1024::nat) - ch) / 2)"
    and 4: "cropToOriginalAspectRatio sample_dom ?gen (real (465::nat)) (real (640::nat))
        (real (1024::nat)) =
       (if getContext sample_dom \<lparr>width = nat \<lfloor>cw\<rfloor>, height = nat \<lfloor>ch\<rfloor>, drawn = []\<rparr>
        then Inr (toDataURL sample_dom
               \<lparr>width = nat \<lfloor>cw\<rfloor>, height = nat \<lfloor>ch\<rfloor>,
                drawn = [DrawImage9 (Image ?gen 1024 1024) x y cw ch 0 0 cw ch]\<rparr>)
        else Inl CropContextError)"
    by auto
  have a: "a = 93 / 128"
    using 1 a2 by simp
  have ch: "ch = 1024" and cw: "cw = 744"
    using 2 i unfolding a n by simp_all
  have y: "y = 0" and x: "x = 140"
    using 3 i unfolding cw ch n by (simp_all add: fl_0)
  have portrait: "cropToOriginalAspectRatio sample_dom ?gen 465 640 1024 =
     Inr (toDataURL sample_dom
       \<lparr>width = 744, height = 1024,
        drawn = [DrawImage9 (Image ?gen 1024 1024) 140 0 744 1024 0 0 744 1024]\<rparr>)"
    using 4 unfolding n cw ch x y by (simp add: c)
  from crop_restores_aspect [of 400 400 1024 sample_dom ?gen 1024 1024, OF _ _ _ _ _ g]
  obtain a x y cw ch where
    1: "a = fl (real (400::nat) / real (400::nat))"
    and 2: "if a > 1 then cw = real (1024::nat) \<and> ch = fl (real (1024::nat) / a)
           else ch = real (1024::nat) \<and> cw = fl (real (1024::nat) * a)"
    and 3: "x = fl (fl (real (1024::nat) - cw) / 2)" "y = fl (fl (real (1024::nat) - ch) / 2)"
    and 4: "cropToOriginalAspectRatio sample_dom ?gen (real (400::nat)) (real (400::nat))
        (real (1024::nat)) =
       (if getContext sample_dom \<lparr>width = nat \<lfloor>cw\<rfloor>, height = nat \<lfloor>ch\<rfloor>, drawn = []\<rparr>
        then Inr (toDataURL sample_dom
               \<lparr>width = nat \<lfloor>cw\<rfloor>, height = nat \<lfloor>ch\<rfloor>,
                drawn = [DrawImage9 (Image ?gen 1024 1024) x y cw ch 0 0 cw ch]\<rparr>)
        else Inl CropContextError)"
    by auto
  have a: "a = 1"
    using 1 i by simp
  have ch: "ch = 1024" and cw: "cw = 1024"
    using 2 i unfolding a by simp_all
  have y: "y = 0" and x: "x = 0"
    using 3 unfolding cw ch by (simp_all add: fl_0)
  have square: "cropToOriginalAspectRatio sample_dom ?gen 400 400 1024 =
     Inr (toDataURL sample_dom
       \<lparr>width = 1024, height = 1024,
        drawn = [DrawImage9 (Image ?gen 1024 1024) 0 0 1024 1024 0 0 1024 1024]\<rparr>)"
    using 4 unfolding n cw ch x y by (simp add: c)
  show ?thesis
    using landscape portrait square by simp
qed



text \<open>
  C8, as stated, fails: for the placement point (150, 50) on the sample scene the marker
  centre is at x = 1536 on a canvas 1024 wide, and \<^verbatim>\<open>markImage\<close> draws it there and
  returns the marked file; no error is raised.
\<close>

theorem markImage_out_of_range_counterexample:
  "markImage sample_dom sample_padded \<lparr>xPercent = 150, yPercent = 50\<rparr> (800, 600) =
     Inr \<lparr>name = ''marked-room'', type = ''image/jpeg'',
          bits = CanvasBlob
            \<lparr>width = 1024, height = 1024,
             drawn = [DrawImage3 (Image ''data:image/jpeg;base64,room'' 1024 1024) 0 0,
                      FillCircle ''red'' 1536 512 (384 / 25),
                      StrokeCircle ''white'' (384 / 125) 1536 512 (384 / 25)]\<rparr>
            ''image/jpeg'' (95 / 100)\<rparr> \<and>
   real (1024::nat) < 1536"
proof -
  have r: "readAsDataURL sample_dom sample_padded = Some ''data:image/jpeg;base64,room''"
    by (simp add: sample_dom_def sample_padded_def)
  have l: "loadImage sample_dom ''data:image/jpeg;base64,room'' = Some (1024, 1024)"
    by (simp add: sample_dom_def)
  have nz: "''data:image/jpeg;base64,room'' \<noteq> []"
    by simp
  show ?thesis
    by (subst markImage_char [OF r nz l])
      (simp add: sample_dom_def sample_padded_def Let_def canvas_side_def spec_contentRect_def)
qed

text \<open>
  C8, amended. \<^verbatim>\<open>markImage\<close> has no check of the geometry and raises no error for it: its
  only errors are those of reading the file, of decoding the image, of a missing 2D context
  and of a missing blob. For every placement point, inside [0, 100] or not, when the file is
  read and decoded and the canvas gives a context and a blob, it returns the marked file, the
  marker drawn at the offset plus the percent fraction of the content size, not clamped.
\<close>

theorem markImage_no_geometry_check:
  "(\<forall>e. markImage env padded pos (ow, oh) = Inl e \<longrightarrow>
      e \<in> {MarkFileReaderError, MarkFileReadEmpty, MarkImageLoadError, MarkContextError,
           MarkBlobError}) \<and>
   (0 < ow \<and> 0 < oh \<and>
    readAsDataURL env padded = Some url \<and> url \<noteq> [] \<and> loadImage env url = Some (w, h) \<and>
    (\<forall>c. getContext env c) \<and> (\<forall>c. toBlob env c) \<longrightarrow>
    (\<exists>T x y cw ch r.
       T = canvas_side 300 (real w) \<and>
       \<lparr>offsetX = x, offsetY = y, contentWidth = cw, contentHeight = ch\<rparr> =
         spec_contentRect ow oh (real T) \<and>
       r = max 5 (min (real T) (real (canvas_side 150 (real h))) * (15 / 1000)) \<and>
       markImage env padded pos (ow, oh) =
         Inr \<lparr>name = ''marked-'' @ name padded, type = ''image/jpeg'',
              bits = CanvasBlob
                \<lparr>width = T, height = canvas_side 150 (real h),
                 drawn = [DrawImage3 (Image url w h) 0 0,
                          FillCircle ''red'' (x + xPercent pos / 100 * cw)
                            (y + yPercent pos / 100 * ch) r,
                          StrokeCircle ''white'' (r * (2 / 10)) (x + xPercent pos / 100 * cw)
                            (y + yPercent pos / 100 * ch) r]\<rparr>
                ''image/jpeg'' (95 / 100)\<rparr>))"
proof (intro conjI allI impI)
  fix e
  assume "markImage env padded pos (ow, oh) = Inl e"
  then show "e \<in> {MarkFileReaderError, MarkFileReadEmpty, MarkImageLoadError, MarkContextError,
           MarkBlobError}"
    by (auto simp: markImage_def Let_def split: option.splits if_splits prod.splits)
next
  assume a: "0 < ow \<and> 0 < oh \<and>
    readAsDataURL env padded = Some url \<and> url \<noteq> [] \<and> loadImage env url = Some (w, h) \<and>
    (\<forall>c. getContext env c) \<and> (\<forall>c. toBlob env c)"
  let ?T = "canvas_side 300 (real w)"
  let ?R = "spec_contentRect ow oh (real ?T)"
  let ?r = "max 5 (min (real ?T) (real (canvas_side 150 (real h))) * (15 / 1000))"
  have r: "readAsDataURL env padded = Some url" and nz: "url \<noteq> []"
    and l: "loadImage env url = Some (w, h)"
    and g: "\<And>c. getContext env c" and t: "\<And>c. toBlob env c"
    using a by simp_all
  have m: "markImage env padded pos (ow, oh) =
         Inr \<lparr>name = ''marked-'' @ name padded, type = ''image/jpeg'',
              bits = CanvasBlob
                \<lparr>width = ?T, height = canvas_side 150 (real h),
                 drawn = [DrawImage3 (Image url w h) 0 0,
                          FillCircle ''red'' (offsetX ?R + xPercent pos / 100 * contentWidth ?R)
                            (offsetY ?R + yPercent pos / 100 * contentHeight ?R) ?r,
                          StrokeCircle ''white'' (?r * (2 / 10))
                            (offsetX ?R + xPercent pos / 100 * contentWidth ?R)
                            (offsetY ?R + yPercent pos / 100 * contentHeight ?R) ?r]\<rparr>
                ''image/jpeg'' (95 / 100)\<rparr>"
    unfolding markImage_char [OF r nz l] Let_def by (simp add: g t)
  show "\<exists>T x y cw ch r.
       T = canvas_side 300 (real w) \<and>
       \<lparr>offsetX = x, offsetY = y, contentWidth = cw, contentHeight = ch\<rparr> =
         spec_contentRect ow oh (real T) \<and>
       r = max 5 (min (real T) (real (canvas_side 150 (real h))) * (15 / 1000)) \<and>
       markImage env padded pos (ow, oh) =
         Inr \<lparr>name = ''marked-'' @ name padded, type = ''image/jpeg'',
              bits = CanvasBlob
                \<lparr>width = T, height = canvas_side 150 (real h),
                 drawn = [DrawImage3 (Image url w h) 0 0,
                          FillCircle ''red'' (x + xPercent pos / 100 * cw)
                            (y + yPercent pos / 100 * ch) r,
                          StrokeCircle ''white'' (r * (2 / 10)) (x + xPercent pos / 100 * cw)
                            (y + yPercent pos / 100 * ch) r]\<rparr>
                ''image/jpeg'' (95 / 100)\<rparr>"
    apply (rule exI [of _ ?T])
    apply (rule exI [of _ "offsetX ?R"], rule exI [of _ "offsetY ?R"])
    apply (rule exI [of _ "contentWidth ?R"], rule exI [of _ "contentHeight ?R"])
    apply (rule exI [of _ ?r])
    using m by simp
qed

theorem markImage_no_geometry_check_witness:
  "markImage sample_dom sample_padded \<lparr>xPercent = - 20, yPercent = 200\<rparr> (800, 600) =
     Inr \<lparr>name = ''marked-room'', type = ''image/jpeg'',
          bits = CanvasBlob
            \<lparr>width = 1024, height = 1024,
             drawn = [DrawImage3 (Image ''data:image/jpeg;base64,room'' 1024 1024) 0 0,
                      FillCircle ''red'' (- (1024 / 5)) 1664 (384 / 25),
                      StrokeCircle ''white'' (384 / 125) (- (1024 / 5)) 1664 (384 / 25)]\<rparr>
            ''image/jpeg'' (95 / 100)\<rparr>"
proof -
  let ?pos = "\<lparr>xPercent = - 20, yPercent = 200\<rparr>"
  have r: "readAsDataURL sample_dom sample_padded = Some ''data:image/jpeg;base64,room''"
    by (simp add: sample_dom_def sample_padded_def)
  have l: "loadImage sample_dom ''data:image/jpeg;base64,room'' = Some (1024, 1024)"
    by (simp add: sample_dom_def)
  have g: "\<forall>c. getContext sample_dom c" and t: "\<forall>c. toBlob sample_dom c"
    by (simp_all add: sample_dom_def)
  have T: "canvas_side 300 (real (1024::nat)) = 1024" "canvas_side 150 (real (1024::nat)) = 1024"
    by (simp_all add: canvas_side_def)
  have R: "spec_contentRect 800 600 (real (1024::nat)) =
      \<lparr>offsetX = 0, offsetY = 128, contentWidth = 1024, contentHeight = 768\<rparr>"
    by (simp add: spec_contentRect_def Let_def)
  have n: "name sample_padded = ''room''"
    by (simp add: sample_padded_def)
  from markImage_no_geometry_check
    [of sample_dom sample_padded ?pos 800 600 "''data:image/jpeg;base64,room''" 1024 1024]
    r l g t
  obtain x y cw ch where
    rect: "\<lparr>offsetX = x, offsetY = y, contentWidth = cw, contentHeight = ch\<rparr> =
       spec_contentRect 800 600 (real (1024::nat))"
    and m: "markImage sample_dom sample_padded ?pos (800, 600) =
         Inr \<lparr>name = ''marked-'' @ name sample_padded, type = ''image/jpeg'',
              bits = CanvasBlob
                \<lparr>width = 1024, height = 1024,
                 drawn = [DrawImage3 (Image ''data:image/jpeg;base64,room'' 1024 1024) 0 0,
                          FillCircle ''red'' (x + xPercent ?pos / 100 * cw)
                            (y + yPercent ?pos / 100 * ch) (384 / 25),
                          StrokeCircle ''white'' (384 / 25 * (2 / 10)) (x + xPercent ?pos / 100 * cw)
                            (y + yPercent ?pos / 100 * ch) (384 / 25)]\<rparr>
                ''image/jpeg'' (95 / 100)\<rparr>"
    unfolding T by auto
  from rect have xy: "x = 0" "y = 128" "cw = 1024" "ch = 768"
    unfolding R by simp_all
  show ?thesis
    using m unfolding xy n by simp
qed

section \<open>The percent to pixel round trip\<close>

lemma round_trip_axis:
  fixes p cw off :: real
  assumes "0 \<le> p" "p \<le> 100" "0 < cw" "0 \<le> off" "off \<le> 1048576 * cw" "fl off = off"
  defines "X \<equiv> fl (off + fl (fl (p / 100) * cw))"
  defines "i \<equiv> fl (X - off)"
  shows "0 \<le> i"
    and "\<bar>fl (fl (i / cw) * 100) - p\<bar> \<le> 1 / 2 ^ 26"
    and "p \<le> 100 - 1 / 10 ^ 6 \<Longrightarrow> i \<le> cw"
    and "\<bar>X - (off + p / 100 * cw)\<bar> \<le> cw / 2 ^ 32"
proof -
  define t where "t = p / 100"
  define a where "a = fl t"
  define q where "q = a * cw"
  define m where "m = fl q"
  define z where "z = off + m"
  define d where "d = X - off"
  define j where "j = i / cw"
  define b where "b = fl j"
  define c where "c = b * 100"
  define e where "e = cw / 9007199254740992"
  have X: "X = fl z" by (simp add: X_def z_def m_def q_def a_def t_def)
  have i: "i = fl d" by (simp add: i_def d_def)
  have e0: "0 < e" and ecw: "cw = 9007199254740992 * e" using assms(3) by (simp_all add: e_def)
  have t0: "0 \<le> t" and t1: "t \<le> 1" using assms(1,2) by (simp_all add: t_def)
  have a0: "0 \<le> a" unfolding a_def using t0 by (rule fl_nonneg)
  have a1: "a \<le> 1" unfolding a_def using t1 by (rule fl_le_1)
  have "\<bar>a - t\<bar> \<le> \<bar>t\<bar> / 2 ^ 53" unfolding a_def by (rule fl_err)
  then have at: "\<bar>a - t\<bar> \<le> 1 / 9007199254740992" using t0 t1 by simp
  have q0: "0 \<le> q" using a0 assms(3) by (simp add: q_def)
  have "a * cw \<le> 1 * cw" using a1 assms(3) by (intro mult_right_mono) simp_all
  then have qcw: "q \<le> cw" by (simp add: q_def)
  have "\<bar>q - t * cw\<bar> = \<bar>a - t\<bar> * cw"
    using assms(3) by (simp add: q_def abs_mult left_diff_distrib [symmetric])
  also have "\<dots> \<le> 1 / 9007199254740992 * cw" using at assms(3) by (intro mult_right_mono) simp_all
  finally have qt: "\<bar>q - t * cw\<bar> \<le> e" by (simp add: e_def)
  have "\<bar>m - q\<bar> \<le> \<bar>q\<bar> / 2 ^ 53" unfolding m_def by (rule fl_err)
  then have mq: "\<bar>m - q\<bar> \<le> e" using q0 qcw by (simp add: e_def)
  have m0: "0 \<le> m" unfolding m_def using q0 by (rule fl_nonneg)
  have mt: "\<bar>m - t * cw\<bar> \<le> 2 * e" using mq qt by linarith
  have mcw: "m \<le> cw + e" using mq qcw by linarith
  have z0: "0 \<le> z" using assms(4) m0 by (simp add: z_def)
  have zb: "z \<le> 1048577 * cw + e" using assms(5) mcw by (simp add: z_def)
  have "\<bar>X - z\<bar> \<le> \<bar>z\<bar> / 2 ^ 53" unfolding X by (rule fl_err)
  then have "\<bar>X - z\<bar> \<le> z / 9007199254740992" using z0 by simp
  then have Xz: "\<bar>X - z\<bar> \<le> 1048578 * e" using zb e0 unfolding ecw by linarith
  have "off \<le> z" using m0 by (simp add: z_def)
  then have "fl off \<le> fl z" by (rule fl_mono)
  then have Xoff: "off \<le> X" unfolding X assms(6) .
  have d0: "0 \<le> d" using Xoff by (simp add: d_def)
  have dm: "\<bar>d - m\<bar> \<le> 1048578 * e" using Xz by (simp add: d_def z_def)
  have db: "d \<le> cw + 1048579 * e" using dm mcw by linarith
  show i0: "0 \<le> i" unfolding i using d0 by (rule fl_nonneg)
  have "\<bar>i - d\<bar> \<le> \<bar>d\<bar> / 2 ^ 53" unfolding i by (rule fl_err)
  then have "\<bar>i - d\<bar> \<le> d / 9007199254740992" using d0 by simp
  then have id: "\<bar>i - d\<bar> \<le> 2 * e" using db e0 unfolding ecw by linarith
  have it: "\<bar>i - t * cw\<bar> \<le> 1048582 * e" using id dm mt by linarith
  have "j - t = (i - t * cw) / cw" using assms(3) by (simp add: j_def field_simps)
  then have "\<bar>j - t\<bar> = \<bar>i - t * cw\<bar> / cw" using assms(3) by simp
  also have "\<dots> \<le> 1048582 * e / cw" using it assms(3) by (intro divide_right_mono) simp_all
  also have "\<dots> = 1048582 / 9007199254740992" using assms(3) by (simp add: e_def)
  finally have jt: "\<bar>j - t\<bar> \<le> 1048582 / 9007199254740992" .
  have j0: "0 \<le> j" using i0 assms(3) by (simp add: j_def)
  have j2: "j \<le> 2" using jt t1 by linarith
  have "\<bar>b - j\<bar> \<le> \<bar>j\<bar> / 2 ^ 53" unfolding b_def by (rule fl_err)
  then have bj: "\<bar>b - j\<bar> \<le> 2 / 9007199254740992" using j0 j2 by simp
  have bt: "\<bar>b - t\<bar> \<le> 1048584 / 9007199254740992" using bj jt by linarith
  have b0: "0 \<le> b" unfolding b_def using j0 by (rule fl_nonneg)
  have b3: "b \<le> 3" using bt t1 by linarith
  have c0: "0 \<le> c" and c3: "c \<le> 300" using b0 b3 by (simp_all add: c_def)
  have "\<bar>fl c - c\<bar> \<le> \<bar>c\<bar> / 2 ^ 53" by (rule fl_err)
  then have fc: "\<bar>fl c - c\<bar> \<le> 300 / 9007199254740992" using c0 c3 by simp
  have "c - p = 100 * (b - t)" by (simp add: c_def t_def)
  then have "\<bar>c - p\<bar> = \<bar>100 * (b - t)\<bar>" by (rule arg_cong)
  also have "\<dots> = 100 * \<bar>b - t\<bar>" by (simp only: abs_mult abs_numeral)
  finally have ceq: "\<bar>c - p\<bar> = 100 * \<bar>b - t\<bar>" .
  have "100 * \<bar>b - t\<bar> \<le> 100 * (1048584 / 9007199254740992)"
    using bt by (intro mult_left_mono) simp_all
  then have cp: "\<bar>c - p\<bar> \<le> 104858400 / 9007199254740992"
    unfolding ceq by simp
  have "\<bar>fl c - p\<bar> \<le> 104858700 / 9007199254740992" using fc cp by linarith
  then have "\<bar>fl c - p\<bar> \<le> 1 / 2 ^ 26" by simp
  then show "\<bar>fl (fl (i / cw) * 100) - p\<bar> \<le> 1 / 2 ^ 26"
    by (simp add: c_def b_def j_def)
  show "i \<le> cw" if "p \<le> 100 - 1 / 10 ^ 6"
  proof -
    have "t \<le> 1 - 1 / 10 ^ 8" using that by (simp add: t_def)
    then have "t * cw \<le> (1 - 1 / 10 ^ 8) * cw" using assms(3) by (intro mult_right_mono) simp_all
    then have "t * cw \<le> cw - cw / 100000000" by (simp add: algebra_simps)
    then show ?thesis using it e0 unfolding ecw by linarith
  qed
  have "\<bar>X - (off + t * cw)\<bar> \<le> 1048580 * e" using Xz mt by (simp add: z_def)
  then have "\<bar>X - (off + t * cw)\<bar> \<le> cw / 2 ^ 32" using e0 unfolding ecw by simp
  then show "\<bar>X - (off + p / 100 * cw)\<bar> \<le> cw / 2 ^ 32" by (simp add: t_def)
qed

text \<open>
  C3, as stated, fails. With every operation rounded to a double, the point at \<open>1e-13\<close>
  percent of a content rectangle 768 wide at the offset 128 (the rectangle of a 600 by 800
  image at 1024) is mapped to the pixel 128.00000000000077 and back to \<open>9.992e-14\<close>
  percent: a relative error of \<open>8e-4\<close>, above \<open>1e-6\<close>. And the point at 100 percent of the
  rectangle that a 200 by 1000 image has at 1024 (offset 409.6, width 204.8, as doubles) is
  mapped to a pixel that the range test of the inverse rejects: 614.4000000000001 - 409.6 is
  204.80000000000007, more than the width.
\<close>

theorem round_trip_relative_counterexample:
  "dropPercent \<lparr>offsetX = 128, offsetY = 0, contentWidth = 768, contentHeight = 1024\<rparr>
     (finalMarker \<lparr>offsetX = 128, offsetY = 0, contentWidth = 768, contentHeight = 1024\<rparr>
        \<lparr>xPercent = 3961408125713217 / 39614081257132168796771975168, yPercent = 50\<rparr>) =
     Some \<lparr>xPercent = 225 / 2251799813685248, yPercent = 50\<rparr> \<and>
   \<bar>225 / 2251799813685248 - 3961408125713217 / 39614081257132168796771975168\<bar> >
     (1 / 10 ^ 6) * \<bar>3961408125713217 / 39614081257132168796771975168 :: real\<bar> \<and>
   fl (1 / 10 ^ 13) = 3961408125713217 / 39614081257132168796771975168 \<and>
   spec_contentRect 600 800 1024 =
     \<lparr>offsetX = 128, offsetY = 0, contentWidth = 768, contentHeight = 1024\<rparr> \<and>
   dropPercent
     \<lparr>offsetX = 3602879701896397 / 8796093022208, offsetY = 0,
      contentWidth = 3602879701896397 / 17592186044416, contentHeight = 1024\<rparr>
     (finalMarker
        \<lparr>offsetX = 3602879701896397 / 8796093022208, offsetY = 0,
         contentWidth = 3602879701896397 / 17592186044416, contentHeight = 1024\<rparr>
        \<lparr>xPercent = 100, yPercent = 50\<rparr>) = None \<and>
   fl (1024 * fl (200 / 1000)) = 3602879701896397 / 17592186044416 \<and>
   fl (fl (1024 - 3602879701896397 / 17592186044416) / 2) = 3602879701896397 / 8796093022208"
proof -
  let ?R = "\<lparr>offsetX = 128, offsetY = 0, contentWidth = 768, contentHeight = 1024\<rparr>"
  let ?p = "3961408125713217 / 39614081257132168796771975168 :: real"
  have p: "fl (1 / 10 ^ 13) = ?p"
    using fl_eval [of "- 44" "1 / 10 ^ 13" 7922816251426434] by simp
  have x1: "fl (?p / 100) = 2535301200456459 / 2535301200456458802993406410752"
    using fl_eval [of "- 50" "?p / 100" 5070602400912918] by simp
  have x2: "fl (2535301200456459 / 2535301200456458802993406410752 * 768) =
      7605903601369377 / 9903520314283042199192993792"
    using fl_eval [of "- 41" "2535301200456459 / 2535301200456458802993406410752 * 768"
        7605903601369377]
    by simp
  have x3: "fl (128 + 7605903601369377 / 9903520314283042199192993792) =
      4503599627370523 / 35184372088832"
    using fl_eval [of 7 "128 + 7605903601369377 / 9903520314283042199192993792" 4503599627370523]
    by simp
  have x4: "fl (4503599627370523 / 35184372088832 - 128) = 27 / 35184372088832"
    using fl_eval [of "- 41" "4503599627370523 / 35184372088832 - 128" 7599824371187712] by simp
  have x5: "fl (27 / 35184372088832 / 768) = 9 / 9007199254740992"
    using fl_eval [of "- 50" "27 / 35184372088832 / 768" 5066549580791808] by simp
  have x6: "fl (9 / 9007199254740992 * 100) = 225 / 2251799813685248"
    using fl_eval [of "- 44" "9 / 9007199254740992 * 100" 7916483719987200] by simp
  have y1: "fl (50 / 100) = 1 / 2"
    using fl_eval [of "- 1" "50 / 100" 4503599627370496] by simp
  have y2: "fl (1 / 2 * 1024) = 512" "fl (0 + 512) = 512" "fl (512 - 0) = 512"
    using fl_of_nat [of 512] by simp_all
  have y3: "fl (512 / 1024) = 1 / 2"
    using fl_eval [of "- 1" "512 / 1024" 4503599627370496] by simp
  have y4: "fl (1 / 2 * 100) = 50"
    using fl_of_nat [of 50] by simp
  have fwd: "finalMarker ?R \<lparr>xPercent = ?p, yPercent = 50\<rparr> =
      (4503599627370523 / 35184372088832, 512)"
    unfolding finalMarker_def Let_def
    by (simp only: rect.simps position.simps x1 x2 x3 y1 y2)
  have inv: "dropPercent ?R (4503599627370523 / 35184372088832, 512) =
      Some \<lparr>xPercent = 225 / 2251799813685248, yPercent = 50\<rparr>"
    unfolding dropPercent_def Let_def
    by (simp only: rect.simps prod.case x4 x5 x6 y2 y3 y4) simp
  have rel: "\<bar>225 / 2251799813685248 - ?p\<bar> > (1 / 10 ^ 6) * \<bar>?p\<bar>"
    by simp
  have R: "spec_contentRect 600 800 1024 = ?R"
    by (simp add: spec_contentRect_def Let_def)
  let ?S = "\<lparr>offsetX = 3602879701896397 / 8796093022208, offsetY = 0,
      contentWidth = 3602879701896397 / 17592186044416, contentHeight = 1024\<rparr>"
  have c1: "fl (200 / 1000) = 3602879701896397 / 18014398509481984"
    using fl_eval [of "- 3" "200 / 1000" 7205759403792794] by simp
  have c2: "fl (1024 * (3602879701896397 / 18014398509481984)) =
      3602879701896397 / 17592186044416"
    using fl_eval [of 7 "1024 * (3602879701896397 / 18014398509481984)" 7205759403792794]
    by simp
  have c3: "fl (1024 - 3602879701896397 / 17592186044416) = 3602879701896397 / 4398046511104"
    using fl_eval_tie [of 9 "1024 - 3602879701896397 / 17592186044416" 7205759403792793] by simp
  have c4: "fl (3602879701896397 / 4398046511104 / 2) = 3602879701896397 / 8796093022208"
    using fl_eval [of 8 "3602879701896397 / 4398046511104 / 2" 7205759403792794] by simp
  have z1: "fl (100 / 100) = 1"
    using fl_of_nat [of 1] by simp
  have z2: "fl (1 * (3602879701896397 / 17592186044416)) = 3602879701896397 / 17592186044416"
    using fl_eval [of 7 "1 * (3602879701896397 / 17592186044416)" 7205759403792794] by simp
  have z3: "fl (3602879701896397 / 8796093022208 + 3602879701896397 / 17592186044416) =
      1351079888211149 / 2199023255552"
    using fl_eval_tie [of 9 "3602879701896397 / 8796093022208 + 3602879701896397 / 17592186044416"
        5404319552844595]
    by simp
  have z4: "fl (1351079888211149 / 2199023255552 - 3602879701896397 / 8796093022208) =
      1801439850948199 / 8796093022208"
    using fl_eval [of 7 "1351079888211149 / 2199023255552 - 3602879701896397 / 8796093022208"
        7205759403792796]
    by simp
  have fwd': "finalMarker ?S \<lparr>xPercent = 100, yPercent = 50\<rparr> =
      (1351079888211149 / 2199023255552, 512)"
    unfolding finalMarker_def Let_def
    by (simp only: rect.simps position.simps z1 z2 z3 y1 y2)
  have out: "(1801439850948199 / 8796093022208 :: real) > 3602879701896397 / 17592186044416"
    by simp
  have inv': "dropPercent ?S (1351079888211149 / 2199023255552, 512) = None"
    unfolding dropPercent_def Let_def
    by (simp only: rect.simps prod.case z4 y2 out) simp
  show ?thesis
    unfolding fwd inv fwd' inv' c1 c2 c3 c4 using rel p R by simp
qed
text \<open>
  C3, amended. The forward map is the affine formula with each operation rounded: the pixel
  is within \<open>contentWidth / 2^32\<close> (vertically \<open>contentHeight / 2^32\<close>) of
  \<open>offsetX + xPercent / 100 * contentWidth\<close>. For every point with both percentages in
  [0, 100] and every content rectangle of positive width and height whose offsets are
  doubles, not negative and at most \<open>2^20\<close> times the side (as for the letterbox of any
  image of up to \<open>2^20\<close> pixels a side), the inverse either rejects the pixel, which it can
  only when a percentage is above \<open>100 - 1e-6\<close>, or recovers both percentages within an
  absolute \<open>2^-26\<close> (less than \<open>1.5e-8\<close> percent). The tolerance is absolute: no relative
  tolerance holds near 0.
\<close>

theorem round_trip_absolute:
  assumes "0 \<le> xPercent pos" "xPercent pos \<le> 100" "0 \<le> yPercent pos" "yPercent pos \<le> 100"
    and "0 < contentWidth R" "0 < contentHeight R"
    and "0 \<le> offsetX R" "offsetX R \<le> 1048576 * contentWidth R" "fl (offsetX R) = offsetX R"
    and "0 \<le> offsetY R" "offsetY R \<le> 1048576 * contentHeight R" "fl (offsetY R) = offsetY R"
  shows "\<bar>fst (finalMarker R pos) - (offsetX R + xPercent pos / 100 * contentWidth R)\<bar>
           \<le> contentWidth R / 2 ^ 32 \<and>
         \<bar>snd (finalMarker R pos) - (offsetY R + yPercent pos / 100 * contentHeight R)\<bar>
           \<le> contentHeight R / 2 ^ 32 \<and>
         (case dropPercent R (finalMarker R pos) of
            None \<Rightarrow> 100 - 1 / 10 ^ 6 < xPercent pos \<or> 100 - 1 / 10 ^ 6 < yPercent pos
          | Some pos' \<Rightarrow>
              \<bar>xPercent pos' - xPercent pos\<bar> \<le> 1 / 2 ^ 26 \<and>
              \<bar>yPercent pos' - yPercent pos\<bar> \<le> 1 / 2 ^ 26)"
proof -
  let ?X = "fl (offsetX R + fl (fl (xPercent pos / 100) * contentWidth R))"
  let ?Y = "fl (offsetY R + fl (fl (yPercent pos / 100) * contentHeight R))"
  let ?i = "fl (?X - offsetX R)" and ?j = "fl (?Y - offsetY R)"
  note x = round_trip_axis [OF assms(1,2,5,7,8,9)]
  note y = round_trip_axis [OF assms(3,4,6,10,11,12)]
  have f: "finalMarker R pos = (?X, ?Y)"
    by (simp add: finalMarker_def Let_def)
  have d: "dropPercent R (?X, ?Y) =
      (if \<not> (?i < 0 \<or> ?i > contentWidth R \<or> ?j < 0 \<or> ?j > contentHeight R)
       then Some \<lparr>xPercent = fl (fl (?i / contentWidth R) * 100),
                  yPercent = fl (fl (?j / contentHeight R) * 100)\<rparr>
       else None)"
    by (simp add: dropPercent_def Let_def)
  have c: "case dropPercent R (?X, ?Y) of
            None \<Rightarrow> 100 - 1 / 10 ^ 6 < xPercent pos \<or> 100 - 1 / 10 ^ 6 < yPercent pos
          | Some pos' \<Rightarrow>
              \<bar>xPercent pos' - xPercent pos\<bar> \<le> 1 / 2 ^ 26 \<and>
              \<bar>yPercent pos' - yPercent pos\<bar> \<le> 1 / 2 ^ 26"
  proof (cases "\<not> (?i < 0 \<or> ?i > contentWidth R \<or> ?j < 0 \<or> ?j > contentHeight R)")
    case True
    then show ?thesis
      unfolding d using x(2) y(2) by simp
  next
    case False
    then have "?i > contentWidth R \<or> ?j > contentHeight R"
      using x(1) y(1) by linarith
    then have "100 - 1 / 10 ^ 6 < xPercent pos \<or> 100 - 1 / 10 ^ 6 < yPercent pos"
      using x(3) y(3) by (meson not_le)
    then show ?thesis
      unfolding d using False by simp
  qed
  show ?thesis
    unfolding f using x(4) y(4) c by simp
qed

theorem round_trip_absolute_witness:
  "finalMarker \<lparr>offsetX = 128, offsetY = 0, contentWidth = 768, contentHeight = 1024\<rparr>
     \<lparr>xPercent = 25, yPercent = 50\<rparr> = (320, 512) \<and>
   dropPercent \<lparr>offsetX = 128, offsetY = 0, contentWidth = 768, contentHeight = 1024\<rparr>
     (320, 512) = Some \<lparr>xPercent = 25, yPercent = 50\<rparr>"
proof -
  let ?R = "\<lparr>offsetX = 128, offsetY = 0, contentWidth = 768, contentHeight = 1024\<rparr>"
  let ?pos = "\<lparr>xPercent = 25, yPercent = 50\<rparr>"
  have x1: "fl (25 / 100) = 1 / 4"
    using fl_eval [of "- 2" "25 / 100" 4503599627370496] by simp
  have x2: "fl (1 / 4 * 768) = 192" "fl (128 + 192) = 320" "fl (320 - 128) = 192"
    using fl_of_nat [of 192] fl_of_nat [of 320] by simp_all
  have x3: "fl (192 / 768) = 1 / 4"
    using fl_eval [of "- 2" "192 / 768" 4503599627370496] by simp
  have x4: "fl (1 / 4 * 100) = 25"
    using fl_of_nat [of 25] by simp
  have y1: "fl (50 / 100) = 1 / 2"
    using fl_eval [of "- 1" "50 / 100" 4503599627370496] by simp
  have y2: "fl (1 / 2 * 1024) = 512" "fl (0 + 512) = 512" "fl (512 - 0) = 512"
    using fl_of_nat [of 512] by simp_all
  have y3: "fl (512 / 1024) = 1 / 2"
    using fl_eval [of "- 1" "512 / 1024" 4503599627370496] by simp
  have y4: "fl (1 / 2 * 100) = 50"
    using fl_of_nat [of 50] by simp
  have fwd: "finalMarker ?R ?pos = (320, 512)"
    unfolding finalMarker_def Let_def
    by (simp only: rect.simps position.simps x1 x2 y1 y2)
  have inv: "dropPercent ?R (320, 512) = Some ?pos"
    unfolding dropPercent_def Let_def
    by (simp only: rect.simps prod.case x2 x3 x4 y2 y3 y4) simp
  have r: "fl (offsetX ?R) = offsetX ?R" "fl (offsetY ?R) = offsetY ?R"
    using fl_of_nat [of 128] by (simp_all add: fl_0)
  from round_trip_absolute [of ?pos ?R, OF _ _ _ _ _ _ _ _ r(1) _ _ r(2)] fwd inv
  show ?thesis
    by simp
qed

section \<open>The two pipelines\<close>

lemma find_has_inlineData:
  "find has_inlineData ps = None \<longleftrightarrow> \<not> list_ex has_inlineData ps"
  by (auto simp: find_None_iff list_ex_iff)

lemma find_has_inlineData_Some:
  "find has_inlineData ps = Some p \<Longrightarrow> \<exists>d. p = InlineDataPart d"
  by (auto simp: find_Some_iff elim: has_inlineData.elims)

lemma imagePartFromResponse_None:
  "imagePartFromResponse response = None \<longleftrightarrow> no_image_returned (Inr response)"
  by (auto simp: imagePartFromResponse_def no_image_returned_def find_has_inlineData [symmetric]
      split: option.splits list.splits content.splits part.splits
      dest: find_has_inlineData_Some)

lemma fileToPart_read:
  "fileToPart env f = Inr p \<Longrightarrow> \<exists>u. readAsDataURL env f = Some u \<and> fileToDataUrl env f = Inr u"
  by (auto simp: fileToPart_def fileToDataUrl_def split: option.splits)

lemma generateCompositeImage_run:
  assumes "getApiKey API_KEY = Inr apiKey"
    and "getImageDimensions env scene = Inr (ow, oh)"
    and "resizeImage env obj 1024 = Inr ro"
    and "resizeImage env scene 1024 = Inr rs"
    and "fileToPart env rs = Inr sp"
    and "markImage env rs pos (real ow, real oh) = Inr marked"
    and "fileToPart env marked = Inr mp"
    and "fileToPart env ro = Inr op"
    and "fileToDataUrl env marked = Inr mu"
    and "fileToDataUrl env ro = Inr pu"
    and "fileToDataUrl env rs = Inr su"
  shows "generateCompositeImage env GoogleGenAI API_KEY obj od scene ed pos ci sh [] =
     (let ai = GoogleGenAI apiKey;
          lreq = \<lparr>model = ''gemini-2.5-flash-lite'', contents = [TextPart lightingPrompt, sp]\<rparr>;
          lightingDescription = (case ai lreq of Inl e \<Rightarrow> fallback_lighting | Inr r \<Rightarrow> text' r);
          dreq = \<lparr>model = ''gemini-2.5-flash-lite'', contents = [TextPart descriptionPrompt, mp]\<rparr>;
          semanticLocationDescription =
            (case ai dreq of Inl e \<Rightarrow> fallback_location | Inr r \<Rightarrow> text' r);
          prompt' = prompt semanticLocationDescription lightingDescription
                      (getShadowDescription sh) (customInstructionsPart ci);
          sreq = \<lparr>model = ''gemini-2.5-flash-image'', contents = [op, sp, TextPart prompt']\<rparr>;
          sent = [lreq, dreq, sreq]
      in case ai sreq of
           Inl e \<Rightarrow> (Inl e, sent)
         | Inr response \<Rightarrow>
             (case imagePartFromResponse response of
                None \<Rightarrow> (Inl NoImageReturned, sent)
              | Some d \<Rightarrow>
                  (case cropToOriginalAspectRatio env
                          (''data:'' @ mimeType d @ '';base64,'' @ data d) (real ow) (real oh) 1024 of
                     Inl e \<Rightarrow> (Inl e, sent)
                   | Inr url \<Rightarrow>
                       (Inr \<lparr>finalImageUrl = url,
                             debugInfo = \<lparr>markedSceneUrl = mu, resizedProductUrl = pu,
                                          resizedSceneUrl = su, finalPrompt = prompt'\<rparr>\<rparr>, sent))))"
  unfolding generateCompositeImage_def
  by (simp add: assms await_def settled_def try_catch_def generateContent_def resolve_def
      reject_def Let_def split: sum.splits option.splits)

subsection \<open>The sample session, step by step\<close>

lemma sample_getApiKey: "getApiKey (Some ''key'') = Inr ''key''"
  by (simp add: getApiKey_def trim_def is_space_def)

lemma sample_dimensions: "getImageDimensions sample_dom sample_scene = Inr (800, 600)"
  by (simp add: getImageDimensions_def sample_dom_def sample_scene_def)

lemma sample_resize_scene: "resizeImage sample_dom sample_scene 1024 = Inr sample_padded"
  by (simp add: resizeImage_def sample_dom_def sample_scene_def sample_padded_def Let_def
      canvas_side_def)

lemma sample_resize_product:
  "resizeImage sample_dom sample_product 1024 = Inr sample_padded_product"
  by (simp add: resizeImage_def sample_dom_def sample_product_def sample_padded_product_def
      Let_def canvas_side_def)

lemma sample_mark:
  "markImage sample_dom sample_padded \<lparr>xPercent = 50, yPercent = 50\<rparr>
     (real (800::nat), real (600::nat)) = Inr sample_marked"
proof -
  have r: "readAsDataURL sample_dom sample_padded = Some ''data:image/jpeg;base64,room''"
    by (simp add: sample_dom_def sample_padded_def)
  have l: "loadImage sample_dom ''data:image/jpeg;base64,room'' = Some (1024, 1024)"
    by (simp add: sample_dom_def)
  have nz: "''data:image/jpeg;base64,room'' \<noteq> []"
    by simp
  show ?thesis
    by (subst markImage_char [OF r nz l])
      (simp add: sample_dom_def sample_padded_def sample_marked_def Let_def canvas_side_def
        spec_contentRect_def)
qed

lemma sample_part_scene:
  "fileToPart sample_dom sample_padded =
     Inr (InlineDataPart \<lparr>mimeType = ''image/jpeg'', data = ''room''\<rparr>)"
  by (simp add: fileToPart_def sample_dom_def sample_padded_def is_line_terminator_def)

lemma sample_part_marked:
  "fileToPart sample_dom sample_marked =
     Inr (InlineDataPart \<lparr>mimeType = ''image/jpeg'', data = ''marked-room''\<rparr>)"
  by (simp add: fileToPart_def sample_dom_def sample_marked_def is_line_terminator_def)

lemma sample_part_product:
  "fileToPart sample_dom sample_padded_product =
     Inr (InlineDataPart \<lparr>mimeType = ''image/jpeg'', data = ''lamp''\<rparr>)"
  by (simp add: fileToPart_def sample_dom_def sample_padded_product_def is_line_terminator_def)

lemma sample_image_part:
  "imagePartFromResponse sample_response = Some \<lparr>mimeType = ''image/png'', data = ''generated''\<rparr>"
  by (simp add: imagePartFromResponse_def sample_response_def)

lemma sample_crop:
  "cropToOriginalAspectRatio sample_dom ''data:image/png;base64,generated'' 800 600 1024 =
     Inr ''data:image/jpeg;base64,crop1024x768''"
proof -
  have g: "loadImage sample_dom ''data:image/png;base64,generated'' = Some (1024, 1024)"
    by (simp add: sample_dom_def)
  have a: "fl (800 / 600) = 6004799503160661 / 4503599627370496"
    using fl_eval [of 0 "800 / 600" 6004799503160661] by simp
  have ch: "fl (1024 / (6004799503160661 / 4503599627370496)) = 768"
    using fl_eval [of 9 "1024 / (6004799503160661 / 4503599627370496)" 6755399441055744] by simp
  have y: "fl 256 = 256" "fl 128 = 128"
    using fl_of_nat [of 256] fl_of_nat [of 128] by simp_all
  show ?thesis
    unfolding crop_char [OF g] Let_def a
    using ch y by (simp add: sample_dom_def canvas_side_def fl_0)
qed
lemma sublist_prompt:
  "sublist l (prompt s l sh c)" "sublist s (prompt s l sh c)"
proof -
  have "prompt s l sh c =
      (prompt_before_location @ s @ prompt_before_lighting) @ l @
      (prompt_before_shadow @ sh @ prompt_before_custom @ c @ prompt_after_custom)"
    by (simp add: prompt_def)
  then show "sublist l (prompt s l sh c)"
    by (metis sublist_appendI)
  have "prompt s l sh c =
      prompt_before_location @ s @
      (prompt_before_lighting @ l @ prompt_before_shadow @ sh @ prompt_before_custom @ c @
       prompt_after_custom)"
    by (simp add: prompt_def)
  then show "sublist s (prompt s l sh c)"
    by (metis sublist_appendI)
qed

lemma sample_urls:
  "fileToDataUrl sample_dom sample_marked = Inr ''data:image/jpeg;base64,marked-room''"
  "fileToDataUrl sample_dom sample_padded_product = Inr ''data:image/jpeg;base64,lamp''"
  "fileToDataUrl sample_dom sample_padded = Inr ''data:image/jpeg;base64,room''"
  by (simp_all add: fileToDataUrl_def sample_dom_def sample_marked_def sample_padded_product_def
      sample_padded_def)

lemmas sample_run =
  generateCompositeImage_run [OF sample_getApiKey sample_dimensions sample_resize_product
    sample_resize_scene sample_part_scene sample_mark sample_part_marked sample_part_product
    sample_urls]

lemma sample_shadow: "getShadowDescription 50 = ''normal and realistic''"
  by (simp add: getShadowDescription_def)

lemma sample_custom: "customInstructionsPart [] = []"
  by (simp add: customInstructionsPart_def trim_def)

text \<open>
  C4. Suppose the local steps of \<^verbatim>\<open>generateCompositeImage\<close> succeed. The synthesis request
  is the one that carries the two resized images and the final prompt, and it is the third
  and last request sent. If that call fails, the function rejects with the error of the
  call; if its response has no candidates, or has no part with inline image data in its
  first candidate, the function rejects with the error of line 469; either way no result is
  returned. Conversely, when the response has an inline image part and the crop-back of
  that image succeeds, the function returns the result that carries the cropped image, the
  three debug URLs and the final prompt; when the crop-back fails (lines 80 and 89), the
  function rejects with its error.
\<close>

theorem generateCompositeImage_synthesis:
  fixes GoogleGenAI :: client
    and objectDescription environmentDescription customInstructions :: string
    and shadowIntensity :: number
  assumes "getApiKey API_KEY = Inr apiKey"
    and "getImageDimensions env environmentImage = Inr (originalWidth, originalHeight)"
    and "resizeImage env objectImage 1024 = Inr resizedObjectImage"
    and "resizeImage env environmentImage 1024 = Inr resizedEnvironmentImage"
    and "fileToPart env resizedEnvironmentImage = Inr cleanEnvironmentImagePart"
    and "markImage env resizedEnvironmentImage dropPosition
           (real originalWidth, real originalHeight) = Inr markedResizedEnvironmentImage"
    and "fileToPart env markedResizedEnvironmentImage = Inr markedEnvironmentImagePart"
    and "fileToPart env resizedObjectImage = Inr objectImagePart"
  defines "ai \<equiv> GoogleGenAI apiKey"
  defines "lightingRequest \<equiv>
      \<lparr>model = ''gemini-2.5-flash-lite'',
       contents = [TextPart lightingPrompt, cleanEnvironmentImagePart]\<rparr>"
    and "descriptionRequest \<equiv>
      \<lparr>model = ''gemini-2.5-flash-lite'',
       contents = [TextPart descriptionPrompt, markedEnvironmentImagePart]\<rparr>"
  defines "finalPrompt' \<equiv>
      prompt (case ai descriptionRequest of Inl e \<Rightarrow> fallback_location | Inr r \<Rightarrow> text' r)
        (case ai lightingRequest of Inl e \<Rightarrow> fallback_lighting | Inr r \<Rightarrow> text' r)
        (getShadowDescription shadowIntensity) (customInstructionsPart customInstructions)"
  defines "synthesisRequest \<equiv>
      \<lparr>model = ''gemini-2.5-flash-image'',
       contents = [objectImagePart, cleanEnvironmentImagePart, TextPart finalPrompt']\<rparr>"
    and "outcome \<equiv>
      generateCompositeImage env GoogleGenAI API_KEY objectImage objectDescription
        environmentImage environmentDescription dropPosition customInstructions shadowIntensity []"
  shows "(\<forall>e. ai synthesisRequest = Inl e \<longrightarrow>
            outcome = (Inl e, [lightingRequest, descriptionRequest, synthesisRequest])) \<and>
         (\<forall>response. ai synthesisRequest = Inr response \<and> no_image_returned (Inr response) \<longrightarrow>
            outcome =
              (Inl NoImageReturned, [lightingRequest, descriptionRequest, synthesisRequest])) \<and>
         (\<forall>response d url.
            ai synthesisRequest = Inr response \<and> imagePartFromResponse response = Some d \<and>
            cropToOriginalAspectRatio env (''data:'' @ mimeType d @ '';base64,'' @ data d)
              (real originalWidth) (real originalHeight) 1024 = Inr url \<longrightarrow>
            \<not> no_image_returned (Inr response) \<and>
            (\<exists>info.
               finalPrompt info = finalPrompt' \<and>
               fileToDataUrl env markedResizedEnvironmentImage = Inr (markedSceneUrl info) \<and>
               fileToDataUrl env resizedObjectImage = Inr (resizedProductUrl info) \<and>
               fileToDataUrl env resizedEnvironmentImage = Inr (resizedSceneUrl info) \<and>
               outcome =
                 (Inr \<lparr>finalImageUrl = url, debugInfo = info\<rparr>,
                  [lightingRequest, descriptionRequest, synthesisRequest]))) \<and>
         (\<forall>response d e.
            ai synthesisRequest = Inr response \<and> imagePartFromResponse response = Some d \<and>
            cropToOriginalAspectRatio env (''data:'' @ mimeType d @ '';base64,'' @ data d)
              (real originalWidth) (real originalHeight) 1024 = Inl e \<longrightarrow>
            outcome = (Inl e, [lightingRequest, descriptionRequest, synthesisRequest]))"
proof -
  obtain mu pu su where u: "fileToDataUrl env markedResizedEnvironmentImage = Inr mu"
    "fileToDataUrl env resizedObjectImage = Inr pu"
    "fileToDataUrl env resizedEnvironmentImage = Inr su"
    using assms(5,7,8) by (blast dest: fileToPart_read)
  have run: "outcome =
     (case ai synthesisRequest of
        Inl e \<Rightarrow> (Inl e, [lightingRequest, descriptionRequest, synthesisRequest])
      | Inr response \<Rightarrow>
          (case imagePartFromResponse response of
             None \<Rightarrow> (Inl NoImageReturned, [lightingRequest, descriptionRequest, synthesisRequest])
           | Some d \<Rightarrow>
               (case cropToOriginalAspectRatio env
                       (''data:'' @ mimeType d @ '';base64,'' @ data d)
                       (real originalWidth) (real originalHeight) 1024 of
                  Inl e \<Rightarrow> (Inl e, [lightingRequest, descriptionRequest, synthesisRequest])
                | Inr url \<Rightarrow>
                    (Inr \<lparr>finalImageUrl = url,
                          debugInfo = \<lparr>markedSceneUrl = mu, resizedProductUrl = pu,
                                       resizedSceneUrl = su, finalPrompt = finalPrompt'\<rparr>\<rparr>,
                     [lightingRequest, descriptionRequest, synthesisRequest]))))"
    unfolding outcome_def generateCompositeImage_run [OF assms(1-8) u] Let_def
      synthesisRequest_def finalPrompt'_def lightingRequest_def descriptionRequest_def ai_def
    by (rule refl)
  have c1: "\<forall>e. ai synthesisRequest = Inl e \<longrightarrow>
            outcome = (Inl e, [lightingRequest, descriptionRequest, synthesisRequest])"
    unfolding run by simp
  have c2: "\<forall>response. ai synthesisRequest = Inr response \<and> no_image_returned (Inr response) \<longrightarrow>
            outcome =
              (Inl NoImageReturned, [lightingRequest, descriptionRequest, synthesisRequest])"
    unfolding run by (simp add: imagePartFromResponse_None [symmetric])
  have c3: "\<forall>response d url.
            ai synthesisRequest = Inr response \<and> imagePartFromResponse response = Some d \<and>
            cropToOriginalAspectRatio env (''data:'' @ mimeType d @ '';base64,'' @ data d)
              (real originalWidth) (real originalHeight) 1024 = Inr url \<longrightarrow>
            \<not> no_image_returned (Inr response) \<and>
            (\<exists>info.
               finalPrompt info = finalPrompt' \<and>
               fileToDataUrl env markedResizedEnvironmentImage = Inr (markedSceneUrl info) \<and>
               fileToDataUrl env resizedObjectImage = Inr (resizedProductUrl info) \<and>
               fileToDataUrl env resizedEnvironmentImage = Inr (resizedSceneUrl info) \<and>
               outcome =
                 (Inr \<lparr>finalImageUrl = url, debugInfo = info\<rparr>,
                  [lightingRequest, descriptionRequest, synthesisRequest]))"
  proof (intro allI impI, elim conjE, intro conjI)
    fix response d url
    assume a: "ai synthesisRequest = Inr response" "imagePartFromResponse response = Some d"
      "cropToOriginalAspectRatio env (''data:'' @ mimeType d @ '';base64,'' @ data d)
              (real originalWidth) (real originalHeight) 1024 = Inr url"
    show "\<not> no_image_returned (Inr response)"
      using a(2) imagePartFromResponse_None [of response] by simp
    let ?info = "\<lparr>markedSceneUrl = mu, resizedProductUrl = pu, resizedSceneUrl = su,
                  finalPrompt = finalPrompt'\<rparr>"
    have "outcome = (Inr \<lparr>finalImageUrl = url, debugInfo = ?info\<rparr>,
                  [lightingRequest, descriptionRequest, synthesisRequest])"
      unfolding run using a by simp
    then show "\<exists>info.
               finalPrompt info = finalPrompt' \<and>
               fileToDataUrl env markedResizedEnvironmentImage = Inr (markedSceneUrl info) \<and>
               fileToDataUrl env resizedObjectImage = Inr (resizedProductUrl info) \<and>
               fileToDataUrl env resizedEnvironmentImage = Inr (resizedSceneUrl info) \<and>
               outcome =
                 (Inr \<lparr>finalImageUrl = url, debugInfo = info\<rparr>,
                  [lightingRequest, descriptionRequest, synthesisRequest])"
      using u by (intro exI [of _ ?info]) simp
  qed
  have c4: "\<forall>response d e.
            ai synthesisRequest = Inr response \<and> imagePartFromResponse response = Some d \<and>
            cropToOriginalAspectRatio env (''data:'' @ mimeType d @ '';base64,'' @ data d)
              (real originalWidth) (real originalHeight) 1024 = Inl e \<longrightarrow>
            outcome = (Inl e, [lightingRequest, descriptionRequest, synthesisRequest])"
    unfolding run by simp
  show ?thesis
    using c1 c2 c3 c4 by (intro conjI)
qed

theorem generateCompositeImage_synthesis_witness:
  "generateCompositeImage sample_dom failing_client (Some ''key'') sample_product ''a lamp''
     sample_scene ''a room'' \<lparr>xPercent = 50, yPercent = 50\<rparr> [] 50 [] =
     (Inl (ServiceError ''network error''),
      [\<lparr>model = ''gemini-2.5-flash-lite'',
        contents = [TextPart lightingPrompt,
                    InlineDataPart \<lparr>mimeType = ''image/jpeg'', data = ''room''\<rparr>]\<rparr>,
       \<lparr>model = ''gemini-2.5-flash-lite'',
        contents = [TextPart descriptionPrompt,
                    InlineDataPart \<lparr>mimeType = ''image/jpeg'', data = ''marked-room''\<rparr>]\<rparr>,
       \<lparr>model = ''gemini-2.5-flash-image'',
        contents = [InlineDataPart \<lparr>mimeType = ''image/jpeg'', data = ''lamp''\<rparr>,
                    InlineDataPart \<lparr>mimeType = ''image/jpeg'', data = ''room''\<rparr>,
                    TextPart (prompt fallback_location fallback_lighting
                      ''normal and realistic'' [])]\<rparr>]) \<and>
   generateCompositeImage sample_dom silent_client (Some ''key'') sample_product ''a lamp''
     sample_scene ''a room'' \<lparr>xPercent = 50, yPercent = 50\<rparr> [] 50 [] =
     (Inl NoImageReturned,
      [\<lparr>model = ''gemini-2.5-flash-lite'',
        contents = [TextPart lightingPrompt,
                    InlineDataPart \<lparr>mimeType = ''image/jpeg'', data = ''room''\<rparr>]\<rparr>,
       \<lparr>model = ''gemini-2.5-flash-lite'',
        contents = [TextPart descriptionPrompt,
                    InlineDataPart \<lparr>mimeType = ''image/jpeg'', data = ''marked-room''\<rparr>]\<rparr>,
       \<lparr>model = ''gemini-2.5-flash-image'',
        contents = [InlineDataPart \<lparr>mimeType = ''image/jpeg'', data = ''lamp''\<rparr>,
                    InlineDataPart \<lparr>mimeType = ''image/jpeg'', data = ''room''\<rparr>,
                    TextPart (prompt ''No image.'' ''No image.''
                      ''normal and realistic'' [])]\<rparr>]) \<and>
   generateCompositeImage sample_dom sample_client (Some ''key'') sample_product ''a lamp''
     sample_scene ''a room'' \<lparr>xPercent = 50, yPercent = 50\<rparr> [] 50 [] =
     (Inr \<lparr>finalImageUrl = ''data:image/jpeg;base64,crop1024x768'',
           debugInfo = \<lparr>markedSceneUrl = ''data:image/jpeg;base64,marked-room'',
                        resizedProductUrl = ''data:image/jpeg;base64,lamp'',
                        resizedSceneUrl = ''data:image/jpeg;base64,room'',
                        finalPrompt = prompt fallback_location fallback_lighting
                          ''normal and realistic'' []\<rparr>\<rparr>,
      [\<lparr>model = ''gemini-2.5-flash-lite'',
        contents = [TextPart lightingPrompt,
                    InlineDataPart \<lparr>mimeType = ''image/jpeg'', data = ''room''\<rparr>]\<rparr>,
       \<lparr>model = ''gemini-2.5-flash-lite'',
        contents = [TextPart descriptionPrompt,
                    InlineDataPart \<lparr>mimeType = ''image/jpeg'', data = ''marked-room''\<rparr>]\<rparr>,
       \<lparr>model = ''gemini-2.5-flash-image'',
        contents = [InlineDataPart \<lparr>mimeType = ''image/jpeg'', data = ''lamp''\<rparr>,
                    InlineDataPart \<lparr>mimeType = ''image/jpeg'', data = ''room''\<rparr>,
                    TextPart (prompt fallback_location fallback_lighting
                      ''normal and realistic'' [])]\<rparr>])"
proof -
  note failing = generateCompositeImage_synthesis
    [where GoogleGenAI = failing_client and objectDescription = "''a lamp''"
      and environmentDescription = "''a room''" and customInstructions = "[]"
      and shadowIntensity = 50,
      OF sample_getApiKey sample_dimensions sample_resize_product sample_resize_scene
      sample_part_scene sample_mark sample_part_marked sample_part_product,
      THEN conjunct1, rule_format, of "ServiceError ''network error''"]
  note silent = generateCompositeImage_synthesis
    [where GoogleGenAI = silent_client and objectDescription = "''a lamp''"
      and environmentDescription = "''a room''" and customInstructions = "[]"
      and shadowIntensity = 50,
      OF sample_getApiKey sample_dimensions sample_resize_product sample_resize_scene
      sample_part_scene sample_mark sample_part_marked sample_part_product,
      THEN conjunct2, THEN conjunct1, rule_format,
      of "\<lparr>candidates = Some [Candidate (Some (Content (Some [TextPart ''No image.''])))],
          text' = ''No image.''\<rparr>"]
  note ok = generateCompositeImage_synthesis
    [where GoogleGenAI = sample_client and objectDescription = "''a lamp''"
      and environmentDescription = "''a room''" and customInstructions = "[]"
      and shadowIntensity = 50,
      OF sample_getApiKey sample_dimensions sample_resize_product sample_resize_scene
      sample_part_scene sample_mark sample_part_marked sample_part_product,
      THEN conjunct2, THEN conjunct2, THEN conjunct1, rule_format,
      of sample_response "\<lparr>mimeType = ''image/png'', data = ''generated''\<rparr>"
        "''data:image/jpeg;base64,crop1024x768''", THEN conjunct2]
  have crop: "cropToOriginalAspectRatio sample_dom
     (''data:'' @ mimeType \<lparr>mimeType = ''image/png'', data = ''generated''\<rparr> @ '';base64,'' @
      data \<lparr>mimeType = ''image/png'', data = ''generated''\<rparr>)
     (real (800::nat)) (real (600::nat)) 1024 = Inr ''data:image/jpeg;base64,crop1024x768''"
    using sample_crop by simp
  have c1: "generateCompositeImage sample_dom failing_client (Some ''key'') sample_product ''a lamp''
     sample_scene ''a room'' \<lparr>xPercent = 50, yPercent = 50\<rparr> [] 50 [] =
     (Inl (ServiceError ''network error''),
      [\<lparr>model = ''gemini-2.5-flash-lite'',
        contents = [TextPart lightingPrompt,
                    InlineDataPart \<lparr>mimeType = ''image/jpeg'', data = ''room''\<rparr>]\<rparr>,
       \<lparr>model = ''gemini-2.5-flash-lite'',
        contents = [TextPart descriptionPrompt,
                    InlineDataPart \<lparr>mimeType = ''image/jpeg'', data = ''marked-room''\<rparr>]\<rparr>,
       \<lparr>model = ''gemini-2.5-flash-image'',
        contents = [InlineDataPart \<lparr>mimeType = ''image/jpeg'', data = ''lamp''\<rparr>,
                    InlineDataPart \<lparr>mimeType = ''image/jpeg'', data = ''room''\<rparr>,
                    TextPart (prompt fallback_location fallback_lighting
                      ''normal and realistic'' [])]\<rparr>])"
    using failing by (simp add: failing_client_def sample_shadow sample_custom)
  have c2: "generateCompositeImage sample_dom silent_client (Some ''key'') sample_product ''a lamp''
     sample_scene ''a room'' \<lparr>xPercent = 50, yPercent = 50\<rparr> [] 50 [] =
     (Inl NoImageReturned,
      [\<lparr>model = ''gemini-2.5-flash-lite'',
        contents = [TextPart lightingPrompt,
                    InlineDataPart \<lparr>mimeType = ''image/jpeg'', data = ''room''\<rparr>]\<rparr>,
       \<lparr>model = ''gemini-2.5-flash-lite'',
        contents = [TextPart descriptionPrompt,
                    InlineDataPart \<lparr>mimeType = ''image/jpeg'', data = ''marked-room''\<rparr>]\<rparr>,
       \<lparr>model = ''gemini-2.5-flash-image'',
        contents = [InlineDataPart \<lparr>mimeType = ''image/jpeg'', data = ''lamp''\<rparr>,
                    InlineDataPart \<lparr>mimeType = ''image/jpeg'', data = ''room''\<rparr>,
                    TextPart (prompt ''No image.'' ''No image.''
                      ''normal and realistic'' [])]\<rparr>])"
    using silent by (simp add: silent_client_def no_image_returned_def sample_shadow sample_custom)
  from ok obtain info where
    i: "finalPrompt info =
          prompt (case sample_client ''key''
                         \<lparr>model = ''gemini-2.5-flash-lite'',
                          contents = [TextPart descriptionPrompt,
                            InlineDataPart \<lparr>mimeType = ''image/jpeg'', data = ''marked-room''\<rparr>]\<rparr> of
                    Inl e \<Rightarrow> fallback_location | Inr r \<Rightarrow> text' r)
            (case sample_client ''key''
                         \<lparr>model = ''gemini-2.5-flash-lite'',
                          contents = [TextPart lightingPrompt,
                            InlineDataPart \<lparr>mimeType = ''image/jpeg'', data = ''room''\<rparr>]\<rparr> of
                    Inl e \<Rightarrow> fallback_lighting | Inr r \<Rightarrow> text' r)
            (getShadowDescription 50) (customInstructionsPart [])"
      "fileToDataUrl sample_dom sample_marked = Inr (markedSceneUrl info)"
      "fileToDataUrl sample_dom sample_padded_product = Inr (resizedProductUrl info)"
      "fileToDataUrl sample_dom sample_padded = Inr (resizedSceneUrl info)"
    and r: "generateCompositeImage sample_dom sample_client (Some ''key'') sample_product
        ''a lamp'' sample_scene ''a room'' \<lparr>xPercent = 50, yPercent = 50\<rparr> [] 50 [] =
      (Inr \<lparr>finalImageUrl = ''data:image/jpeg;base64,crop1024x768'', debugInfo = info\<rparr>,
       [\<lparr>model = ''gemini-2.5-flash-lite'',
         contents = [TextPart lightingPrompt,
                     InlineDataPart \<lparr>mimeType = ''image/jpeg'', data = ''room''\<rparr>]\<rparr>,
        \<lparr>model = ''gemini-2.5-flash-lite'',
         contents = [TextPart descriptionPrompt,
                     InlineDataPart \<lparr>mimeType = ''image/jpeg'', data = ''marked-room''\<rparr>]\<rparr>,
        \<lparr>model = ''gemini-2.5-flash-image'',
         contents = [InlineDataPart \<lparr>mimeType = ''image/jpeg'', data = ''lamp''\<rparr>,
                     InlineDataPart \<lparr>mimeType = ''image/jpeg'', data = ''room''\<rparr>,
                     TextPart (prompt fallback_location fallback_lighting
                       ''normal and realistic'' [])]\<rparr>])"
    using crop sample_image_part
    by (auto simp: sample_client_def sample_shadow sample_custom)
  have info: "info = \<lparr>markedSceneUrl = ''data:image/jpeg;base64,marked-room'',
                        resizedProductUrl = ''data:image/jpeg;base64,lamp'',
                        resizedSceneUrl = ''data:image/jpeg;base64,room'',
                        finalPrompt = prompt fallback_location fallback_lighting
                          ''normal and realistic'' []\<rparr>"
    using i unfolding sample_urls
    by (cases info) (simp add: sample_client_def sample_shadow sample_custom)
  show ?thesis
    using c1 c2 r unfolding info by simp
qed

text \<open>
  C5. Suppose the local steps of \<^verbatim>\<open>generateCompositeImage\<close> succeed, the synthesis call
  returns an inline image and the crop-back succeeds. Then the function returns a result,
  whether or not the lighting call and the location call fail; the two descriptions stand
  verbatim in the final prompt; a lighting call that fails gives the fixed fallback
  sentence as the lighting description, a location call that fails gives the fixed fallback
  phrase as the location description; and exactly three requests are sent, one per call: no
  call is retried.
\<close>

theorem generateCompositeImage_fallbacks:
  assumes "getApiKey API_KEY = Inr apiKey"
    and "getImageDimensions env environmentImage = Inr (originalWidth, originalHeight)"
    and "resizeImage env objectImage 1024 = Inr resizedObjectImage"
    and "resizeImage env environmentImage 1024 = Inr resizedEnvironmentImage"
    and "fileToPart env resizedEnvironmentImage = Inr cleanEnvironmentImagePart"
    and "markImage env resizedEnvironmentImage dropPosition
           (real originalWidth, real originalHeight) = Inr markedResizedEnvironmentImage"
    and "fileToPart env markedResizedEnvironmentImage = Inr markedEnvironmentImagePart"
    and "fileToPart env resizedObjectImage = Inr objectImagePart"
    and "\<forall>req. model req = ''gemini-2.5-flash-image'' \<longrightarrow> GoogleGenAI apiKey req = Inr response"
    and "imagePartFromResponse response = Some d"
    and "cropToOriginalAspectRatio env (''data:'' @ mimeType d @ '';base64,'' @ data d)
           (real originalWidth) (real originalHeight) 1024 = Inr url"
    and "0 < originalWidth" "0 < originalHeight"
  shows "\<exists>lightingDescription semanticLocationDescription result.
     generateCompositeImage env GoogleGenAI API_KEY objectImage objectDescription
       environmentImage environmentDescription dropPosition customInstructions shadowIntensity [] =
       (Inr result,
        [\<lparr>model = ''gemini-2.5-flash-lite'',
          contents = [TextPart lightingPrompt, cleanEnvironmentImagePart]\<rparr>,
         \<lparr>model = ''gemini-2.5-flash-lite'',
          contents = [TextPart descriptionPrompt, markedEnvironmentImagePart]\<rparr>,
         \<lparr>model = ''gemini-2.5-flash-image'',
          contents = [objectImagePart, cleanEnvironmentImagePart,
                      TextPart (finalPrompt (debugInfo result))]\<rparr>]) \<and>
     finalImageUrl result = url \<and>
     finalPrompt (debugInfo result) =
       prompt semanticLocationDescription lightingDescription
         (getShadowDescription shadowIntensity) (customInstructionsPart customInstructions) \<and>
     sublist lightingDescription (finalPrompt (debugInfo result)) \<and>
     sublist semanticLocationDescription (finalPrompt (debugInfo result)) \<and>
     (isl (GoogleGenAI apiKey
             \<lparr>model = ''gemini-2.5-flash-lite'',
              contents = [TextPart lightingPrompt, cleanEnvironmentImagePart]\<rparr>) \<longrightarrow>
        lightingDescription = fallback_lighting) \<and>
     (isl (GoogleGenAI apiKey
             \<lparr>model = ''gemini-2.5-flash-lite'',
              contents = [TextPart descriptionPrompt, markedEnvironmentImagePart]\<rparr>) \<longrightarrow>
        semanticLocationDescription = fallback_location)"
proof -
  let ?ai = "GoogleGenAI apiKey"
  let ?lreq = "\<lparr>model = ''gemini-2.5-flash-lite'',
          contents = [TextPart lightingPrompt, cleanEnvironmentImagePart]\<rparr>"
  let ?dreq = "\<lparr>model = ''gemini-2.5-flash-lite'',
          contents = [TextPart descriptionPrompt, markedEnvironmentImagePart]\<rparr>"
  let ?l = "case ?ai ?lreq of Inl e \<Rightarrow> fallback_lighting | Inr r \<Rightarrow> text' r"
  let ?s = "case ?ai ?dreq of Inl e \<Rightarrow> fallback_location | Inr r \<Rightarrow> text' r"
  let ?p = "prompt ?s ?l (getShadowDescription shadowIntensity)
      (customInstructionsPart customInstructions)"
  obtain mu pu su where u: "fileToDataUrl env markedResizedEnvironmentImage = Inr mu"
    "fileToDataUrl env resizedObjectImage = Inr pu"
    "fileToDataUrl env resizedEnvironmentImage = Inr su"
    using assms(5,7,8) by (blast dest: fileToPart_read)
  note run = generateCompositeImage_run [OF assms(1-8) u]
  have synth: "?ai \<lparr>model = ''gemini-2.5-flash-image'',
          contents = [objectImagePart, cleanEnvironmentImagePart, TextPart ?p]\<rparr> = Inr response"
    using assms(9) by simp
  let ?r = "\<lparr>finalImageUrl = url,
             debugInfo = \<lparr>markedSceneUrl = mu, resizedProductUrl = pu, resizedSceneUrl = su,
                          finalPrompt = ?p\<rparr>\<rparr>"
  have fp: "finalPrompt (debugInfo ?r) = ?p"
    by simp
  have res: "generateCompositeImage env GoogleGenAI API_KEY objectImage objectDescription
       environmentImage environmentDescription dropPosition customInstructions shadowIntensity [] =
       (Inr ?r,
        [?lreq, ?dreq,
         \<lparr>model = ''gemini-2.5-flash-image'',
          contents = [objectImagePart, cleanEnvironmentImagePart, TextPart ?p]\<rparr>])"
    unfolding run Let_def synth using assms(10,11) by simp
  have c1: "generateCompositeImage env GoogleGenAI API_KEY objectImage objectDescription
       environmentImage environmentDescription dropPosition customInstructions shadowIntensity [] =
       (Inr ?r,
        [?lreq, ?dreq,
         \<lparr>model = ''gemini-2.5-flash-image'',
          contents = [objectImagePart, cleanEnvironmentImagePart,
                      TextPart (finalPrompt (debugInfo ?r))]\<rparr>])"
    unfolding fp by (rule res)
  have c2: "finalImageUrl ?r = url"
    by simp
  have c4: "sublist ?l (finalPrompt (debugInfo ?r))"
    and c5: "sublist ?s (finalPrompt (debugInfo ?r))"
    unfolding fp by (rule sublist_prompt)+
  have fl: "isl (?ai ?lreq) \<longrightarrow> ?l = fallback_lighting"
    by (simp split: sum.splits)
  have fs: "isl (?ai ?dreq) \<longrightarrow> ?s = fallback_location"
    by (simp split: sum.splits)
  show ?thesis
    apply (rule exI [of _ ?l], rule exI [of _ ?s], rule exI [of _ ?r])
    apply (intro conjI)
          apply (rule c1)
         apply (rule c2)
        apply (rule fp)
       apply (rule c4)
      apply (rule c5)
     apply (rule fl)
    apply (rule fs)
    done
qed

theorem generateCompositeImage_fallbacks_witness:
  "generateCompositeImage sample_dom sample_client (Some ''key'') sample_product ''a lamp''
     sample_scene ''a room'' \<lparr>xPercent = 50, yPercent = 50\<rparr> [] 50 [] =
     (Inr \<lparr>finalImageUrl = ''data:image/jpeg;base64,crop1024x768'',
           debugInfo = \<lparr>markedSceneUrl = ''data:image/jpeg;base64,marked-room'',
                        resizedProductUrl = ''data:image/jpeg;base64,lamp'',
                        resizedSceneUrl = ''data:image/jpeg;base64,room'',
                        finalPrompt = prompt fallback_location fallback_lighting
                          ''normal and realistic'' []\<rparr>\<rparr>,
      [\<lparr>model = ''gemini-2.5-flash-lite'',
        contents = [TextPart lightingPrompt,
                    InlineDataPart \<lparr>mimeType = ''image/jpeg'', data = ''room''\<rparr>]\<rparr>,
       \<lparr>model = ''gemini-2.5-flash-lite'',
        contents = [TextPart descriptionPrompt,
                    InlineDataPart \<lparr>mimeType = ''image/jpeg'', data = ''marked-room''\<rparr>]\<rparr>,
       \<lparr>model = ''gemini-2.5-flash-image'',
        contents = [InlineDataPart \<lparr>mimeType = ''image/jpeg'', data = ''lamp''\<rparr>,
                    InlineDataPart \<lparr>mimeType = ''image/jpeg'', data = ''room''\<rparr>,
                    TextPart (prompt fallback_location fallback_lighting
                      ''normal and realistic'' [])]\<rparr>]) \<and>
   sublist fallback_lighting
     (prompt fallback_location fallback_lighting ''normal and realistic'' []) \<and>
   sublist fallback_location
     (prompt fallback_location fallback_lighting ''normal and realistic'' [])"
proof -
  let ?pos = "\<lparr>xPercent = 50, yPercent = 50\<rparr>"
  let ?lreq = "\<lparr>model = ''gemini-2.5-flash-lite'',
        contents = [TextPart lightingPrompt,
                    InlineDataPart \<lparr>mimeType = ''image/jpeg'', data = ''room''\<rparr>]\<rparr>"
  let ?dreq = "\<lparr>model = ''gemini-2.5-flash-lite'',
        contents = [TextPart descriptionPrompt,
                    InlineDataPart \<lparr>mimeType = ''image/jpeg'', data = ''marked-room''\<rparr>]\<rparr>"
  have synth: "\<forall>req. model req = ''gemini-2.5-flash-image'' \<longrightarrow>
      sample_client ''key'' req = Inr sample_response"
    by (simp add: sample_client_def)
  have crop: "cropToOriginalAspectRatio sample_dom
     (''data:'' @ mimeType \<lparr>mimeType = ''image/png'', data = ''generated''\<rparr> @ '';base64,'' @
      data \<lparr>mimeType = ''image/png'', data = ''generated''\<rparr>)
     (real (800::nat)) (real (600::nat)) 1024 = Inr ''data:image/jpeg;base64,crop1024x768''"
    using sample_crop by simp
  have fail: "isl (sample_client ''key'' ?lreq)" "isl (sample_client ''key'' ?dreq)"
    by (simp_all add: sample_client_def)
  have pw: "0 < (800::nat)" and ph: "0 < (600::nat)"
    by simp_all
  from generateCompositeImage_fallbacks
    [where GoogleGenAI = sample_client and apiKey = "''key''" and objectDescription = "''a lamp''"
      and environmentDescription = "''a room''" and customInstructions = "[]"
      and shadowIntensity = 50,
      OF sample_getApiKey sample_dimensions sample_resize_product sample_resize_scene
      sample_part_scene sample_mark sample_part_marked sample_part_product synth
      sample_image_part crop pw ph]
  obtain l s result where
    run: "generateCompositeImage sample_dom sample_client (Some ''key'') sample_product ''a lamp''
       sample_scene ''a room'' ?pos [] 50 [] =
       (Inr result,
        [?lreq, ?dreq,
         \<lparr>model = ''gemini-2.5-flash-image'',
          contents = [InlineDataPart \<lparr>mimeType = ''image/jpeg'', data = ''lamp''\<rparr>,
                      InlineDataPart \<lparr>mimeType = ''image/jpeg'', data = ''room''\<rparr>,
                      TextPart (finalPrompt (debugInfo result))]\<rparr>])"
    and p: "finalPrompt (debugInfo result) =
       prompt s l (getShadowDescription 50) (customInstructionsPart [])"
    and sub: "sublist l (finalPrompt (debugInfo result))" "sublist s (finalPrompt (debugInfo result))"
    and l: "isl (sample_client ''key'' ?lreq) \<longrightarrow> l = fallback_lighting"
    and s: "isl (sample_client ''key'' ?dreq) \<longrightarrow> s = fallback_location"
    by blast
  have ls: "l = fallback_lighting" "s = fallback_location"
    using l s fail by simp_all
  have p': "finalPrompt (debugInfo result) =
      prompt fallback_location fallback_lighting ''normal and realistic'' []"
    using p unfolding ls sample_shadow sample_custom .
  have "fst (generateCompositeImage sample_dom sample_client (Some ''key'') sample_product
     ''a lamp'' sample_scene ''a room'' ?pos [] 50 []) =
     Inr \<lparr>finalImageUrl = ''data:image/jpeg;base64,crop1024x768'',
          debugInfo = \<lparr>markedSceneUrl = ''data:image/jpeg;base64,marked-room'',
                       resizedProductUrl = ''data:image/jpeg;base64,lamp'',
                       resizedSceneUrl = ''data:image/jpeg;base64,room'',
                       finalPrompt = prompt fallback_location fallback_lighting
                         ''normal and realistic'' []\<rparr>\<rparr>"
    unfolding sample_run
    by (simp add: sample_client_def sample_image_part sample_crop sample_shadow sample_custom
        Let_def)
  then have result: "result = \<lparr>finalImageUrl = ''data:image/jpeg;base64,crop1024x768'',
          debugInfo = \<lparr>markedSceneUrl = ''data:image/jpeg;base64,marked-room'',
                       resizedProductUrl = ''data:image/jpeg;base64,lamp'',
                       resizedSceneUrl = ''data:image/jpeg;base64,room'',
                       finalPrompt = prompt fallback_location fallback_lighting
                         ''normal and realistic'' []\<rparr>\<rparr>"
    unfolding run by simp
  show ?thesis
    using run sub unfolding p' ls unfolding result by simp
qed

lemma replace_spaces_no_space:
  "c \<in> set (replace_spaces s) \<Longrightarrow> \<not> is_space c"
  by (induction s rule: replace_spaces.induct) (auto simp: is_space_def split: if_splits)

lemma replace_spaces_id:
  "\<not> list_ex is_space s \<Longrightarrow> replace_spaces s = s"
  by (induction s) auto

lemma dataURLtoFile_name:
  "dataURLtoFile env dataurl filename = Inr f \<Longrightarrow> name f = filename"
  by (auto simp: dataURLtoFile_def Let_def split: if_splits option.splits)
text \<open>
  C9. Suppose the key is set and the product image is resized and read.
  \<^verbatim>\<open>rotateProductImage\<close> sends one request, the resized image with the prompt that names
  the rotation. If the call fails, the function rejects with the error of the call; if the
  first candidate has no inline image part, it rejects with the error of line 527: there is
  no fallback value. Otherwise its outcome is that of \<^verbatim>\<open>dataURLtoFile\<close> on the returned
  image under the name \<^verbatim>\<open>rotated-\<close>, the description with every run of white space replaced
  by a hyphen (so without white space, and unchanged when it had none), a hyphen and the
  name of the product file; whenever a file is returned, this is its name.
\<close>

theorem rotateProductImage_outcome:
  fixes GoogleGenAI :: client and rotationDescription :: string
  assumes "getApiKey API_KEY = Inr apiKey"
    and "resizeImage env productImage 1024 = Inr resizedProductImage"
    and "fileToPart env resizedProductImage = Inr productImagePart"
  defines "rotationRequest \<equiv>
      \<lparr>model = ''gemini-2.5-flash-image'',
       contents = [productImagePart,
                   TextPart (rotation_before_description @ rotationDescription @
                             rotation_after_description)]\<rparr>"
    and "newFileName \<equiv>
      ''rotated-'' @ replace_spaces rotationDescription @ ''-'' @ name productImage"
    and "outcome \<equiv>
      rotateProductImage env GoogleGenAI API_KEY productImage rotationDescription []"
  shows "(\<forall>e. GoogleGenAI apiKey rotationRequest = Inl e \<longrightarrow>
            outcome = (Inl e, [rotationRequest])) \<and>
         (\<forall>response.
            GoogleGenAI apiKey rotationRequest = Inr response \<and>
            no_image_returned (Inr response) \<longrightarrow>
            outcome = (Inl NoRotatedImageReturned, [rotationRequest])) \<and>
         (\<forall>response d.
            GoogleGenAI apiKey rotationRequest = Inr response \<and>
            imagePartFromResponse response = Some d \<longrightarrow>
            \<not> no_image_returned (Inr response) \<and>
            outcome =
              (dataURLtoFile env (''data:'' @ mimeType d @ '';base64,'' @ data d) newFileName,
               [rotationRequest])) \<and>
         (\<forall>f. fst outcome = Inr f \<longrightarrow> name f = newFileName) \<and>
         (\<forall>c \<in> set (replace_spaces rotationDescription). \<not> is_space c) \<and>
         (\<not> list_ex is_space rotationDescription \<longrightarrow>
            replace_spaces rotationDescription = rotationDescription)"
proof -
  have run: "outcome =
     (case GoogleGenAI apiKey rotationRequest of
        Inl e \<Rightarrow> (Inl e, [rotationRequest])
      | Inr response \<Rightarrow>
          (case imagePartFromResponse response of
             None \<Rightarrow> (Inl NoRotatedImageReturned, [rotationRequest])
           | Some d \<Rightarrow>
               (dataURLtoFile env (''data:'' @ mimeType d @ '';base64,'' @ data d) newFileName,
                [rotationRequest])))"
    unfolding outcome_def rotateProductImage_def rotationRequest_def newFileName_def
    by (simp add: assms(1-3) await_def settled_def generateContent_def reject_def Let_def
        split: sum.splits option.splits)
  have c1: "\<forall>e. GoogleGenAI apiKey rotationRequest = Inl e \<longrightarrow>
            outcome = (Inl e, [rotationRequest])"
    unfolding run by simp
  have c2: "\<forall>response.
            GoogleGenAI apiKey rotationRequest = Inr response \<and>
            no_image_returned (Inr response) \<longrightarrow>
            outcome = (Inl NoRotatedImageReturned, [rotationRequest])"
    unfolding run by (simp add: imagePartFromResponse_None [symmetric])
  have c3: "\<forall>response d.
            GoogleGenAI apiKey rotationRequest = Inr response \<and>
            imagePartFromResponse response = Some d \<longrightarrow>
            \<not> no_image_returned (Inr response) \<and>
            outcome =
              (dataURLtoFile env (''data:'' @ mimeType d @ '';base64,'' @ data d) newFileName,
               [rotationRequest])"
    unfolding run by (simp add: imagePartFromResponse_None [symmetric])
  have c4: "\<forall>f. fst outcome = Inr f \<longrightarrow> name f = newFileName"
    unfolding run by (auto split: sum.splits option.splits dest: dataURLtoFile_name)
  have c5: "\<forall>c \<in> set (replace_spaces rotationDescription). \<not> is_space c"
    by (blast dest: replace_spaces_no_space)
  have c6: "\<not> list_ex is_space rotationDescription \<longrightarrow>
            replace_spaces rotationDescription = rotationDescription"
    by (blast intro: replace_spaces_id)
  show ?thesis
    using c1 c2 c3 c4 c5 c6 by (intro conjI)
qed

lemma rotation_resize:
  "resizeImage rotation_dom sample_product 1024 = Inr sample_padded_product"
  by (simp add: resizeImage_def rotation_dom_def sample_dom_def sample_product_def
      sample_padded_product_def Let_def canvas_side_def)

lemma rotation_part:
  "fileToPart rotation_dom sample_padded_product =
     Inr (InlineDataPart \<lparr>mimeType = ''image/jpeg'', data = ''lamp''\<rparr>)"
  by (simp add: fileToPart_def rotation_dom_def sample_dom_def sample_padded_product_def
      is_line_terminator_def)

lemma rotation_image_part:
  "imagePartFromResponse rotation_response = Some \<lparr>mimeType = ''image/png'', data = ''AAAA''\<rparr>"
  by (simp add: imagePartFromResponse_def rotation_response_def)

lemma rotation_dataURLtoFile:
  "dataURLtoFile rotation_dom ''data:image/png;base64,AAAA'' filename =
     Inr \<lparr>name = filename, type = ''image/png'', bits = ByteArray [0, 0, 0]\<rparr>"
  by (simp add: dataURLtoFile_def rotation_dom_def is_line_terminator_def Let_def
      numeral_3_eq_3)

theorem rotateProductImage_outcome_witness:
  "rotateProductImage rotation_dom rotation_client (Some ''key'') sample_product ''back view'' [] =
     (Inr \<lparr>name = ''rotated-back-view-lamp'', type = ''image/png'', bits = ByteArray [0, 0, 0]\<rparr>,
      [\<lparr>model = ''gemini-2.5-flash-image'',
        contents = [InlineDataPart \<lparr>mimeType = ''image/jpeg'', data = ''lamp''\<rparr>,
                    TextPart (rotation_before_description @ ''back view'' @
                              rotation_after_description)]\<rparr>]) \<and>
   rotateProductImage rotation_dom silent_client (Some ''key'') sample_product ''back view'' [] =
     (Inl NoRotatedImageReturned,
      [\<lparr>model = ''gemini-2.5-flash-image'',
        contents = [InlineDataPart \<lparr>mimeType = ''image/jpeg'', data = ''lamp''\<rparr>,
                    TextPart (rotation_before_description @ ''back view'' @
                              rotation_after_description)]\<rparr>]) \<and>
   rotateProductImage rotation_dom failing_client (Some ''key'') sample_product ''back view'' [] =
     (Inl (ServiceError ''network error''),
      [\<lparr>model = ''gemini-2.5-flash-image'',
        contents = [InlineDataPart \<lparr>mimeType = ''image/jpeg'', data = ''lamp''\<rparr>,
                    TextPart (rotation_before_description @ ''back view'' @
                              rotation_after_description)]\<rparr>]) \<and>
   replace_spaces ''back view'' = ''back-view'' \<and> replace_spaces ''lamp'' = ''lamp''"
proof -
  have n: "name sample_product = ''lamp''"
    by (simp add: sample_product_def)
  have sp: "replace_spaces ''back view'' = ''back-view''"
    by (simp add: is_space_def)
  note ok = rotateProductImage_outcome
    [where GoogleGenAI = rotation_client and rotationDescription = "''back view''",
      OF sample_getApiKey rotation_resize rotation_part,
      THEN conjunct2, THEN conjunct2, THEN conjunct1, rule_format,
      of rotation_response "\<lparr>mimeType = ''image/png'', data = ''AAAA''\<rparr>", THEN conjunct2]
  note silent = rotateProductImage_outcome
    [where GoogleGenAI = silent_client and rotationDescription = "''back view''",
      OF sample_getApiKey rotation_resize rotation_part,
      THEN conjunct2, THEN conjunct1, rule_format,
      of "\<lparr>candidates = Some [Candidate (Some (Content (Some [TextPart ''No image.''])))],
          text' = ''No image.''\<rparr>"]
  note failing = rotateProductImage_outcome
    [where GoogleGenAI = failing_client and rotationDescription = "''back view''",
      OF sample_getApiKey rotation_resize rotation_part,
      THEN conjunct1, rule_format, of "ServiceError ''network error''"]
  note same = rotateProductImage_outcome
    [where GoogleGenAI = rotation_client and rotationDescription = "''lamp''",
      OF sample_getApiKey rotation_resize rotation_part,
      THEN conjunct2, THEN conjunct2, THEN conjunct2, THEN conjunct2, THEN conjunct2, THEN mp]
  have c1: "rotateProductImage rotation_dom rotation_client (Some ''key'') sample_product
      ''back view'' [] =
     (Inr \<lparr>name = ''rotated-back-view-lamp'', type = ''image/png'', bits = ByteArray [0, 0, 0]\<rparr>,
      [\<lparr>model = ''gemini-2.5-flash-image'',
        contents = [InlineDataPart \<lparr>mimeType = ''image/jpeg'', data = ''lamp''\<rparr>,
                    TextPart (rotation_before_description @ ''back view'' @
                              rotation_after_description)]\<rparr>])"
    using ok rotation_image_part rotation_dataURLtoFile
    unfolding n sp by (simp add: rotation_client_def)
  have c2: "rotateProductImage rotation_dom silent_client (Some ''key'') sample_product
      ''back view'' [] =
     (Inl NoRotatedImageReturned,
      [\<lparr>model = ''gemini-2.5-flash-image'',
        contents = [InlineDataPart \<lparr>mimeType = ''image/jpeg'', data = ''lamp''\<rparr>,
                    TextPart (rotation_before_description @ ''back view'' @
                              rotation_after_description)]\<rparr>])"
    using silent by (simp add: silent_client_def no_image_returned_def)
  have c3: "rotateProductImage rotation_dom failing_client (Some ''key'') sample_product
      ''back view'' [] =
     (Inl (ServiceError ''network error''),
      [\<lparr>model = ''gemini-2.5-flash-image'',
        contents = [InlineDataPart \<lparr>mimeType = ''image/jpeg'', data = ''lamp''\<rparr>,
                    TextPart (rotation_before_description @ ''back view'' @
                              rotation_after_description)]\<rparr>])"
    using failing by (simp add: failing_client_def)
  have c4: "replace_spaces ''lamp'' = ''lamp''"
    using same by (simp add: is_space_def)
  show ?thesis
    using c1 c2 c3 c4 sp by simp
qed

end
